theory Spec2Isabelle
  imports Main
begin

section \<open>Text\<close>

text \<open>
  Text is modelled by \<^typ>\<open>string\<close>: a list of characters with codes 0 to 255. For the
  ASCII text that AWS profile names, ARNs and credentials consist of, the code units of a
  JavaScript string, the bytes of the UTF-8 file and the bytes the shell sees coincide
  with these characters. Line terminators and white space of JavaScript beyond code 255
  (U+2028, U+2029, U+FEFF and the Unicode space separators) have no counterpart here.
\<close>

definition line_terminator :: "char \<Rightarrow> bool" where
  "line_terminator c \<longleftrightarrow> c = CHR 0x0A \<or> c = CHR 0x0D"

definition js_whitespace :: "char \<Rightarrow> bool" where
  "js_whitespace c \<longleftrightarrow>
     c = CHR 0x09 \<or> c = CHR 0x0A \<or> c = CHR 0x0B \<or> c = CHR 0x0C \<or> c = CHR 0x0D \<or>
     c = CHR 0x20 \<or> c = CHR 0xA0"

text \<open>\<^verbatim>\<open>String.prototype.trim\<close>.\<close>

definition trim :: "string \<Rightarrow> string" where
  "trim s = rev (dropWhile js_whitespace (rev (dropWhile js_whitespace s)))"

definition digit :: "char \<Rightarrow> bool" where
  "digit c \<longleftrightarrow> c \<in> set ''0123456789''"

fun join_with :: "string \<Rightarrow> string list \<Rightarrow> string" where
  "join_with sep [] = []"
| "join_with sep [x] = x"
| "join_with sep (x # y # ys) = x @ sep @ join_with sep (y # ys)"

section \<open>index.js: constants\<close>

text \<open>
  \<^verbatim>\<open>REGEX.profile = /\[profile .*]/g\<close>: the literal opening, then as many characters other
  than line terminators as possible, then a closing bracket. The greedy \<^verbatim>\<open>.*\<close> runs to
  the end of the line and backtracks to the last closing bracket on it.
\<close>

definition profile_open :: string where
  "profile_open = ''[profile ''"

text \<open>The longest prefix of the argument that ends in a closing bracket, if there is one.\<close>

fun greedy_close :: "string \<Rightarrow> string option" where
  "greedy_close [] = None"
| "greedy_close (c # cs) =
     (case greedy_close cs of
        Some m \<Rightarrow> Some (c # m)
      | None \<Rightarrow> if c = CHR '']'' then Some [c] else None)"

text \<open>The match of \<^verbatim>\<open>REGEX.profile\<close> that starts at the head of the argument.\<close>

definition match_profile_at :: "string \<Rightarrow> string option" where
  "match_profile_at s =
     (if take 9 s = profile_open
      then map_option (\<lambda>m. profile_open @ m)
             (greedy_close (takeWhile (\<lambda>c. \<not> line_terminator c) (drop 9 s)))
      else None)"

text \<open>
  All matches, left to right, as the global flag collects them: after a match the search
  resumes behind it. The first argument counts the characters of the last match that are
  still to be passed over.
\<close>

fun match_profile_all :: "nat \<Rightarrow> string \<Rightarrow> string list" where
  "match_profile_all k [] = []"
| "match_profile_all (Suc k) (c # cs) = match_profile_all k cs"
| "match_profile_all 0 (c # cs) =
     (case match_profile_at (c # cs) of
        Some m \<Rightarrow> m # match_profile_all (length m - 1) cs
      | None \<Rightarrow> match_profile_all 0 cs)"

text \<open>\<^verbatim>\<open>data.match(REGEX.profile)\<close>: \<^verbatim>\<open>null\<close> when nothing matches.\<close>

definition match_profile :: "string \<Rightarrow> string list option" where
  "match_profile data =
     (case match_profile_all 0 data of [] \<Rightarrow> None | m # ms \<Rightarrow> Some (m # ms))"

text \<open>
  \<^verbatim>\<open>match.replace(REGEX.bracketsRemoval, '')\<close> with
  \<^verbatim>\<open>REGEX.bracketsRemoval = /(\[profile )|(\])/g\<close>: every occurrence of the opening and
  every closing bracket is deleted.
\<close>

fun remove_brackets :: "nat \<Rightarrow> string \<Rightarrow> string" where
  "remove_brackets k [] = []"
| "remove_brackets (Suc k) (c # cs) = remove_brackets k cs"
| "remove_brackets 0 (c # cs) =
     (if take 9 (c # cs) = profile_open then remove_brackets 8 cs
      else if c = CHR '']'' then remove_brackets 0 cs
      else c # remove_brackets 0 cs)"

definition DEFAULTS_profile :: string where
  "DEFAULTS_profile = ''default''"

definition DEFAULTS_mfaCodeLength :: nat where
  "DEFAULTS_mfaCodeLength = 6"

definition CONFIG_awsRegion :: string where
  "CONFIG_awsRegion = ''ap-northeast-1''"

section \<open>index.js: the process and its surroundings\<close>

text \<open>
  What the process does to the outside is recorded in order: console output, file reads
  and writes, and the command lines handed to \<^verbatim>\<open>execSync\<close>.
\<close>

datatype event =
    ConsoleLog string
  | ConsoleError string
  | ReadFile string
  | WriteFile string string
  | ExecSync string

record world =
  files :: "string \<rightharpoonup> string"
  trace :: "event list"

text \<open>
  The surroundings of the process. \<open>exec_result\<close> gives, for the events so far and a
  command line, what \<^verbatim>\<open>execSync\<close> does: it returns the standard output (\<open>Inr\<close>) or throws
  an error with a message (\<open>Inl\<close>). The commands run here (the AWS CLI, \<^verbatim>\<open>pbcopy\<close>) do not
  touch the two files of the tool, so the file system is changed by the process only.
  \<open>json_parse\<close> is \<^verbatim>\<open>JSON.parse\<close>. \<open>write_fault\<close> names the paths that cannot be
  written, with the error message. \<open>list_answer\<close> is the user at the list prompt (choices
  and default in, the chosen entry or the message of a rejected prompt out);
  \<open>input_typed\<close> is what the user types at the input prompt, attempt after attempt, and
  \<open>input_fault\<close> the message of a rejected input prompt.
\<close>

datatype json =
    JNull
  | JBool bool
  | JNum string
  | JStr string
  | JArr "json list"
  | JObj "(string \<times> json) list"

record host =
  process_env :: "string \<rightharpoonup> string"
  exec_result :: "event list \<Rightarrow> string \<Rightarrow> string + string"
  json_parse :: "string \<Rightarrow> string + json"
  write_fault :: "string \<rightharpoonup> string"
  list_answer :: "string list \<Rightarrow> string \<Rightarrow> string + string"
  input_typed :: "string list"
  input_fault :: "string option"

text \<open>
  A value read from a parsed response: a JSON value or \<^verbatim>\<open>undefined\<close>. A number carries the
  text that the conversion to a string gives for it.
\<close>

datatype js_value = Undefined | Val json

text \<open>
  Reading property \<open>k\<close>: a \<^verbatim>\<open>TypeError\<close> on \<^verbatim>\<open>null\<close> and \<^verbatim>\<open>undefined\<close>, the last entry
  of that name on an object, \<^verbatim>\<open>undefined\<close> otherwise. The names read by the program
  (\<^verbatim>\<open>Credentials\<close>, \<^verbatim>\<open>AccessKeyId\<close>, \<^verbatim>\<open>SecretAccessKey\<close>, \<^verbatim>\<open>SessionToken\<close>) are not
  properties of any prototype.
\<close>

definition type_error :: "string \<Rightarrow> string \<Rightarrow> string" where
  "type_error what k =
     ''Cannot read properties of '' @ what @ '' (reading '' @ [CHR 0x27] @ k @ [CHR 0x27] @ '')''"

fun get_prop :: "js_value \<Rightarrow> string \<Rightarrow> string + js_value" where
  "get_prop Undefined k = Inl (type_error ''undefined'' k)"
| "get_prop (Val JNull) k = Inl (type_error ''null'' k)"
| "get_prop (Val (JObj kvs)) k =
     Inr (case map_of (rev kvs) k of None \<Rightarrow> Undefined | Some v \<Rightarrow> Val v)"
| "get_prop (Val _) k = Inr Undefined"

text \<open>The values on which reading a property throws.\<close>

fun nullish :: "js_value \<Rightarrow> bool" where
  "nullish Undefined = True"
| "nullish (Val JNull) = True"
| "nullish (Val _) = False"

text \<open>The results of a list of steps, or the first error among them.\<close>

fun all_right :: "('e + 'a) list \<Rightarrow> 'e + 'a list" where
  "all_right [] = Inr []"
| "all_right (x # xs) =
     (case x of
        Inl e \<Rightarrow> Inl e
      | Inr v \<Rightarrow> (case all_right xs of Inl e \<Rightarrow> Inl e | Inr vs \<Rightarrow> Inr (v # vs)))"

text \<open>
  The conversion to a string that a template literal applies; \<open>Inl\<close> is the message of the
  \<^verbatim>\<open>TypeError\<close> it throws. An object is converted by the \<^verbatim>\<open>toString\<close> it inherits, unless it
  has a member \<^verbatim>\<open>toString\<close> of its own: that member, come from \<^verbatim>\<open>JSON.parse\<close>, is no function,
  \<^verbatim>\<open>valueOf\<close> yields no primitive value either, and the conversion throws. An array is
  converted by \<^verbatim>\<open>join\<close>, which converts its elements and takes \<^verbatim>\<open>null\<close> for the empty string.
\<close>

fun to_string :: "json \<Rightarrow> string + string" where
  "to_string JNull = Inr ''null''"
| "to_string (JBool b) = Inr (if b then ''true'' else ''false'')"
| "to_string (JNum t) = Inr t"
| "to_string (JStr s) = Inr s"
| "to_string (JArr xs) =
     (case all_right (map (\<lambda>x. if x = JNull then Inr [] else to_string x) xs) of
        Inl e \<Rightarrow> Inl e
      | Inr ss \<Rightarrow> Inr (join_with '','' ss))"
| "to_string (JObj kvs) =
     (if ''toString'' \<in> set (map fst kvs) then Inl ''Cannot convert object to primitive value''
      else Inr ''[object Object]'')"

fun interpolate :: "js_value \<Rightarrow> string + string" where
  "interpolate Undefined = Inr ''undefined''"
| "interpolate (Val j) = to_string j"

text \<open>\<^verbatim>\<open>${process.env['HOME']}\<close> inside the template literals of \<^verbatim>\<open>CONFIG\<close>.\<close>

definition CONFIG_homeDir :: "host \<Rightarrow> string" where
  "CONFIG_homeDir h = (case process_env h ''HOME'' of None \<Rightarrow> ''undefined'' | Some d \<Rightarrow> d)"

definition CONFIG_credentialsFile :: "host \<Rightarrow> string" where
  "CONFIG_credentialsFile h = CONFIG_homeDir h @ ''/.awsp-credentials''"

definition CONFIG_profileFile :: "host \<Rightarrow> string" where
  "CONFIG_profileFile h = CONFIG_homeDir h @ ''/.awsp''"

definition CONFIG_awsConfigFile :: "host \<Rightarrow> string" where
  "CONFIG_awsConfigFile h = CONFIG_homeDir h @ ''/.aws/config''"

fun is_write :: "event \<Rightarrow> bool" where
  "is_write (WriteFile path content) = True"
| "is_write _ = False"

fun is_exec :: "event \<Rightarrow> bool" where
  "is_exec (ExecSync cmd) = True"
| "is_exec _ = False"

definition writes_to :: "string \<Rightarrow> event \<Rightarrow> bool" where
  "writes_to path e \<longleftrightarrow> (case e of WriteFile q c \<Rightarrow> q = path | _ \<Rightarrow> False)"

definition emit :: "event \<Rightarrow> world \<Rightarrow> world" where
  "emit e w = w\<lparr>trace := trace w @ [e]\<rparr>"

definition execSync :: "host \<Rightarrow> string \<Rightarrow> world \<Rightarrow> (string + string) \<times> world" where
  "execSync h cmd w = (exec_result h (trace w) cmd, emit (ExecSync cmd) w)"

text \<open>\<^verbatim>\<open>fs.writeFile\<close> and \<^verbatim>\<open>fs.writeFileSync\<close>: the content replaces what the file held.\<close>

definition write_file :: "host \<Rightarrow> string \<Rightarrow> string \<Rightarrow> world \<Rightarrow> (string + unit) \<times> world" where
  "write_file h path content w =
     (case write_fault h path of
        Some msg \<Rightarrow> (Inl msg, w)
      | None \<Rightarrow> (Inr (), emit (WriteFile path content) (w\<lparr>files := (files w)(path \<mapsto> content)\<rparr>)))"

definition enoent :: "string \<Rightarrow> string" where
  "enoent path = ''ENOENT: no such file or directory, open '' @ [CHR 0x27] @ path @ [CHR 0x27]"

section \<open>index.js: functions\<close>

text \<open>
  The list of choices that \<^verbatim>\<open>promptProfileChoice\<close> builds from the config text: no list
  when nothing matches, else the matches without their brackets, then \<^verbatim>\<open>DEFAULTS.profile\<close>.
\<close>

definition profile_choices :: "string \<Rightarrow> string list option" where
  "profile_choices data =
     (case match_profile data of
        None \<Rightarrow> None
      | Some matches \<Rightarrow> Some (map (remove_brackets 0) matches @ [DEFAULTS_profile]))"

definition no_profiles_guidance :: "event list" where
  "no_profiles_guidance =
     [ConsoleLog ''No profiles found.'',
      ConsoleLog ''Refer to this guide for help on setting up a new AWS profile:'',
      ConsoleLog ''https://docs.aws.amazon.com/cli/latest/userguide/cli-chap-getting-started.html'']"

text \<open>\<^verbatim>\<open>a || b\<close> on environment variables: unset and empty are both falsy.\<close>

definition or_else :: "string option \<Rightarrow> string \<Rightarrow> string" where
  "or_else v d = (case v of None \<Rightarrow> d | Some s \<Rightarrow> if s = [] then d else s)"

definition prompt_default :: "host \<Rightarrow> string" where
  "prompt_default h =
     or_else (process_env h ''AWS_DEFAULT_PROFILE'')
       (or_else (process_env h ''AWS_PROFILE'') DEFAULTS_profile)"

text \<open>
  \<^verbatim>\<open>promptProfileChoice\<close>: \<open>Inr None\<close> is the \<^verbatim>\<open>undefined\<close> returned when no profile is
  found, \<open>Inr (Some p)\<close> the answer with \<^verbatim>\<open>profile\<close> \<open>p\<close>, \<open>Inl\<close> a rejected prompt.
\<close>

definition promptProfileChoice ::
  "host \<Rightarrow> string \<Rightarrow> world \<Rightarrow> (string + string option) \<times> world" where
  "promptProfileChoice h data w =
     (case profile_choices data of
        None \<Rightarrow> (Inr None, w\<lparr>trace := trace w @ no_profiles_guidance\<rparr>)
      | Some profiles \<Rightarrow>
          (case list_answer h profiles (prompt_default h) of
             Inl msg \<Rightarrow> (Inl msg, w)
           | Inr p \<Rightarrow> (Inr (Some p), w)))"

definition readAwsProfiles :: "host \<Rightarrow> world \<Rightarrow> (string + string) \<times> world" where
  "readAwsProfiles h w =
     (case files w (CONFIG_awsConfigFile h) of
        None \<Rightarrow> (Inl (enoent (CONFIG_awsConfigFile h)), emit (ReadFile (CONFIG_awsConfigFile h)) w)
      | Some data \<Rightarrow> (Inr data, emit (ReadFile (CONFIG_awsConfigFile h)) w))"

definition writeToConfig :: "host \<Rightarrow> string \<Rightarrow> world \<Rightarrow> (string + string) \<times> world" where
  "writeToConfig h profileChoice w =
     (case write_file h (CONFIG_profileFile h) profileChoice w of
        (Inl msg, w') \<Rightarrow> (Inl msg, w')
      | (Inr _, w') \<Rightarrow> (Inr profileChoice, w'))"

text \<open>The \<^verbatim>\<open>validate\<close> function of the MFA question; \<^verbatim>\<open>/^\d+$/\<close> is \<open>digits_only\<close>.\<close>

datatype validation = Accepted | Rejected string

definition digits_only :: "string \<Rightarrow> bool" where
  "digits_only s \<longleftrightarrow> s \<noteq> [] \<and> list_all digit s"

definition validate :: "string \<Rightarrow> validation" where
  "validate v =
     (if v = [] \<or> length v \<noteq> DEFAULTS_mfaCodeLength \<or> \<not> digits_only v
      then Rejected (''Please enter a valid '' @ ''6'' @ ''-digit MFA code'')
      else Accepted)"

text \<open>
  Modelled from the spec: the input prompt of the inquirer library, which is not part of
  the repository. It calls \<^verbatim>\<open>validate\<close> on what the user typed; on anything but \<^verbatim>\<open>true\<close> it
  shows the returned text and asks again. The result is the messages shown and the
  accepted input, or none when the user gives up.
\<close>

fun inquirer_input :: "(string \<Rightarrow> validation) \<Rightarrow> string list \<Rightarrow> string list \<times> string option" where
  "inquirer_input f [] = ([], None)"
| "inquirer_input f (a # as) =
     (case f a of
        Accepted \<Rightarrow> ([], Some a)
      | Rejected msg \<Rightarrow> (case inquirer_input f as of (shown, r) \<Rightarrow> (msg # shown, r)))"

text \<open>\<^verbatim>\<open>promptMfaCode\<close>: a rejected prompt (\<open>Inl\<close>), no answer, or the accepted code.\<close>

definition promptMfaCode :: "host \<Rightarrow> string + string option" where
  "promptMfaCode h =
     (case input_fault h of
        Some msg \<Rightarrow> Inl msg
      | None \<Rightarrow> Inr (snd (inquirer_input validate (input_typed h))))"

text \<open>What a JavaScript function returns where a string or a boolean may come back.\<close>

datatype js_result = RStr string | RBool bool

fun truthy :: "js_result \<Rightarrow> bool" where
  "truthy (RStr s) = (s \<noteq> [])"
| "truthy (RBool b) = b"

definition configure_get :: "string \<Rightarrow> string \<Rightarrow> string" where
  "configure_get profile key = ''aws configure get '' @ profile @ ''.'' @ key"

definition hasRoleConfiguration :: "host \<Rightarrow> string \<Rightarrow> world \<Rightarrow> js_result \<times> world" where
  "hasRoleConfiguration h profile w =
     (case execSync h (configure_get profile ''role_arn'') w of
        (Inl err, w1) \<Rightarrow> (RBool False, w1)
      | (Inr out1, w1) \<Rightarrow>
          (case execSync h (configure_get profile ''mfa_serial'') w1 of
             (Inl err, w2) \<Rightarrow> (RBool False, w2)
           | (Inr out2, w2) \<Rightarrow>
               (if trim out1 = [] then RStr (trim out1) else RStr (trim out2), w2)))"

definition getAwsConfig :: "host \<Rightarrow> string \<Rightarrow> string \<Rightarrow> world \<Rightarrow> (string + string) \<times> world" where
  "getAwsConfig h profile key w =
     (case execSync h (configure_get profile key) w of
        (Inl err, w') \<Rightarrow> (Inl err, w')
      | (Inr out, w') \<Rightarrow> (Inr (trim out), w'))"

text \<open>The object \<^verbatim>\<open>creds\<close>: the three values as they were read from the response.\<close>

record creds_read =
  accessKeyId_read :: js_value
  secretAccessKey_read :: js_value
  sessionToken_read :: js_value

text \<open>
  The three values as the template literals \<^verbatim>\<open>${creds.accessKeyId}\<close>,
  \<^verbatim>\<open>${creds.secretAccessKey}\<close> and \<^verbatim>\<open>${creds.sessionToken}\<close> render them.
\<close>

record creds =
  accessKeyId :: string
  secretAccessKey :: string
  sessionToken :: string

definition render_creds :: "creds_read \<Rightarrow> string + creds" where
  "render_creds v =
     (case interpolate (accessKeyId_read v) of
        Inl err \<Rightarrow> Inl err
      | Inr a \<Rightarrow>
          (case interpolate (secretAccessKey_read v) of
             Inl err \<Rightarrow> Inl err
           | Inr s \<Rightarrow>
               (case interpolate (sessionToken_read v) of
                  Inl err \<Rightarrow> Inl err
                | Inr t \<Rightarrow> Inr \<lparr>accessKeyId = a, secretAccessKey = s, sessionToken = t\<rparr>)))"

definition clipboardContent :: "creds \<Rightarrow> string" where
  "clipboardContent c =
     ''AWS_ACCESS_KEY_ID='' @ accessKeyId c @ ''\<newline>'' @
     ''AWS_SECRET_ACCESS_KEY='' @ secretAccessKey c @ ''\<newline>'' @
     ''AWS_REGION='' @ CONFIG_awsRegion @ ''\<newline>'' @
     ''AWS_SESSION_TOKEN='' @ sessionToken c"

definition clipboard_command :: "creds \<Rightarrow> string" where
  "clipboard_command c = ''echo '' @ [CHR 0x22] @ clipboardContent c @ [CHR 0x22] @ '' | pbcopy''"

definition copyToClipboard :: "host \<Rightarrow> creds \<Rightarrow> world \<Rightarrow> bool \<times> world" where
  "copyToClipboard h c w =
     (case execSync h (clipboard_command c) w of
        (Inl err, w') \<Rightarrow> (False, w')
      | (Inr out, w') \<Rightarrow> (True, w'))"

definition assumeRoleCommand :: "string \<Rightarrow> string \<Rightarrow> string \<Rightarrow> string \<Rightarrow> string" where
  "assumeRoleCommand roleArn profile mfaSerial mfaCode =
     ''aws sts assume-role --profile default --role-arn '' @ [CHR 0x22] @ roleArn @ [CHR 0x22] @
     '' --role-session-name '' @ [CHR 0x22] @ profile @ ''-session'' @ [CHR 0x22] @
     '' --serial-number '' @ [CHR 0x22] @ mfaSerial @ [CHR 0x22] @
     '' --token-code '' @ [CHR 0x22] @ mfaCode @ [CHR 0x22]"

definition credentialsContent :: "creds \<Rightarrow> string \<Rightarrow> string" where
  "credentialsContent c profile =
     ''export AWS_ACCESS_KEY_ID='' @ accessKeyId c @ ''\<newline>'' @
     ''export AWS_SECRET_ACCESS_KEY='' @ secretAccessKey c @ ''\<newline>'' @
     ''export AWS_REGION='' @ CONFIG_awsRegion @ ''\<newline>'' @
     ''export AWS_SESSION_TOKEN='' @ sessionToken c @ ''\<newline>'' @
     ''export AWS_PROFILE='' @ profile @ ''\<newline>'' @
     ''export AWS_DEFAULT_PROFILE='' @ profile"

text \<open>The three reads \<^verbatim>\<open>credentials.Credentials.X\<close> that make up the object \<^verbatim>\<open>creds\<close>.\<close>

definition extract_creds :: "json \<Rightarrow> string + creds_read" where
  "extract_creds credentials =
     (case get_prop (Val credentials) ''Credentials'' of
        Inl err \<Rightarrow> Inl err
      | Inr c \<Rightarrow>
          (case get_prop c ''AccessKeyId'' of
             Inl err \<Rightarrow> Inl err
           | Inr a \<Rightarrow>
               (case get_prop c ''SecretAccessKey'' of
                  Inl err \<Rightarrow> Inl err
                | Inr s \<Rightarrow>
                    (case get_prop c ''SessionToken'' of
                       Inl err \<Rightarrow> Inl err
                     | Inr t \<Rightarrow>
                         Inr \<lparr>accessKeyId_read = a, secretAccessKey_read = s,
                              sessionToken_read = t\<rparr>))))"

text \<open>
  The body of the \<^verbatim>\<open>try\<close> block of \<^verbatim>\<open>performAssumeRole\<close>: \<open>Inl\<close> is the error thrown. The
  values read are rendered when the template literal of \<^verbatim>\<open>credentialsContent\<close> is evaluated,
  before the file is written; the template literal of \<^verbatim>\<open>copyToClipboard\<close> renders them the
  same way again.
\<close>

definition assume_role_try :: "host \<Rightarrow> string \<Rightarrow> string \<Rightarrow> world \<Rightarrow> (string + unit) \<times> world" where
  "assume_role_try h profile mfaCode w =
     (case getAwsConfig h profile ''role_arn'' w of
        (Inl err, w1) \<Rightarrow> (Inl err, w1)
      | (Inr roleArn, w1) \<Rightarrow>
     (case getAwsConfig h profile ''mfa_serial'' w1 of
        (Inl err, w2) \<Rightarrow> (Inl err, w2)
      | (Inr mfaSerial, w2) \<Rightarrow>
     (case execSync h (assumeRoleCommand roleArn profile mfaSerial mfaCode) w2 of
        (Inl err, w3) \<Rightarrow> (Inl err, w3)
      | (Inr stsCredentials, w3) \<Rightarrow>
     (case json_parse h stsCredentials of
        Inl err \<Rightarrow> (Inl err, w3)
      | Inr credentials \<Rightarrow>
     (case extract_creds credentials of
        Inl err \<Rightarrow> (Inl err, w3)
      | Inr creds \<Rightarrow>
     (case render_creds creds of
        Inl err \<Rightarrow> (Inl err, w3)
      | Inr c \<Rightarrow>
     (case write_file h (CONFIG_credentialsFile h) (credentialsContent c profile) w3 of
        (Inl err, w4) \<Rightarrow> (Inl err, w4)
      | (Inr _, w4) \<Rightarrow>
     (case copyToClipboard h c w4 of
        (clipboardSuccess, w5) \<Rightarrow>
          (Inr (),
           emit (ConsoleLog
                  (if clipboardSuccess
                   then ''Successfully assumed role for profile: '' @ profile
                   else ''Successfully assumed role for profile: '' @ profile @
                        '' (clipboard copy failed)'')) w5)))))))))"

definition performAssumeRole :: "host \<Rightarrow> string \<Rightarrow> string \<Rightarrow> world \<Rightarrow> bool \<times> world" where
  "performAssumeRole h profile mfaCode w =
     (case assume_role_try h profile mfaCode w of
        (Inl msg, w') \<Rightarrow> (False, emit (ConsoleError (''Error assuming role: '' @ msg)) w')
      | (Inr _, w') \<Rightarrow> (True, w'))"

text \<open>
  How the process ends: with an exit status, or never, when the user leaves the MFA prompt
  unanswered.
\<close>

datatype outcome = Exit nat | Unanswered

definition main :: "host \<Rightarrow> world \<Rightarrow> outcome \<times> world" where
  "main h w =
     (case readAwsProfiles h w of
        (Inl msg, w1) \<Rightarrow> (Exit 1, emit (ConsoleError (''Error: '' @ msg)) w1)
      | (Inr awsConfig, w1) \<Rightarrow>
     (case promptProfileChoice h awsConfig w1 of
        (Inl msg, w2) \<Rightarrow> (Exit 1, emit (ConsoleError (''Error: '' @ msg)) w2)
      | (Inr None, w2) \<Rightarrow> (Exit 0, w2)
      | (Inr (Some profileAnswer), w2) \<Rightarrow>
     (case writeToConfig h profileAnswer w2 of
        (Inl msg, w3) \<Rightarrow> (Exit 1, emit (ConsoleError (''Error: '' @ msg)) w3)
      | (Inr profileChoice, w3) \<Rightarrow>
     (case hasRoleConfiguration h profileChoice w3 of
        (capable, w4) \<Rightarrow>
          if truthy capable
          then (case promptMfaCode h of
                  Inl msg \<Rightarrow> (Exit 1, emit (ConsoleError (''MFA authentication failed: '' @ msg)) w4)
                | Inr None \<Rightarrow> (Unanswered, w4)
                | Inr (Some mfaCode) \<Rightarrow>
                    (case performAssumeRole h profileChoice mfaCode w4 of
                       (success, w5) \<Rightarrow> if success then (Exit 0, w5) else (Exit 1, w5)))
          else (Exit 0, w4)))))"

text \<open>The script as run: the banner is printed when the module loads, then \<^verbatim>\<open>main\<close> runs.\<close>

definition index_js :: "host \<Rightarrow> world \<Rightarrow> outcome \<times> world" where
  "index_js h w = main h (emit (ConsoleLog ''AWS Profile Switcher'') w)"

text \<open>
  The world in which \<^verbatim>\<open>main\<close> finds itself once the config file has been read and the
  selection \<open>p\<close> written to the profile file.
\<close>

definition after_write :: "host \<Rightarrow> string \<Rightarrow> world \<Rightarrow> world" where
  "after_write h p w =
     emit (WriteFile (CONFIG_profileFile h) p)
       ((emit (ReadFile (CONFIG_awsConfigFile h)) w)\<lparr>files := (files w)(CONFIG_profileFile h \<mapsto> p)\<rparr>)"

section \<open>The shell wrapper\<close>

text \<open>
  The repository holds the wrapper twice: \<^verbatim>\<open>run.sh\<close>, and a later version that also takes a
  role ARN and the option \<^verbatim>\<open>-p\<close>. The later version is the one modelled. The two agree on
  \<^verbatim>\<open>check_dependencies\<close>, \<^verbatim>\<open>process_credentials_file\<close> and the interactive branch, and
  on \<^verbatim>\<open>assume_role_with_mfa\<close> up to the clipboard message, after which \<^verbatim>\<open>run.sh\<close> goes on to
  print six export lines.
\<close>

text \<open>
  The wrapper is sourced into the user's shell (\<^verbatim>\<open>alias awsp="source _awsp"\<close>), so its
  variables and exports are those of that shell, and what one run leaves in them is there
  for the next: among them \<^verbatim>\<open>OPTIND\<close>, which the script never resets. It is modelled with
  the semantics of bash. The variables that \<^verbatim>\<open>local\<close> declares are arguments and bound
  names of the model, except in \<^verbatim>\<open>process_credentials_file\<close>, which evaluates a text
  between declaring and using them. Of the variables that the shell sets by itself, those of
  \<^verbatim>\<open>getopts\<close> are tracked, the others (\<^verbatim>\<open>BASH_REMATCH\<close>, \<^verbatim>\<open>PIPESTATUS\<close>, \<^verbatim>\<open>_\<close>) are not; nor are
  the functions that the script defines. \<^verbatim>\<open>IFS\<close> is taken to have its default value and
  the names of commands to stand for the usual commands. Pathname expansion of unquoted
  words is not modelled.
\<close>

text \<open>
  What the shell runs outside itself: a simple command with its words, a command fed a
  text on standard input, or a command line handed to \<^verbatim>\<open>eval\<close>.
\<close>

datatype invocation =
    Simple "string list"
  | Piped string "string list"
  | Eval string

datatype shell_event =
    Stdout string
  | Stderr string
  | Run invocation
  | Child "event list"

record shell =
  vars :: "string \<rightharpoonup> string"
  exported :: "string set"
  fs :: "string \<rightharpoonup> string"
  history :: "shell_event list"

text \<open>
  The surroundings of the shell: \<open>run_result\<close> gives the exit status and the standard
  output of what is run, after the events so far; \<open>arg0\<close> is \<^verbatim>\<open>$0\<close>, \<open>script_dir\<close> the
  directory that \<^verbatim>\<open>$(cd $(dirname $0);pwd)\<close> yields, \<open>passwd_home\<close> the home directory
  the tilde stands for when \<^verbatim>\<open>HOME\<close> is unset, and \<open>selector\<close> the surroundings of
  \<^verbatim>\<open>index.js\<close> other than its environment variables.
\<close>

record shell_host =
  run_result :: "shell_event list \<Rightarrow> invocation \<Rightarrow> nat \<times> string"
  arg0 :: string
  script_dir :: string
  passwd_home :: string
  selector :: host

datatype status = Done nat | Exited nat

text \<open>The command lines handed to \<^verbatim>\<open>eval\<close>, and the simple commands run, in order.\<close>

fun evals :: "shell_event list \<Rightarrow> string list" where
  "evals [] = []"
| "evals (Run (Eval c) # es) = c # evals es"
| "evals (e # es) = evals es"

fun simple_runs :: "shell_event list \<Rightarrow> string list list" where
  "simple_runs [] = []"
| "simple_runs (Run (Simple argv) # es) = argv # simple_runs es"
| "simple_runs (e # es) = simple_runs es"

definition tell :: "shell_event \<Rightarrow> shell \<Rightarrow> shell" where
  "tell e st = st\<lparr>history := history st @ [e]\<rparr>"

definition run :: "shell_host \<Rightarrow> invocation \<Rightarrow> shell \<Rightarrow> (nat \<times> string) \<times> shell" where
  "run H i st = (run_result H (history st) i, tell (Run i) st)"

text \<open>\<^verbatim>\<open>$X\<close>: empty when the variable is unset.\<close>

definition getvar :: "shell \<Rightarrow> string \<Rightarrow> string" where
  "getvar st x = (case vars st x of None \<Rightarrow> [] | Some v \<Rightarrow> v)"

definition setvar :: "string \<Rightarrow> string \<Rightarrow> shell \<Rightarrow> shell" where
  "setvar x v st = st\<lparr>vars := (vars st)(x \<mapsto> v)\<rparr>"

definition export_var :: "string \<Rightarrow> string \<Rightarrow> shell \<Rightarrow> shell" where
  "export_var x v st = st\<lparr>vars := (vars st)(x \<mapsto> v), exported := insert x (exported st)\<rparr>"

definition unset_var :: "string \<Rightarrow> shell \<Rightarrow> shell" where
  "unset_var x st = st\<lparr>vars := (vars st)(x := None), exported := exported st - {x}\<rparr>"

text \<open>Command substitution drops the trailing newlines of the output.\<close>

definition strip_newlines :: "string \<Rightarrow> string" where
  "strip_newlines s = rev (dropWhile (\<lambda>c. c = CHR 0x0A) (rev s))"

text \<open>Field splitting of an unquoted expansion at space, tab and newline.\<close>

definition ifs_space :: "char \<Rightarrow> bool" where
  "ifs_space c \<longleftrightarrow> c = CHR 0x20 \<or> c = CHR 0x09 \<or> c = CHR 0x0A"

fun split_fields :: "(char \<Rightarrow> bool) \<Rightarrow> string \<Rightarrow> string \<Rightarrow> string list" where
  "split_fields sep acc [] = (if acc = [] then [] else [acc])"
| "split_fields sep acc (c # cs) =
     (if sep c then (if acc = [] then split_fields sep [] cs else acc # split_fields sep [] cs)
      else split_fields sep (acc @ [c]) cs)"

definition fields :: "string \<Rightarrow> string list" where
  "fields s = split_fields ifs_space [] s"

text \<open>
  What \<^verbatim>\<open>echo\<close> writes for one argument: the argument and a newline, unless the argument is
  an option of \<^verbatim>\<open>echo\<close> (a dash followed by letters among \<^verbatim>\<open>n\<close>, \<^verbatim>\<open>e\<close>, \<^verbatim>\<open>E\<close>), which leaves
  the newline, or nothing when \<^verbatim>\<open>n\<close> is among the letters.
\<close>

definition echo_option :: "string \<Rightarrow> bool" where
  "echo_option s \<longleftrightarrow>
     (case s of
        c # l # ls \<Rightarrow> c = CHR ''-'' \<and> list_all (\<lambda>x. x \<in> set ''neE'') (l # ls)
      | _ \<Rightarrow> False)"

definition echo :: "string \<Rightarrow> string" where
  "echo s =
     (if echo_option s then (if CHR ''n'' \<in> set s then [] else ''\<newline>'')
      else s @ ''\<newline>'')"

text \<open>
  The command \<^verbatim>\<open>basename\<close>, taken to be the standard one and not recorded as a run:
  trailing slashes go, then everything up to the last slash.
\<close>

definition basename :: "string \<Rightarrow> string" where
  "basename s =
     (if s = [] then []
      else let t = rev (dropWhile (\<lambda>c. c = CHR ''/'') (rev s))
           in if t = [] then ''/'' else rev (takeWhile (\<lambda>c. c \<noteq> CHR ''/'') (rev t)))"

text \<open>Decimal numerals: the number that a text of digits stands for, and the text of a number.\<close>

definition digit_value :: "char \<Rightarrow> nat" where
  "digit_value c = of_char c - 48"

definition number_of :: "string \<Rightarrow> nat" where
  "number_of t = foldl (\<lambda>n c. 10 * n + digit_value c) 0 t"

fun decimal :: "nat \<Rightarrow> string" where
  "decimal n =
     (if n < 10 then [char_of (48 + n)] else decimal (n div 10) @ [char_of (48 + n mod 10)])"

declare decimal.simps [simp del]

definition tilde :: "shell_host \<Rightarrow> shell \<Rightarrow> string" where
  "tilde H st = (case vars st ''HOME'' of None \<Rightarrow> passwd_home H | Some d \<Rightarrow> d)"

subsection \<open>check_dependencies\<close>

text \<open>Both tools are installed: \<^verbatim>\<open>command -v\<close> finds them whenever it is asked.\<close>

definition tools_present :: "shell_host \<Rightarrow> bool" where
  "tools_present H \<longleftrightarrow>
     (\<forall>hist. fst (run_result H hist (Simple [''command'', ''-v'', ''jq''])) = 0) \<and>
     (\<forall>hist. fst (run_result H hist (Simple [''command'', ''-v'', ''aws''])) = 0)"


definition check_dependencies :: "shell_host \<Rightarrow> shell \<Rightarrow> status \<times> shell" where
  "check_dependencies H st =
     (case run H (Simple [''command'', ''-v'', ''jq'']) st of
        ((s1, out1), st1) \<Rightarrow>
          if s1 \<noteq> 0
          then (Exited 1,
                tell (Stderr ''Error: jq is required but not installed. Please install jq.'') st1)
          else (case run H (Simple [''command'', ''-v'', ''aws'']) st1 of
                  ((s2, out2), st2) \<Rightarrow>
                    if s2 \<noteq> 0
                    then (Exited 1,
                          tell (Stderr ''Error: AWS CLI is required but not installed. Please install AWS CLI.'') st2)
                    else (Done 0, st2)))"

subsection \<open>Reading the response and filling the clipboard\<close>

text \<open>
  \<^verbatim>\<open>X=$(echo "$AWS_STS_CREDENTIALS" | jq -r FILTER)\<close> for the three fields, the clipboard
  text piped to \<^verbatim>\<open>pbcopy\<close>, and one of two messages. Both role functions end this way;
  they differ in the messages.
\<close>

definition jq_field :: "shell_host \<Rightarrow> string \<Rightarrow> string \<Rightarrow> shell \<Rightarrow> shell" where
  "jq_field H x flt st =
     (case run H (Piped (echo (getvar st ''AWS_STS_CREDENTIALS'')) [''jq'', ''-r'', flt]) st of
        ((s, out), st') \<Rightarrow> setvar x (strip_newlines out) st')"

definition publish_credentials :: "shell_host \<Rightarrow> string \<Rightarrow> string \<Rightarrow> shell \<Rightarrow> nat \<times> shell" where
  "publish_credentials H copied failed st =
     (let st1 = jq_field H ''AWS_ACCESS_KEY_ID'' ''.Credentials.AccessKeyId'' st;
          st2 = jq_field H ''AWS_SECRET_ACCESS_KEY'' ''.Credentials.SecretAccessKey'' st1;
          st3 = jq_field H ''AWS_SESSION_TOKEN'' ''.Credentials.SessionToken'' st2;
          st4 = setvar ''clipboard_content''
                  (''AWS_ACCESS_KEY_ID='' @ getvar st3 ''AWS_ACCESS_KEY_ID'' @ ''\<newline>'' @
                   ''AWS_SECRET_ACCESS_KEY='' @ getvar st3 ''AWS_SECRET_ACCESS_KEY'' @ ''\<newline>'' @
                   ''AWS_REGION='' @ getvar st3 ''AWS_REGION'' @ ''\<newline>'' @
                   ''AWS_SESSION_TOKEN='' @ getvar st3 ''AWS_SESSION_TOKEN'') st3
      in case run H (Piped (echo (getvar st4 ''clipboard_content'')) [''pbcopy'']) st4 of
           ((s, out), st5) \<Rightarrow>
             (0, tell (Stdout (if s = 0 then copied else failed)) st5))"

subsection \<open>assume_role_with_mfa\<close>

definition assume_role_argv :: "string \<Rightarrow> string \<Rightarrow> string \<Rightarrow> string \<Rightarrow> string list" where
  "assume_role_argv role_arn profile mfa_serial mfa_code =
     [''aws'', ''sts'', ''assume-role'',
      ''--profile'', ''default'',
      ''--role-arn'', role_arn,
      ''--role-session-name'', profile @ ''-session'',
      ''--serial-number'', mfa_serial,
      ''--token-code'', mfa_code]"

definition assume_role_with_mfa :: "shell_host \<Rightarrow> string \<Rightarrow> string \<Rightarrow> shell \<Rightarrow> nat \<times> shell" where
  "assume_role_with_mfa H profile mfa_code st =
     (case run H (Simple ([''aws'', ''configure'', ''get''] @ fields (profile @ ''.role_arn''))) st of
        ((s1, out1), st1) \<Rightarrow>
     (case run H (Simple ([''aws'', ''configure'', ''get''] @ fields (profile @ ''.mfa_serial''))) st1 of
        ((s2, out2), st2) \<Rightarrow>
          let role_arn = strip_newlines out1; mfa_serial = strip_newlines out2
          in if role_arn = [] \<or> mfa_serial = []
             then (1, tell (Stderr (''Error: role_arn or mfa_serial not configured for profile '' @ profile)) st2)
             else (case run H (Simple (assume_role_argv role_arn profile mfa_serial mfa_code)) st2 of
                     ((s3, out3), st3) \<Rightarrow>
                       let st4 = setvar ''AWS_STS_CREDENTIALS'' (strip_newlines out3) st3
                       in if s3 \<noteq> 0
                          then (1, tell (Stderr ''Error: Failed to assume role. Check your MFA code and try again.'') st4)
                          else publish_credentials H ''Credentials copied to clipboard''
                                 ''Successfully assumed role (clipboard copy failed)'' st4)))"

subsection \<open>process_credentials_file\<close>

text \<open>
  \<^verbatim>\<open>eval "$(cat "$credentials_file")"\<close> runs the text of the file as shell code. The model
  covers the texts that consist of lines \<^verbatim>\<open>export NAME=VALUE ...\<close> in which no character
  is special to the shell and every name begins with \<^verbatim>\<open>AWS_\<close>, as the names that \<^verbatim>\<open>index.js\<close>
  writes do: no such name means anything to the shell itself. It gives no result on any
  other text.
\<close>

definition shell_plain :: "char \<Rightarrow> bool" where
  "shell_plain c \<longleftrightarrow>
     c \<in> set ''abcdefghijklmnopqrstuvwxyzABCDEFGHIJKLMNOPQRSTUVWXYZ0123456789_-./:+=,@%''"

definition name_start :: "char \<Rightarrow> bool" where
  "name_start c \<longleftrightarrow> c \<in> set ''abcdefghijklmnopqrstuvwxyzABCDEFGHIJKLMNOPQRSTUVWXYZ_''"

definition name_char :: "char \<Rightarrow> bool" where
  "name_char c \<longleftrightarrow> name_start c \<or> digit c"

definition valid_name :: "string \<Rightarrow> bool" where
  "valid_name x \<longleftrightarrow> (case x of [] \<Rightarrow> False | c # cs \<Rightarrow> name_start c \<and> list_all name_char cs)"

definition export_word :: "string \<Rightarrow> shell \<Rightarrow> shell option" where
  "export_word w st =
     (let x = takeWhile (\<lambda>c. c \<noteq> CHR ''='') w
      in if \<not> valid_name x \<or> take 4 x \<noteq> ''AWS_'' \<or> \<not> list_all shell_plain w then None
         else if CHR ''='' \<in> set w then Some (export_var x (drop (Suc (length x)) w) st)
         else Some (st\<lparr>exported := insert x (exported st)\<rparr>))"

fun export_words :: "string list \<Rightarrow> shell \<Rightarrow> shell option" where
  "export_words [] st = Some st"
| "export_words (w # ws) st =
     (case export_word w st of None \<Rightarrow> None | Some st' \<Rightarrow> export_words ws st')"

definition blank :: "char \<Rightarrow> bool" where
  "blank c \<longleftrightarrow> c = CHR 0x20 \<or> c = CHR 0x09"

definition eval_line :: "string \<Rightarrow> shell \<Rightarrow> shell option" where
  "eval_line l st =
     (case split_fields blank [] l of
        [] \<Rightarrow> Some st
      | w # ws \<Rightarrow> if w = ''export'' \<and> ws \<noteq> [] then export_words ws st else None)"

fun split_lines :: "string \<Rightarrow> string \<Rightarrow> string list" where
  "split_lines acc [] = [acc]"
| "split_lines acc (c # cs) =
     (if c = CHR 0x0A then acc # split_lines [] cs else split_lines (acc @ [c]) cs)"

fun eval_lines :: "string list \<Rightarrow> shell \<Rightarrow> shell option" where
  "eval_lines [] st = Some st"
| "eval_lines (l # ls) st =
     (case eval_line l st of None \<Rightarrow> None | Some st' \<Rightarrow> eval_lines ls st')"

definition eval_exports :: "string \<Rightarrow> shell \<Rightarrow> shell option" where
  "eval_exports text st = eval_lines (split_lines [] text) st"

definition remove_file :: "string \<Rightarrow> shell \<Rightarrow> shell" where
  "remove_file path st = st\<lparr>fs := (fs st)(path := None)\<rparr>"

text \<open>
  \<^verbatim>\<open>local x=v\<close> gives \<open>x\<close> the value \<open>v\<close> for the time of the function; when the function
  returns, \<open>x\<close> is again what it was for the caller, the value and the export attribute.
\<close>

definition leave_scope :: "shell \<Rightarrow> string \<Rightarrow> shell \<Rightarrow> shell" where
  "leave_scope caller x st =
     st\<lparr>vars := (vars st)(x := vars caller x),
        exported := (if x \<in> exported caller then insert x (exported st) else exported st - {x})\<rparr>"

text \<open>
  The file is removed under the name that \<^verbatim>\<open>credentials_file\<close> holds once the text has been
  evaluated.
\<close>

definition process_credentials_file :: "string \<Rightarrow> shell \<Rightarrow> shell option" where
  "process_credentials_file silent_mode st =
     (let st1 = setvar ''credentials_file'' (getvar st ''CREDENTIALS_TEMP_FILE'') st;
          st2 = setvar ''silent_mode'' silent_mode st1;
          back = (\<lambda>stx. leave_scope st ''credentials_file'' (leave_scope st ''silent_mode'' stx))
      in case fs st2 (getvar st2 ''credentials_file'') of
           None \<Rightarrow> Some (back st2)
         | Some content \<Rightarrow>
             if getvar st2 ''silent_mode'' = ''silent''
             then (case eval_exports (strip_newlines content) st2 of
                     None \<Rightarrow> None
                   | Some st3 \<Rightarrow> Some (back (remove_file (getvar st3 ''credentials_file'') st3)))
             else Some (back (remove_file (getvar st2 ''credentials_file'')
                                  (tell (Stdout content) st2))))"

subsection \<open>is_role_arn and assume_role_with_arn\<close>

text \<open>\<^verbatim>\<open>^arn:aws:iam::[0-9]{12}:role/[a-zA-Z0-9+=,.@_/-]+$\<close>\<close>

definition role_char :: "char \<Rightarrow> bool" where
  "role_char c \<longleftrightarrow>
     c \<in> set ''abcdefghijklmnopqrstuvwxyzABCDEFGHIJKLMNOPQRSTUVWXYZ0123456789+=,.@_/-''"

definition is_role_arn :: "string \<Rightarrow> bool" where
  "is_role_arn input \<longleftrightarrow>
     take 13 input = ''arn:aws:iam::'' \<and>
     length (take 12 (drop 13 input)) = 12 \<and> list_all digit (take 12 (drop 13 input)) \<and>
     take 6 (drop 25 input) = '':role/'' \<and>
     drop 31 input \<noteq> [] \<and> list_all role_char (drop 31 input)"

definition quoted :: "string \<Rightarrow> string" where
  "quoted s = [CHR 0x22] @ s @ [CHR 0x22]"

definition arn_command :: "string \<Rightarrow> string \<Rightarrow> string \<Rightarrow> string" where
  "arn_command source_profile role_arn stamp =
     ''aws sts assume-role --profile '' @ quoted source_profile @
     '' --role-arn '' @ quoted role_arn @
     '' --role-session-name '' @ quoted (''awsp-'' @ stamp)"

definition mfa_options :: "string \<Rightarrow> string \<Rightarrow> string" where
  "mfa_options mfa_serial mfa_code =
     '' --serial-number '' @ quoted mfa_serial @ '' --token-code '' @ quoted mfa_code"

definition assume_role_with_arn ::
  "shell_host \<Rightarrow> string \<Rightarrow> string \<Rightarrow> string \<Rightarrow> shell \<Rightarrow> nat \<times> shell" where
  "assume_role_with_arn H role_arn source_profile mfa_code st =
     (case run H (Simple [''date'', ''+%s'']) st of
        ((s0, out0), st0) \<Rightarrow>
     (let role_name = basename role_arn;
          assume_command = arn_command source_profile role_arn (strip_newlines out0);
          execute = (\<lambda>command stx.
            case run H (Eval command) stx of
              ((s3, out3), st3) \<Rightarrow>
                let st4 = setvar ''AWS_STS_CREDENTIALS'' (strip_newlines out3) st3
                in if s3 \<noteq> 0
                   then (1, tell (Stderr (''Error: Failed to assume role '' @ role_name @
                                          ''. Check your credentials and try again.'')) st4)
                   else publish_credentials H
                          (''Successfully assumed role: '' @ role_name @ '' (credentials copied to clipboard)'')
                          (''Successfully assumed role: '' @ role_name @ '' (clipboard copy failed)'') st4)
      in if mfa_code \<noteq> []
         then (case run H (Simple ([''aws'', ''configure'', ''get''] @
                                    fields (source_profile @ ''.mfa_serial''))) st0 of
                 ((s1, out1), st1) \<Rightarrow>
                   (case (if s1 = 0 then ((s1, []), st1)
                          else run H (Simple [''aws'', ''configure'', ''get'', ''default.mfa_serial'']) st1) of
                      ((s2, out2), st2) \<Rightarrow>
                        let mfa_serial = strip_newlines (out1 @ out2)
                        in if mfa_serial \<noteq> []
                           then execute (assume_command @ mfa_options mfa_serial mfa_code) st2
                           else (1, tell (Stderr (''Error: MFA code provided but no MFA serial found for profile '' @
                                                  source_profile)) st2)))
         else execute assume_command st0))"

subsection \<open>Options\<close>

text \<open>
  \<^verbatim>\<open>getopts\<close> goes on from the argument whose index \<^verbatim>\<open>OPTIND\<close> holds: the first one in a
  shell that has not used \<^verbatim>\<open>getopts\<close> before, and also when \<^verbatim>\<open>OPTIND\<close> is unset or 0. The
  model covers a text that is a numeral of at most nine digits, as \<^verbatim>\<open>getopts\<close> and an
  assignment to this integer variable leave it; \<^verbatim>\<open>getopts\<close> is taken to be between two
  arguments, not inside one.
\<close>

definition numeral_text :: "string \<Rightarrow> bool" where
  "numeral_text t \<longleftrightarrow>
     t \<noteq> [] \<and> list_all digit t \<and> length t \<le> 9 \<and> (length t = 1 \<or> hd t \<noteq> CHR ''0'')"

definition optind :: "shell \<Rightarrow> nat option" where
  "optind st =
     (case vars st ''OPTIND'' of
        None \<Rightarrow> Some 1
      | Some t \<Rightarrow> if numeral_text t then Some (max 1 (number_of t)) else None)"

text \<open>
  The \<^verbatim>\<open>getopts "m:p:"\<close> loop on the arguments from that index on: the values of \<^verbatim>\<open>-m\<close> and
  \<^verbatim>\<open>-p\<close> and the arguments left when the options end, or the error on which \<^verbatim>\<open>getopts\<close>
  reports \<^verbatim>\<open>?\<close>: a letter that is no option, or an option without its argument.
\<close>

datatype getopts_error = IllegalOption char | MissingArgument char

fun getopts_loop ::
  "string list \<Rightarrow> string \<Rightarrow> string \<Rightarrow> getopts_error + string \<times> string \<times> string list" where
  "getopts_loop [] m p = Inr (m, p, [])"
| "getopts_loop [a] m p =
     (if a = ''--'' then Inr (m, p, [])
      else case a of
             c1 # c2 # v \<Rightarrow>
               if c1 \<noteq> CHR ''-'' then Inr (m, p, [a])
               else if c2 = CHR ''m'' then (if v \<noteq> [] then Inr (v, p, []) else Inl (MissingArgument c2))
               else if c2 = CHR ''p'' then (if v \<noteq> [] then Inr (m, v, []) else Inl (MissingArgument c2))
               else Inl (IllegalOption c2)
           | _ \<Rightarrow> Inr (m, p, [a]))"
| "getopts_loop (a # b # bs) m p =
     (if a = ''--'' then Inr (m, p, b # bs)
      else case a of
             c1 # c2 # v \<Rightarrow>
               if c1 \<noteq> CHR ''-'' then Inr (m, p, a # b # bs)
               else if c2 = CHR ''m'' then
                 (if v \<noteq> [] then getopts_loop (b # bs) v p else getopts_loop bs b p)
               else if c2 = CHR ''p'' then
                 (if v \<noteq> [] then getopts_loop (b # bs) m v else getopts_loop bs m b)
               else Inl (IllegalOption c2)
           | _ \<Rightarrow> Inr (m, p, a # b # bs))"

text \<open>The line that \<^verbatim>\<open>getopts\<close> itself writes to standard error on such an error.\<close>

fun getopts_complaint :: "shell_host \<Rightarrow> getopts_error \<Rightarrow> string" where
  "getopts_complaint H (IllegalOption c) = arg0 H @ '': illegal option -- '' @ [c]"
| "getopts_complaint H (MissingArgument c) = arg0 H @ '': option requires an argument -- '' @ [c]"

definition usage :: "shell_host \<Rightarrow> shell_event list" where
  "usage H =
     [Stderr (''Usage: '' @ arg0 H @ '' [-m MFA_CODE] [-p SOURCE_PROFILE] [PROFILE_NAME|ROLE_ARN]''),
      Stderr '''',
      Stderr ''Options:'',
      Stderr ''  -m MFA_CODE        MFA authentication code'',
      Stderr ''  -p SOURCE_PROFILE  Source profile to use for AssumeRole (defaults to current AWS_PROFILE or default)'',
      Stderr '''',
      Stderr ''Examples:'',
      Stderr (''  '' @ arg0 H @ '' my-profile                                          # Switch to profile''),
      Stderr (''  '' @ arg0 H @ '' arn:aws:iam::123456789012:role/MyRole              # Assume role with ARN''),
      Stderr (''  '' @ arg0 H @ '' -m 123456 arn:aws:iam::123456789012:role/MyRole    # Assume role with MFA''),
      Stderr (''  '' @ arg0 H @ '' -p source-profile arn:aws:iam::123456789012:role/MyRole  # Assume role with specific source profile'')]"

subsection \<open>The script\<close>

text \<open>\<^verbatim>\<open>${AWS_PROFILE:-${AWS_DEFAULT_PROFILE:-default}}\<close>\<close>

definition default_source_profile :: "shell \<Rightarrow> string" where
  "default_source_profile st =
     (if getvar st ''AWS_PROFILE'' \<noteq> [] then getvar st ''AWS_PROFILE''
      else if getvar st ''AWS_DEFAULT_PROFILE'' \<noteq> [] then getvar st ''AWS_DEFAULT_PROFILE''
      else ''default'')"

text \<open>
  The interactive branch: \<^verbatim>\<open>index.js\<close> runs as a child process on the same files, with the
  exported variables as its environment; its exit status is not looked at. A child that
  never ends leaves the wrapper without a result.
\<close>

definition child_env :: "shell \<Rightarrow> string \<rightharpoonup> string" where
  "child_env st = (\<lambda>x. if x \<in> exported st then vars st x else None)"

definition set_profile :: "string \<Rightarrow> shell \<Rightarrow> shell" where
  "set_profile p st =
     (let st1 = export_var ''AWS_PROFILE'' p st;
          st2 = export_var ''AWS_DEFAULT_PROFILE'' p st1
      in tell (Stdout (''set profile: '' @ getvar st2 ''AWS_PROFILE'')) st2)"

definition after_selector :: "shell_host \<Rightarrow> shell \<Rightarrow> (status \<times> shell) option" where
  "after_selector H st =
     (let st1 = setvar ''selected_profile''
                  (strip_newlines (case fs st (tilde H st @ ''/.awsp'') of None \<Rightarrow> [] | Some c \<Rightarrow> c)) st
      in if getvar st1 ''selected_profile'' = []
         then Some (Done 0, unset_var ''AWS_DEFAULT_PROFILE'' (unset_var ''AWS_PROFILE'' st1))
         else if fs st1 (getvar st1 ''CREDENTIALS_TEMP_FILE'') \<noteq> None
         then map_option (Pair (Done 0)) (process_credentials_file ''silent'' st1)
         else Some (Done 0, set_profile (getvar st1 ''selected_profile'') st1))"

definition child_host :: "shell_host \<Rightarrow> shell \<Rightarrow> host" where
  "child_host H st = (selector H)\<lparr>process_env := child_env st\<rparr>"

definition run_selector :: "shell_host \<Rightarrow> shell \<Rightarrow> outcome \<times> world" where
  "run_selector H st = index_js (child_host H st) \<lparr>files = fs st, trace = []\<rparr>"

definition interactive :: "shell_host \<Rightarrow> shell \<Rightarrow> (status \<times> shell) option" where
  "interactive H st =
     (let st1 = setvar ''CURRENT'' (script_dir H) st
      in case run_selector H st1 of
           (Unanswered, w) \<Rightarrow> None
         | (Exit n, w) \<Rightarrow> after_selector H (tell (Child (trace w)) (st1\<lparr>fs := files w\<rparr>)))"

text \<open>
  The script. When the loop ends, \<^verbatim>\<open>getopts\<close> has left \<^verbatim>\<open>?\<close> in \<^verbatim>\<open>opt\<close>, has unset \<^verbatim>\<open>OPTARG\<close>,
  and \<^verbatim>\<open>OPTIND\<close> is the index of the first argument left, which \<^verbatim>\<open>shift\<close> makes \<^verbatim>\<open>$1\<close>. An
  \<^verbatim>\<open>exit\<close> ends the shell that sourced the script, and its variables with it.
\<close>

definition awsp :: "shell_host \<Rightarrow> string list \<Rightarrow> shell \<Rightarrow> (status \<times> shell) option" where
  "awsp H args st =
     (let st1 = setvar ''AWS_PROFILE'' (getvar st ''AWS_PROFILE'') st;
          st2 = setvar ''AWS_REGION'' ''ap-northeast-1'' st1;
          st3 = setvar ''CREDENTIALS_TEMP_FILE'' (getvar st2 ''HOME'' @ ''/.awsp-credentials'') st2
      in case check_dependencies H st3 of
           (Exited n, st4) \<Rightarrow> Some (Exited n, st4)
         | (Done n, st4) \<Rightarrow>
             (case optind st4 of
                None \<Rightarrow> None
              | Some k \<Rightarrow>
             (case getopts_loop (drop (k - 1) args) [] [] of
                Inl e \<Rightarrow>
                  Some (Exited 1,
                        st4\<lparr>history := history st4 @ Stderr (getopts_complaint H e) # usage H\<rparr>)
              | Inr (m, p, rest) \<Rightarrow>
                  let st5 = setvar ''OPTIND'' (decimal (length args - length rest + 1))
                              (unset_var ''OPTARG'' (setvar ''opt'' ''?''
                                 (setvar ''source_profile'' p (setvar ''mfa_code'' m st4))))
                  in (case rest of
                        [] \<Rightarrow> interactive H st5
                      | argument # more_args \<Rightarrow>
                          let st6 = setvar ''argument'' argument st5
                          in if is_role_arn argument
                             then (let st7 = (if p = [] then setvar ''source_profile'' (default_source_profile st6) st6
                                              else st6)
                                   in case assume_role_with_arn H argument (getvar st7 ''source_profile'') m st7 of
                                        (s, st8) \<Rightarrow> Some (Done s, st8))
                             else if m \<noteq> []
                             then (case assume_role_with_mfa H argument m st6 of
                                     (s, st8) \<Rightarrow> Some (Done s, st8))
                             else Some (Done 0, set_profile argument st6)))))"

text \<open>
  The state in which the dispatch on the arguments starts, when both tools are present
  and the options end with \<open>n\<close> as the index of the first argument left.
\<close>

definition entered :: "shell \<Rightarrow> string \<Rightarrow> string \<Rightarrow> nat \<Rightarrow> shell" where
  "entered st m p n =
     setvar ''OPTIND'' (decimal n) (unset_var ''OPTARG'' (setvar ''opt'' ''?''
       (setvar ''source_profile'' p (setvar ''mfa_code'' m
         (tell (Run (Simple [''command'', ''-v'', ''aws'']))
           (tell (Run (Simple [''command'', ''-v'', ''jq'']))
             (setvar ''CREDENTIALS_TEMP_FILE'' (getvar st ''HOME'' @ ''/.awsp-credentials'')
               (setvar ''AWS_REGION'' ''ap-northeast-1''
                 (setvar ''AWS_PROFILE'' (getvar st ''AWS_PROFILE'') st)))))))))"

section \<open>Config files, line by line\<close>

text \<open>
  The vocabulary in which the properties of the profile list are stated: a config text
  as a list of lines, each a profile heading or some other line. A heading is well formed
  when its name has no bracket and no line terminator, another line when the opening
  \<^verbatim>\<open>[profile \<close> does not occur in it.
\<close>

datatype config_line = Heading string | Other string

fun render_line :: "config_line \<Rightarrow> string" where
  "render_line (Heading n) = profile_open @ n @ '']''"
| "render_line (Other l) = l"

definition config_text :: "config_line list \<Rightarrow> string" where
  "config_text ls = join_with ''\<newline>'' (map render_line ls)"

fun mentions_open :: "string \<Rightarrow> bool" where
  "mentions_open [] = False"
| "mentions_open (c # cs) = (take 9 (c # cs) = profile_open \<or> mentions_open cs)"

definition plain_name :: "string \<Rightarrow> bool" where
  "plain_name n \<longleftrightarrow> (\<forall>c\<in>set n. c \<noteq> CHR ''['' \<and> c \<noteq> CHR '']'' \<and> \<not> line_terminator c)"

fun well_formed :: "config_line \<Rightarrow> bool" where
  "well_formed (Heading n) = plain_name n"
| "well_formed (Other l) = (\<not> mentions_open l)"

fun heading_names :: "config_line list \<Rightarrow> string list" where
  "heading_names [] = []"
| "heading_names (Heading n # ls) = n # heading_names ls"
| "heading_names (Other l # ls) = heading_names ls"

definition line_end :: "string \<Rightarrow> bool" where
  "line_end rest \<longleftrightarrow> rest = [] \<or> hd rest = CHR 0x0A"

text \<open>
  A text has a profile heading when the opening occurs in it, followed on the same line
  by a closing bracket.
\<close>

definition has_heading :: "string \<Rightarrow> bool" where
  "has_heading data \<longleftrightarrow>
     (\<exists>pre n post. data = pre @ profile_open @ n @ '']'' @ post \<and>
        (\<forall>c\<in>set n. \<not> line_terminator c))"

section \<open>The credentials file, as the shell reads it\<close>

text \<open>
  A name that \<^verbatim>\<open>export\<close> can assign to, one line of the credentials file, and the shell
  once the six lines written for credentials \<open>c\<close> and profile \<open>p\<close> have been evaluated.
\<close>

definition export_name :: "string \<Rightarrow> bool" where
  "export_name x \<longleftrightarrow>
     valid_name x \<and> take 4 x = ''AWS_'' \<and> list_all shell_plain x \<and> CHR ''='' \<notin> set x"

definition export_line :: "string \<Rightarrow> string \<Rightarrow> string" where
  "export_line x v = ''export '' @ x @ ''='' @ v"

definition loaded :: "creds \<Rightarrow> string \<Rightarrow> shell \<Rightarrow> shell" where
  "loaded c p st =
     export_var ''AWS_DEFAULT_PROFILE'' p
       (export_var ''AWS_PROFILE'' p
         (export_var ''AWS_SESSION_TOKEN'' (sessionToken c)
           (export_var ''AWS_REGION'' CONFIG_awsRegion
             (export_var ''AWS_SECRET_ACCESS_KEY'' (secretAccessKey c)
               (export_var ''AWS_ACCESS_KEY_ID'' (accessKeyId c) st)))))"

section \<open>A run of the wrapper, seen from outside\<close>

text \<open>
  Of a run that ends: the command lines it handed to \<^verbatim>\<open>eval\<close> since the shell started, the
  simple commands it ran, and how it ended.
\<close>

definition evaluated :: "(status \<times> shell) option \<Rightarrow> string list option" where
  "evaluated r = map_option (\<lambda>(s, st). evals (history st)) r"

definition commands :: "(status \<times> shell) option \<Rightarrow> string list list option" where
  "commands r = map_option (\<lambda>(s, st). simple_runs (history st)) r"

definition ended :: "(status \<times> shell) option \<Rightarrow> status option" where
  "ended r = map_option fst r"

text \<open>The events so far, once \<^verbatim>\<open>check_dependencies\<close> has asked for both tools.\<close>

definition checked :: "shell_event list \<Rightarrow> shell_event list" where
  "checked hist =
     hist @ [Run (Simple [''command'', ''-v'', ''jq'']), Run (Simple [''command'', ''-v'', ''aws''])]"

text \<open>What a command substitution captures of a command that is run after the events so far.\<close>

definition captured :: "shell_host \<Rightarrow> shell_event list \<Rightarrow> invocation \<Rightarrow> string" where
  "captured H hist i = strip_newlines (snd (run_result H hist i))"

text \<open>
  The MFA serial that \<^verbatim>\<open>assume_role_with_arn\<close> finds for a source profile after the events so
  far: what the query for that profile prints and, when that query fails, what the query
  for \<^verbatim>\<open>default\<close> prints after it.
\<close>

definition mfa_serial_lookup :: "shell_host \<Rightarrow> shell_event list \<Rightarrow> string \<Rightarrow> string" where
  "mfa_serial_lookup H hist source_profile =
     (let q = Simple ([''aws'', ''configure'', ''get''] @ fields (source_profile @ ''.mfa_serial''));
          r = run_result H hist q
      in strip_newlines
           (if fst r = 0 then snd r
            else snd r @ snd (run_result H (hist @ [Run q])
                                (Simple [''aws'', ''configure'', ''get'', ''default.mfa_serial'']))))"

section \<open>A sample installation\<close>

text \<open>
  Concrete surroundings on which the functions are run: a user with home directory
  \<^verbatim>\<open>/home/u\<close> whose profile \<^verbatim>\<open>dev\<close> has a role and an MFA device and whose profile \<^verbatim>\<open>ops\<close> has a role
  only, who picks \<^verbatim>\<open>dev\<close> at the list
  prompt and types a wrong code before the right one. The AWS CLI answers an AssumeRole
  call with the text given as \<open>reply\<close>, or fails when there is none; \<^verbatim>\<open>JSON.parse\<close> is given
  on the sample replies.
\<close>

definition sts_reply :: string where
  \<open>sts_reply =
     ''{"Credentials":{"AccessKeyId":"AKIA1","SecretAccessKey":"SECRET1","SessionToken":"TOKEN1"}}''\<close>

definition sts_reply_no_fields :: string where
  \<open>sts_reply_no_fields = ''{"Credentials":{}}''\<close>

definition sts_reply_no_text :: string where
  \<open>sts_reply_no_text = ''{"Credentials":{"AccessKeyId":{"toString":1}}}''\<close>

definition sample_parse :: "string \<Rightarrow> string + json" where
  "sample_parse text =
     (if text = sts_reply
      then Inr (JObj [(''Credentials'',
                  JObj [(''AccessKeyId'', JStr ''AKIA1''), (''SecretAccessKey'', JStr ''SECRET1''),
                        (''SessionToken'', JStr ''TOKEN1'')])])
      else if text = sts_reply_no_fields
      then Inr (JObj [(''Credentials'', JObj [])])
      else if text = sts_reply_no_text
      then Inr (JObj [(''Credentials'', JObj [(''AccessKeyId'', JObj [(''toString'', JNum ''1'')])])])
      else if text = ''{}''
      then Inr (JObj [])
      else Inl ''Unexpected token in JSON'')"

definition sample_exec :: "string option \<Rightarrow> event list \<Rightarrow> string \<Rightarrow> string + string" where
  "sample_exec reply tr cmd =
     (if cmd = ''aws configure get dev.role_arn''
      then Inr ''arn:aws:iam::123456789012:role/Dev\<newline>''
      else if cmd = ''aws configure get dev.mfa_serial''
      then Inr ''arn:aws:iam::123456789012:mfa/me\<newline>''
      else if cmd = ''aws configure get ops.role_arn''
      then Inr ''arn:aws:iam::123456789012:role/Ops\<newline>''
      else if take 20 cmd = ''aws sts assume-role ''
      then (case reply of None \<Rightarrow> Inl (''Command failed: '' @ cmd) | Some r \<Rightarrow> Inr r)
      else if take 5 cmd = ''echo ''
      then Inr []
      else Inl (''Command failed: '' @ cmd))"

definition sample_host :: "string option \<Rightarrow> host" where
  "sample_host reply =
     \<lparr>process_env = [''HOME'' \<mapsto> ''/home/u''],
      exec_result = sample_exec reply,
      json_parse = sample_parse,
      write_fault = Map.empty,
      list_answer = (\<lambda>choices d. Inr ''dev''),
      input_typed = [''12a456'', ''123456''],
      input_fault = None\<rparr>"

definition sample_config :: string where
  "sample_config =
     ''[default]\<newline>region = ap-northeast-1\<newline>[profile dev]\<newline>role_arn = arn:aws:iam::123456789012:role/Dev\<newline>mfa_serial = arn:aws:iam::123456789012:mfa/me\<newline>''"

definition sample_world :: world where
  "sample_world = \<lparr>files = [''/home/u/.aws/config'' \<mapsto> sample_config], trace = []\<rparr>"

text \<open>
  The same installation seen from the shell: \<^verbatim>\<open>jq\<close> and the AWS CLI are installed, the
  clock shows 1700000000, and the profile \<^verbatim>\<open>default\<close> has an MFA device, too.
\<close>

definition sample_run :: "shell_event list \<Rightarrow> invocation \<Rightarrow> nat \<times> string" where
  "sample_run hist i =
     (case i of
        Simple argv \<Rightarrow>
          if argv = [''command'', ''-v'', ''jq''] then (0, ''/usr/bin/jq\<newline>'')
          else if argv = [''command'', ''-v'', ''aws''] then (0, ''/usr/local/bin/aws\<newline>'')
          else if argv = [''date'', ''+%s''] then (0, ''1700000000\<newline>'')
          else if argv = [''aws'', ''configure'', ''get'', ''dev.role_arn'']
          then (0, ''arn:aws:iam::123456789012:role/Dev\<newline>'')
          else if argv = [''aws'', ''configure'', ''get'', ''dev.mfa_serial'']
          then (0, ''arn:aws:iam::123456789012:mfa/me\<newline>'')
          else if argv = [''aws'', ''configure'', ''get'', ''default.mfa_serial'']
          then (0, ''arn:aws:iam::123456789012:mfa/me\<newline>'')
          else if take 3 argv = [''aws'', ''sts'', ''assume-role''] then (0, sts_reply @ ''\<newline>'')
          else (1, [])
      | Piped input argv \<Rightarrow>
          if argv = [''jq'', ''-r'', ''.Credentials.AccessKeyId''] then (0, ''AKIA1\<newline>'')
          else if argv = [''jq'', ''-r'', ''.Credentials.SecretAccessKey''] then (0, ''SECRET1\<newline>'')
          else if argv = [''jq'', ''-r'', ''.Credentials.SessionToken''] then (0, ''TOKEN1\<newline>'')
          else if argv = [''pbcopy''] then (0, [])
          else (127, [])
      | Eval text \<Rightarrow>
          if take 20 text = ''aws sts assume-role '' then (0, sts_reply @ ''\<newline>'') else (127, []))"

definition sample_shell_host :: "string option \<Rightarrow> shell_host" where
  "sample_shell_host reply =
     \<lparr>run_result = sample_run, arg0 = ''-bash'',
      script_dir = ''/usr/local/lib/node_modules/awsp'', passwd_home = ''/home/u'',
      selector = sample_host reply\<rparr>"

definition sample_shell :: "(string \<rightharpoonup> string) \<Rightarrow> shell" where
  "sample_shell disk =
     \<lparr>vars = [''HOME'' \<mapsto> ''/home/u'', ''AWS_PROFILE'' \<mapsto> ''ops''],
      exported = {''HOME'', ''AWS_PROFILE''}, fs = disk, history = []\<rparr>"

text \<open>
  The same shell once the wrapper has run in it with \<^verbatim>\<open>-m\<close>, a code and one more argument:
  \<^verbatim>\<open>OPTIND\<close> is 3.
\<close>

definition sample_shell_again :: shell where
  "sample_shell_again =
     (sample_shell (files sample_world))
       \<lparr>vars := (vars (sample_shell (files sample_world)))(''OPTIND'' \<mapsto> ''3'')\<rparr>"

section \<open>The profile pattern on config texts\<close>

lemma match_all_skip: "match_profile_all k s = match_profile_all 0 (drop k s)"
  by (induction k s rule: match_profile_all.induct) simp_all

lemma remove_brackets_skip: "remove_brackets k s = remove_brackets 0 (drop k s)"
  by (induction k s rule: remove_brackets.induct) simp_all

lemma greedy_close_snoc: "greedy_close (xs @ '']'') = Some (xs @ '']'')"
  by (induction xs) simp_all

lemma takeWhile_line:
  "\<forall>x\<in>set xs. P x \<Longrightarrow> ys = [] \<or> \<not> P (hd ys) \<Longrightarrow> takeWhile P (xs @ ys) = xs"
  by (induction xs) (auto simp: takeWhile_eq_Nil_iff)

lemma take_open_line_end:
  assumes "take 9 (l @ rest) = profile_open" "line_end rest"
  shows "take 9 l = profile_open"
proof (cases "9 \<le> length l \<or> rest = []")
  case True
  with assms show ?thesis by auto
next
  case False
  then obtain r where rest: "rest = CHR 0x0A # r" and len: "length l < 9"
    using assms(2) by (cases rest) (auto simp: line_end_def)
  from len obtain k where k: "9 - length l = Suc k"
    by (cases "9 - length l") auto
  have "CHR 0x0A \<in> set (take 9 (l @ rest))"
    by (simp add: rest k)
  with assms(1) show ?thesis by (simp add: profile_open_def)
qed

lemma match_all_other:
  "\<not> mentions_open l \<Longrightarrow> line_end rest \<Longrightarrow>
   match_profile_all 0 (l @ rest) = match_profile_all 0 rest"
proof (induction l)
  case Nil
  then show ?case by simp
next
  case (Cons c cs)
  have "take 9 ((c # cs) @ rest) \<noteq> profile_open"
    using Cons.prems take_open_line_end [of "c # cs" rest] by auto
  then have "match_profile_at (c # cs @ rest) = None"
    by (simp add: match_profile_at_def)
  with Cons show ?case by simp
qed

lemma match_at_heading:
  assumes "plain_name n" "line_end rest"
  shows "match_profile_at (profile_open @ n @ '']'' @ rest) = Some (profile_open @ n @ '']'')"
proof -
  have "takeWhile (\<lambda>c. \<not> line_terminator c) ((n @ '']'') @ rest) = n @ '']''"
    using assms by (intro takeWhile_line) (auto simp: plain_name_def line_terminator_def line_end_def)
  then show ?thesis
    by (simp add: match_profile_at_def profile_open_def greedy_close_snoc)
qed


lemma match_all_heading:
  assumes "plain_name n" "line_end rest"
  shows "match_profile_all 0 (profile_open @ n @ '']'' @ rest) =
         (profile_open @ n @ '']'') # match_profile_all 0 rest"
proof -
  let ?m = "profile_open @ n @ '']''"
  obtain cs where cs: "?m @ rest = CHR ''['' # cs" and tl: "cs = tl ?m @ rest"
    by (simp add: profile_open_def)
  have at: "match_profile_at (CHR ''['' # cs) = Some ?m"
    using match_at_heading [OF assms] cs by simp
  have "drop (length ?m - 1) cs = rest"
    by (simp add: tl profile_open_def)
  then have "match_profile_all (length ?m - 1) cs = match_profile_all 0 rest"
    using match_all_skip [of "length ?m - 1" cs] by simp
  with at have "match_profile_all 0 (CHR ''['' # cs) = ?m # match_profile_all 0 rest"
    by simp
  with cs show ?thesis by simp
qed

lemma match_all_newline:
  "match_profile_all 0 (CHR 0x0A # t) = match_profile_all 0 t"
  by (simp add: match_profile_at_def profile_open_def)

lemma match_all_line:
  assumes "well_formed l" "line_end rest"
  shows "match_profile_all 0 (render_line l @ rest) =
         map (\<lambda>n. profile_open @ n @ '']'') (heading_names [l]) @ match_profile_all 0 rest"
proof (cases l)
  case (Heading n)
  with assms have "plain_name n" by simp
  from match_all_heading [OF this assms(2)] show ?thesis
    by (simp add: Heading del: match_profile_all.simps)
next
  case (Other t)
  with assms have "\<not> mentions_open t" by simp
  from match_all_other [OF this assms(2)] show ?thesis
    by (simp add: Other del: match_profile_all.simps)
qed

lemma heading_names_Cons:
  "heading_names (l # ls) = heading_names [l] @ heading_names ls"
  by (cases l) simp_all

lemma match_all_config:
  "\<forall>l\<in>set ls. well_formed l \<Longrightarrow>
   match_profile_all 0 (config_text ls) =
     map (\<lambda>n. profile_open @ n @ '']'') (heading_names ls)"
proof (induction ls rule: induct_list012)
  case 1
  show ?case by (simp add: config_text_def)
next
  case (2 l)
  then have "well_formed l" by simp
  from match_all_line [OF this, of "[]"] show ?case
    by (simp add: config_text_def line_end_def del: match_profile_all.simps(3))
next
  case (3 l l' ls)
  let ?rest = "CHR 0x0A # config_text (l' # ls)"
  have whole: "config_text (l # l' # ls) = render_line l @ ?rest"
    by (simp add: config_text_def)
  have le: "line_end ?rest" by (simp add: line_end_def)
  have wf: "well_formed l" using 3 by simp
  have "match_profile_all 0 ?rest = match_profile_all 0 (config_text (l' # ls))"
    by (rule match_all_newline)
  also have "\<dots> = map (\<lambda>n. profile_open @ n @ '']'') (heading_names (l' # ls))"
    using 3 by simp
  finally have IH: "match_profile_all 0 ?rest =
      map (\<lambda>n. profile_open @ n @ '']'') (heading_names (l' # ls))" .
  have "match_profile_all 0 (config_text (l # l' # ls)) =
        map (\<lambda>n. profile_open @ n @ '']'') (heading_names [l]) @ match_profile_all 0 ?rest"
    unfolding whole by (rule match_all_line [OF wf le])
  also have "\<dots> = map (\<lambda>n. profile_open @ n @ '']'') (heading_names (l # l' # ls))"
    unfolding IH heading_names_Cons [of l "l' # ls"] by simp
  finally show ?case .
qed

lemma remove_brackets_plain:
  "plain_name n \<Longrightarrow> remove_brackets 0 (n @ '']'') = n"
proof (induction n)
  case Nil
  show ?case by (simp add: profile_open_def)
next
  case (Cons c cs)
  then have "c \<noteq> CHR ''[''" "c \<noteq> CHR '']''" "plain_name cs"
    by (simp_all add: plain_name_def)
  with Cons.IH show ?case by (auto simp: profile_open_def)
qed

lemma remove_brackets_heading:
  assumes "plain_name n"
  shows "remove_brackets 0 (profile_open @ n @ '']'') = n"
proof -
  have "remove_brackets 0 (profile_open @ n @ '']'') = remove_brackets 8 (tl profile_open @ n @ '']'')"
    by (simp add: profile_open_def)
  also have "\<dots> = remove_brackets 0 (n @ '']'')"
    using remove_brackets_skip [of 8 "tl profile_open @ n @ '']''"] by (simp add: profile_open_def)
  finally show ?thesis using assms by (simp add: remove_brackets_plain)
qed

lemma heading_names_plain:
  "\<forall>l\<in>set ls. well_formed l \<Longrightarrow> \<forall>n\<in>set (heading_names ls). plain_name n"
  by (induction ls rule: heading_names.induct) simp_all

lemma profile_choices_config:
  assumes "\<forall>l\<in>set ls. well_formed l"
  shows "profile_choices (config_text ls) =
         (if heading_names ls = [] then None else Some (heading_names ls @ [DEFAULTS_profile]))"
proof -
  have m: "match_profile_all 0 (config_text ls) =
        map (\<lambda>n. profile_open @ n @ '']'') (heading_names ls)"
    using assms by (rule match_all_config)
  have r: "map (remove_brackets 0) (map (\<lambda>n. profile_open @ n @ '']'') (heading_names ls)) =
        heading_names ls"
    using heading_names_plain [OF assms] by (simp add: map_idI remove_brackets_heading)
  show ?thesis
  proof (cases "heading_names ls")
    case Nil
    with m show ?thesis by (simp add: profile_choices_def match_profile_def)
  next
    case (Cons a as)
    with m obtain x xs where x: "match_profile_all 0 (config_text ls) = x # xs"
      by auto
    with m r Cons show ?thesis
      by (simp add: profile_choices_def match_profile_def)
  qed
qed


lemma greedy_close_None_iff: "greedy_close xs = None \<longleftrightarrow> CHR '']'' \<notin> set xs"
  by (induction xs) (auto split: option.splits)

lemma greedy_close_Some:
  "greedy_close xs = Some m \<Longrightarrow> \<exists>n post. m = n @ '']'' \<and> xs = m @ post"
proof (induction xs arbitrary: m)
  case Nil
  then show ?case by simp
next
  case (Cons c cs)
  show ?case
  proof (cases "greedy_close cs")
    case None
    with Cons.prems have "m = '']''" "c = CHR '']''"
      by (auto split: if_splits)
    then show ?thesis by simp
  next
    case (Some m')
    with Cons.prems have m: "m = c # m'" by simp
    from Cons.IH [OF Some] obtain n post where "m' = n @ '']''" "cs = m' @ post"
      by blast
    with m have "m = (c # n) @ '']'' \<and> c # cs = m @ post" by simp
    then show ?thesis by blast
  qed
qed

lemma match_at_Some:
  assumes "match_profile_at s = Some m"
  shows "\<exists>n post. m = profile_open @ n @ '']'' \<and> s = m @ post \<and>
           (\<forall>c\<in>set n. \<not> line_terminator c)"
proof -
  let ?P = "\<lambda>c. \<not> line_terminator c"
  from assms have op: "take 9 s = profile_open"
    by (auto simp: match_profile_at_def split: if_splits)
  with assms obtain m' where g: "greedy_close (takeWhile ?P (drop 9 s)) = Some m'"
    and m: "m = profile_open @ m'"
    by (auto simp: match_profile_at_def)
  from greedy_close_Some [OF g] obtain n post where
    m': "m' = n @ '']''" and tw: "takeWhile ?P (drop 9 s) = m' @ post"
    by blast
  have "set n \<subseteq> set (takeWhile ?P (drop 9 s))"
    by (auto simp: tw m')
  then have nt: "\<forall>c\<in>set n. \<not> line_terminator c"
    by (auto dest: set_takeWhileD)
  have "s = take 9 s @ takeWhile ?P (drop 9 s) @ dropWhile ?P (drop 9 s)"
    by simp
  then have "s = m @ (post @ dropWhile ?P (drop 9 s))"
    by (simp only: op tw m append_assoc)
  with m m' nt show ?thesis by blast
qed

lemma match_all_found:
  "match_profile_all k s \<noteq> [] \<Longrightarrow> \<exists>pre t m. s = pre @ t \<and> match_profile_at t = Some m"
proof (induction k s rule: match_profile_all.induct)
  case (1 k)
  then show ?case by simp
next
  case (2 k c cs)
  then obtain pre t m where "cs = pre @ t" "match_profile_at t = Some m"
    by auto
  then have "c # cs = (c # pre) @ t \<and> match_profile_at t = Some m" by simp
  then show ?case by blast
next
  case (3 c cs)
  show ?case
  proof (cases "match_profile_at (c # cs)")
    case None
    with 3 obtain pre t m where "cs = pre @ t" "match_profile_at t = Some m"
      by auto
    then have "c # cs = (c # pre) @ t \<and> match_profile_at t = Some m" by simp
    then show ?thesis by blast
  next
    case (Some m)
    then have "c # cs = [] @ (c # cs) \<and> match_profile_at (c # cs) = Some m" by simp
    then show ?thesis by blast
  qed
qed

lemma match_at_open:
  assumes "\<forall>c\<in>set n. \<not> line_terminator c"
  shows "match_profile_at (profile_open @ n @ '']'' @ post) \<noteq> None"
proof -
  let ?P = "\<lambda>c. \<not> line_terminator c"
  have "takeWhile ?P (n @ '']'' @ post) = n @ takeWhile ?P ('']'' @ post)"
    using assms by (simp add: takeWhile_append2)
  then have "CHR '']'' \<in> set (takeWhile ?P (n @ '']'' @ post))"
    by (simp add: line_terminator_def)
  then have "greedy_close (takeWhile ?P (n @ '']'' @ post)) \<noteq> None"
    by (simp add: greedy_close_None_iff)
  then show ?thesis
    by (simp add: match_profile_at_def profile_open_def)
qed

lemma match_all_reaches:
  "match_profile_at t \<noteq> None \<Longrightarrow> match_profile_all 0 (pre @ t) \<noteq> []"
proof (induction pre)
  case Nil
  then show ?case by (cases t) (auto simp: match_profile_at_def profile_open_def)
next
  case (Cons c cs)
  then show ?case by (cases "match_profile_at (c # cs @ t)") simp_all
qed

lemma match_all_empty_iff: "match_profile_all 0 data = [] \<longleftrightarrow> \<not> has_heading data"
proof
  assume e: "match_profile_all 0 data = []"
  show "\<not> has_heading data"
  proof
    assume "has_heading data"
    then obtain pre n post where d: "data = pre @ profile_open @ n @ '']'' @ post"
      and nt: "\<forall>c\<in>set n. \<not> line_terminator c"
      unfolding has_heading_def by blast
    from match_all_reaches [OF match_at_open [OF nt]] have "match_profile_all 0 data \<noteq> []"
      unfolding d .
    with e show False by simp
  qed
next
  assume n: "\<not> has_heading data"
  show "match_profile_all 0 data = []"
  proof (rule ccontr)
    assume "match_profile_all 0 data \<noteq> []"
    from match_all_found [OF this] obtain pre t m where
      d: "data = pre @ t" and m: "match_profile_at t = Some m" by blast
    from match_at_Some [OF m] obtain nm post where
      "m = profile_open @ nm @ '']''" "t = m @ post" "\<forall>c\<in>set nm. \<not> line_terminator c"
      by blast
    with d have "data = pre @ profile_open @ nm @ '']'' @ post \<and> (\<forall>c\<in>set nm. \<not> line_terminator c)"
      by simp
    then have "has_heading data" unfolding has_heading_def by blast
    with n show False by simp
  qed
qed

lemma profile_choices_None_iff: "profile_choices data = None \<longleftrightarrow> \<not> has_heading data"
  using match_all_empty_iff [of data]
  by (auto simp: profile_choices_def match_profile_def split: list.splits)

section \<open>The list of choices\<close>

text \<open>
  C1, as stated, fails: a config whose two headings are \<^verbatim>\<open>dev\<close> and \<^verbatim>\<open>default\<close> yields
  three choices, and \<^verbatim>\<open>default\<close> is among them twice.
\<close>

theorem choices_repeat_default:
  "profile_choices ''[profile dev]\<newline>[profile default]\<newline>'' =
     Some [''dev'', ''default'', ''default''] \<and>
   \<not> distinct (the (profile_choices ''[profile dev]\<newline>[profile default]\<newline>''))"
  by code_simp

lemma profile_choices_length:
  assumes "has_heading data"
  shows "\<exists>choices. profile_choices data = Some choices \<and>
           length choices = length (match_profile_all 0 data) + 1 \<and> last choices = ''default''"
proof -
  from assms have "match_profile_all 0 data \<noteq> []"
    by (simp add: match_all_empty_iff)
  then obtain m ms where "match_profile_all 0 data = m # ms"
    by (cases "match_profile_all 0 data") auto
  then show ?thesis
    by (simp add: profile_choices_def match_profile_def DEFAULTS_profile_def)
qed

text \<open>
  C1, amended: for a config with well-formed lines and N \<ge> 1 profile headings, the list of
  choices handed to the list prompt is the N names in the order of the file, followed by
  \<^verbatim>\<open>default\<close>. It has N + 1 entries. It is free of duplicates exactly when the names are
  distinct and \<^verbatim>\<open>default\<close> is not one of them: nothing removes a repeated entry. For any
  text with a heading at all, the list has one entry per match of the pattern and
  \<^verbatim>\<open>default\<close> as its last entry.
\<close>

theorem choices_are_names_then_default:
  assumes "\<forall>l\<in>set ls. well_formed l" and "heading_names ls \<noteq> []"
  shows "profile_choices (config_text ls) = Some (heading_names ls @ [''default'']) \<and>
         length (the (profile_choices (config_text ls))) = length (heading_names ls) + 1 \<and>
         (distinct (the (profile_choices (config_text ls))) \<longleftrightarrow>
            distinct (heading_names ls) \<and> ''default'' \<notin> set (heading_names ls)) \<and>
         promptProfileChoice h (config_text ls) w =
           (case list_answer h (heading_names ls @ [''default'']) (prompt_default h) of
              Inl msg \<Rightarrow> (Inl msg, w)
            | Inr p \<Rightarrow> (Inr (Some p), w)) \<and>
         (has_heading data \<longrightarrow>
            (\<exists>choices. profile_choices data = Some choices \<and>
               length choices = length (match_profile_all 0 data) + 1 \<and>
               last choices = ''default''))"
proof -
  have c: "profile_choices (config_text ls) = Some (heading_names ls @ [''default''])"
    using profile_choices_config [OF assms(1)] assms(2) by (simp add: DEFAULTS_profile_def)
  then have "profile_choices (config_text ls) = Some (heading_names ls @ [''default'']) \<and>
         length (the (profile_choices (config_text ls))) = length (heading_names ls) + 1 \<and>
         (distinct (the (profile_choices (config_text ls))) \<longleftrightarrow>
            distinct (heading_names ls) \<and> ''default'' \<notin> set (heading_names ls)) \<and>
         promptProfileChoice h (config_text ls) w =
           (case list_answer h (heading_names ls @ [''default'']) (prompt_default h) of
              Inl msg \<Rightarrow> (Inl msg, w)
            | Inr p \<Rightarrow> (Inr (Some p), w))"
    by (auto simp: promptProfileChoice_def)
  with profile_choices_length [of data] show ?thesis by blast
qed

theorem choices_are_names_then_default_witness:
  "list_all well_formed
     [Other ''[default]'', Other ''region = us-east-1'', Heading ''dev'',
      Other ''role_arn = arn:aws:iam::123456789012:role/Dev'', Heading ''prod''] \<and>
   heading_names
     [Other ''[default]'', Other ''region = us-east-1'', Heading ''dev'',
      Other ''role_arn = arn:aws:iam::123456789012:role/Dev'', Heading ''prod''] = [''dev'', ''prod''] \<and>
   profile_choices (config_text
     [Other ''[default]'', Other ''region = us-east-1'', Heading ''dev'',
      Other ''role_arn = arn:aws:iam::123456789012:role/Dev'', Heading ''prod'']) =
     Some [''dev'', ''prod'', ''default''] \<and>
   distinct [''dev'', ''prod'', ''default''] \<and>
   length (the (profile_choices ''[profile a] [profile b]'')) =
     length (match_profile_all 0 ''[profile a] [profile b]'') + 1 \<and>
   last (the (profile_choices ''[profile a] [profile b]'')) = ''default''"
proof -
  let ?ls = "[Other ''[default]'', Other ''region = us-east-1'', Heading ''dev'',
              Other ''role_arn = arn:aws:iam::123456789012:role/Dev'', Heading ''prod'']"
  have "profile_choices ''[profile a] [profile b]'' \<noteq> None"
    by code_simp
  then have hh: "has_heading ''[profile a] [profile b]''"
    by (simp add: profile_choices_None_iff)
  have la: "list_all well_formed ?ls"
    by (simp add: plain_name_def line_terminator_def profile_open_def)
  then have wf: "\<forall>l\<in>set ?ls. well_formed l"
    by (simp only: list_all_iff)
  have hn: "heading_names ?ls \<noteq> []"
    by simp
  from choices_are_names_then_default [OF wf hn, where data = "''[profile a] [profile b]''"] hh
  have T: "profile_choices (config_text ?ls) = Some (heading_names ?ls @ [''default'']) \<and>
        (\<exists>choices. profile_choices ''[profile a] [profile b]'' = Some choices \<and>
           length choices = length (match_profile_all 0 ''[profile a] [profile b]'') + 1 \<and>
           last choices = ''default'')"
    by blast
  have a: "heading_names ?ls = [''dev'', ''prod'']"
    by simp
  from T have b: "profile_choices (config_text ?ls) = Some [''dev'', ''prod'', ''default'']"
    by simp
  have d: "distinct [''dev'', ''prod'', ''default'']"
    by simp
  from T have c1: "length (the (profile_choices ''[profile a] [profile b]'')) =
      length (match_profile_all 0 ''[profile a] [profile b]'') + 1"
    by auto
  from T have c2: "last (the (profile_choices ''[profile a] [profile b]'')) = ''default''"
    by auto
  show ?thesis
    by (intro conjI la a b d c1 c2)
qed

section \<open>The MFA code\<close>

lemma digits_only_iff: "digits_only s \<longleftrightarrow> s \<noteq> [] \<and> (\<forall>c\<in>set s. digit c)"
  by (simp add: digits_only_def list_all_iff)

lemma validate_accepted_iff:
  "validate v = Accepted \<longleftrightarrow> length v = 6 \<and> (\<forall>c\<in>set v. digit c)"
  by (auto simp: validate_def digits_only_iff DEFAULTS_mfaCodeLength_def)

lemma validate_rejected:
  "validate v \<noteq> Accepted \<Longrightarrow> validate v = Rejected ''Please enter a valid 6-digit MFA code''"
  by (auto simp: validate_def)

text \<open>
  C2: the validator accepts exactly the strings of six characters that are all among
  \<^verbatim>\<open>0\<close> to \<^verbatim>\<open>9\<close>. An accepted input is the answer of the prompt. A rejected input is not an
  error: the validator returns the text to show, the prompt shows it and goes on with the
  next attempt.
\<close>

theorem mfa_code_validation:
  "(validate v = Accepted \<longleftrightarrow> length v = 6 \<and> (\<forall>c\<in>set v. digit c)) \<and>
   (length v = 6 \<and> (\<forall>c\<in>set v. digit c) \<longrightarrow>
      promptMfaCode (h\<lparr>input_fault := None, input_typed := v # later\<rparr>) = Inr (Some v)) \<and>
   (\<not> (length v = 6 \<and> (\<forall>c\<in>set v. digit c)) \<longrightarrow>
      validate v = Rejected ''Please enter a valid 6-digit MFA code'' \<and>
      fst (inquirer_input validate (v # later)) =
        ''Please enter a valid 6-digit MFA code'' # fst (inquirer_input validate later) \<and>
      promptMfaCode (h\<lparr>input_fault := None, input_typed := v # later\<rparr>) =
        promptMfaCode (h\<lparr>input_fault := None, input_typed := later\<rparr>))"
proof -
  have iff: "validate v = Accepted \<longleftrightarrow> length v = 6 \<and> (\<forall>c\<in>set v. digit c)"
    by (rule validate_accepted_iff)
  have acc: "promptMfaCode (h\<lparr>input_fault := None, input_typed := v # later\<rparr>) = Inr (Some v)"
    if "validate v = Accepted"
    using that by (simp add: promptMfaCode_def)
  have rej: "validate v = Rejected ''Please enter a valid 6-digit MFA code'' \<and>
      fst (inquirer_input validate (v # later)) =
        ''Please enter a valid 6-digit MFA code'' # fst (inquirer_input validate later) \<and>
      promptMfaCode (h\<lparr>input_fault := None, input_typed := v # later\<rparr>) =
        promptMfaCode (h\<lparr>input_fault := None, input_typed := later\<rparr>)"
    if "validate v \<noteq> Accepted"
  proof -
    from that have r: "validate v = Rejected ''Please enter a valid 6-digit MFA code''"
      by (rule validate_rejected)
    then show ?thesis
      by (simp add: promptMfaCode_def split: prod.splits)
  qed
  from iff acc rej show ?thesis by blast
qed

theorem mfa_code_validation_witness:
  "validate ''123456'' = Accepted \<and> validate ''12345'' \<noteq> Accepted \<and>
   validate ''1234567'' \<noteq> Accepted \<and> validate ''12a456'' \<noteq> Accepted \<and> validate [] \<noteq> Accepted \<and>
   promptMfaCode (sample_host None) = Inr (Some ''123456'')"
  using mfa_code_validation [where v = "''123456''" and h = "sample_host None" and later = "[]"]
    mfa_code_validation [where v = "''12345''"] mfa_code_validation [where v = "''1234567''"]
    mfa_code_validation [where v = "[]"]
    mfa_code_validation [where v = "''12a456''" and h = "sample_host None" and later = "[''123456'']"]
  by (simp add: digit_def sample_host_def)

section \<open>Effects of the functions of index.js\<close>

lemma trace_emit [simp]: "trace (emit e w) = trace w @ [e]"
  by (simp add: emit_def)

lemma files_emit [simp]: "files (emit e w) = files w"
  by (simp add: emit_def)

lemma execSync_simps [simp]:
  "fst (execSync h cmd w) = exec_result h (trace w) cmd"
  "snd (execSync h cmd w) = emit (ExecSync cmd) w"
  by (simp_all add: execSync_def)

lemma getAwsConfig_Inl:
  "exec_result h (trace w) (configure_get p k) = Inl e \<Longrightarrow>
   getAwsConfig h p k w = (Inl e, emit (ExecSync (configure_get p k)) w)"
  by (simp add: getAwsConfig_def execSync_def)

lemma getAwsConfig_Inr:
  "exec_result h (trace w) (configure_get p k) = Inr out \<Longrightarrow>
   getAwsConfig h p k w = (Inr (trim out), emit (ExecSync (configure_get p k)) w)"
  by (simp add: getAwsConfig_def execSync_def)

lemma copyToClipboard_world:
  "snd (copyToClipboard h c w) = emit (ExecSync (clipboard_command c)) w"
  by (simp add: copyToClipboard_def execSync_def split: sum.splits)

lemma assume_role_try_ok:
  assumes "exec_result h (trace w) (configure_get p ''role_arn'') = Inr o1"
    and "exec_result h (trace w @ [ExecSync (configure_get p ''role_arn'')])
           (configure_get p ''mfa_serial'') = Inr o2"
    and "exec_result h (trace w @ [ExecSync (configure_get p ''role_arn''),
                                    ExecSync (configure_get p ''mfa_serial'')])
           (assumeRoleCommand (trim o1) p (trim o2) code) = Inr reply"
    and "json_parse h reply = Inr j"
    and "extract_creds j = Inr v" and "render_creds v = Inr c"
    and "write_fault h (CONFIG_credentialsFile h) = None"
  shows "\<exists>w'. assume_role_try h p code w = (Inr (), w') \<and>
           files w' = (files w)(CONFIG_credentialsFile h \<mapsto> credentialsContent c p) \<and>
           (\<exists>msg. trace w' = trace w @
              [ExecSync (configure_get p ''role_arn''), ExecSync (configure_get p ''mfa_serial''),
               ExecSync (assumeRoleCommand (trim o1) p (trim o2) code),
               WriteFile (CONFIG_credentialsFile h) (credentialsContent c p),
               ExecSync (clipboard_command c), ConsoleLog msg])"
  using assms
  by (simp add: assume_role_try_def getAwsConfig_def execSync_def write_file_def
      copyToClipboard_def split: sum.splits)

lemma assume_role_try_result:
  assumes "assume_role_try h p code w = (r, w')"
  shows "case r of
           Inl e \<Rightarrow> files w' = files w \<and> (\<exists>es. trace w' = trace w @ es \<and> \<not> list_ex is_write es)
         | Inr u \<Rightarrow>
             (\<exists>o1 o2 reply j v c.
                exec_result h (trace w) (configure_get p ''role_arn'') = Inr o1 \<and>
                exec_result h (trace w @ [ExecSync (configure_get p ''role_arn'')])
                  (configure_get p ''mfa_serial'') = Inr o2 \<and>
                exec_result h (trace w @ [ExecSync (configure_get p ''role_arn''),
                                           ExecSync (configure_get p ''mfa_serial'')])
                  (assumeRoleCommand (trim o1) p (trim o2) code) = Inr reply \<and>
                json_parse h reply = Inr j \<and> extract_creds j = Inr v \<and> render_creds v = Inr c \<and>
                write_fault h (CONFIG_credentialsFile h) = None)"
  using assms
  by (auto simp: assume_role_try_def getAwsConfig_def execSync_def write_file_def
      split: sum.splits prod.splits option.splits)

section \<open>The role-capability check\<close>

lemma hasRoleConfiguration_world:
  "files (snd (hasRoleConfiguration h p w)) = files w \<and>
   (\<exists>es. trace (snd (hasRoleConfiguration h p w)) = trace w @ es \<and> \<not> list_ex is_write es)"
  by (auto simp: hasRoleConfiguration_def execSync_def split: sum.splits prod.splits)

lemma hasRoleConfiguration_truthy:
  "truthy (fst (hasRoleConfiguration h p w)) \<longleftrightarrow>
     (\<exists>o1 o2.
        exec_result h (trace w) (configure_get p ''role_arn'') = Inr o1 \<and>
        exec_result h (trace w @ [ExecSync (configure_get p ''role_arn'')])
          (configure_get p ''mfa_serial'') = Inr o2 \<and>
        trim o1 \<noteq> [] \<and> trim o2 \<noteq> [])"
  by (auto simp: hasRoleConfiguration_def execSync_def split: sum.splits prod.splits)

lemma trim_Nil [simp]: "trim [] = []"
  by (simp add: trim_def)

section \<open>main\<close>

lemma main_unreadable:
  "files w (CONFIG_awsConfigFile h) = None \<Longrightarrow>
   main h w = (Exit 1, emit (ConsoleError (''Error: '' @ enoent (CONFIG_awsConfigFile h)))
                         (emit (ReadFile (CONFIG_awsConfigFile h)) w))"
  by (simp add: main_def readAwsProfiles_def)

lemma main_no_profiles:
  assumes "files w (CONFIG_awsConfigFile h) = Some data" "profile_choices data = None"
  shows "main h w = (Exit 0, w\<lparr>trace := trace w @ ReadFile (CONFIG_awsConfigFile h) # no_profiles_guidance\<rparr>)"
  using assms by (simp add: main_def readAwsProfiles_def promptProfileChoice_def emit_def)

lemma main_selected:
  assumes "files w (CONFIG_awsConfigFile h) = Some data"
    and "profile_choices data = Some choices"
    and "list_answer h choices (prompt_default h) = Inr p"
    and "write_fault h (CONFIG_profileFile h) = None"
  shows "main h w =
     (case hasRoleConfiguration h p (after_write h p w) of
        (capable, w4) \<Rightarrow>
          if truthy capable
          then (case promptMfaCode h of
                  Inl msg \<Rightarrow> (Exit 1, emit (ConsoleError (''MFA authentication failed: '' @ msg)) w4)
                | Inr None \<Rightarrow> (Unanswered, w4)
                | Inr (Some mfaCode) \<Rightarrow>
                    (case performAssumeRole h p mfaCode w4 of
                       (success, w5) \<Rightarrow> if success then (Exit 0, w5) else (Exit 1, w5)))
          else (Exit 0, w4))"
  using assms
  by (simp add: main_def readAwsProfiles_def promptProfileChoice_def writeToConfig_def
      write_file_def after_write_def)

lemma main_write_fails:
  assumes "files w (CONFIG_awsConfigFile h) = Some data"
    and "profile_choices data = Some choices"
    and "list_answer h choices (prompt_default h) = Inr p"
    and "write_fault h (CONFIG_profileFile h) = Some msg"
  shows "main h w = (Exit 1, emit (ConsoleError (''Error: '' @ msg)) (emit (ReadFile (CONFIG_awsConfigFile h)) w))"
  using assms
  by (simp add: main_def readAwsProfiles_def promptProfileChoice_def writeToConfig_def
      write_file_def)

lemma paths_differ: "CONFIG_credentialsFile h \<noteq> CONFIG_profileFile h"
  by (simp add: CONFIG_credentialsFile_def CONFIG_profileFile_def)

lemma performAssumeRole_world:
  assumes "performAssumeRole h p code w = (ok, w')"
  shows "files w' (CONFIG_profileFile h) = files w (CONFIG_profileFile h) \<and>
         (\<exists>es. trace w' = trace w @ es \<and> \<not> list_ex (writes_to (CONFIG_profileFile h)) es)"
proof -
  obtain r w1 where t: "assume_role_try h p code w = (r, w1)"
    by (cases "assume_role_try h p code w")
  show ?thesis
  proof (cases r)
    case (Inl e)
    with assume_role_try_result [OF t] obtain es where
      "files w1 = files w" "trace w1 = trace w @ es" "\<not> list_ex is_write es"
      by auto
    moreover have "w' = emit (ConsoleError (''Error assuming role: '' @ e)) w1"
      using assms t Inl by (simp add: performAssumeRole_def)
    moreover have "\<not> list_ex (writes_to (CONFIG_profileFile h)) es"
      using \<open>\<not> list_ex is_write es\<close>
      by (auto simp: list_ex_iff writes_to_def split: event.splits)
    ultimately show ?thesis
      by (auto simp: writes_to_def)
  next
    case (Inr u)
    with assume_role_try_result [OF t] obtain o1 o2 reply j v c where
      a: "exec_result h (trace w) (configure_get p ''role_arn'') = Inr o1"
        "exec_result h (trace w @ [ExecSync (configure_get p ''role_arn'')])
          (configure_get p ''mfa_serial'') = Inr o2"
        "exec_result h (trace w @ [ExecSync (configure_get p ''role_arn''),
                                   ExecSync (configure_get p ''mfa_serial'')])
          (assumeRoleCommand (trim o1) p (trim o2) code) = Inr reply"
        "json_parse h reply = Inr j" "extract_creds j = Inr v" "render_creds v = Inr c"
        "write_fault h (CONFIG_credentialsFile h) = None"
      by auto
    from assume_role_try_ok [OF a] t obtain msg where
      f: "files w1 = (files w)(CONFIG_credentialsFile h \<mapsto> credentialsContent c p)" and
      tr: "trace w1 = trace w @
              [ExecSync (configure_get p ''role_arn''), ExecSync (configure_get p ''mfa_serial''),
               ExecSync (assumeRoleCommand (trim o1) p (trim o2) code),
               WriteFile (CONFIG_credentialsFile h) (credentialsContent c p),
               ExecSync (clipboard_command c), ConsoleLog msg]"
      by auto
    have "w' = w1" using assms t Inr by (simp add: performAssumeRole_def)
    with f tr show ?thesis
      using paths_differ [of h] by (auto simp: writes_to_def)
  qed
qed

section \<open>The role-capability check, as claimed\<close>

lemma trim_nonempty: "trim s \<noteq> [] \<Longrightarrow> s \<noteq> []"
  by auto

text \<open>
  C3: the check is truthy exactly when both queries return and both values are non-empty
  (also after trimming); a value that is missing or empty, or a query that fails, makes
  it falsy. The check writes no file, and \<^verbatim>\<open>main\<close> then ends with exit status 0.
\<close>

theorem role_capability_check:
  "(truthy (fst (hasRoleConfiguration h p w)) \<longleftrightarrow>
      (\<exists>o1 o2.
         exec_result h (trace w) (''aws configure get '' @ p @ ''.role_arn'') = Inr o1 \<and>
         exec_result h (trace w @ [ExecSync (''aws configure get '' @ p @ ''.role_arn'')])
           (''aws configure get '' @ p @ ''.mfa_serial'') = Inr o2 \<and>
         o1 \<noteq> [] \<and> trim o1 \<noteq> [] \<and> o2 \<noteq> [] \<and> trim o2 \<noteq> [])) \<and>
   files (snd (hasRoleConfiguration h p w)) = files w \<and>
   (files w0 (CONFIG_awsConfigFile h) = Some data \<and> profile_choices data = Some choices \<and>
    list_answer h choices (prompt_default h) = Inr p \<and>
    write_fault h (CONFIG_profileFile h) = None \<and>
    \<not> truthy (fst (hasRoleConfiguration h p (after_write h p w0))) \<longrightarrow>
      main h w0 = (Exit 0, snd (hasRoleConfiguration h p (after_write h p w0))))"
proof -
  have a: "truthy (fst (hasRoleConfiguration h p w)) \<longleftrightarrow>
      (\<exists>o1 o2.
         exec_result h (trace w) (''aws configure get '' @ p @ ''.role_arn'') = Inr o1 \<and>
         exec_result h (trace w @ [ExecSync (''aws configure get '' @ p @ ''.role_arn'')])
           (''aws configure get '' @ p @ ''.mfa_serial'') = Inr o2 \<and>
         o1 \<noteq> [] \<and> trim o1 \<noteq> [] \<and> o2 \<noteq> [] \<and> trim o2 \<noteq> [])"
    using hasRoleConfiguration_truthy [of h p w] trim_nonempty
    by (auto simp: configure_get_def)
  have b: "files (snd (hasRoleConfiguration h p w)) = files w"
    using hasRoleConfiguration_world [of h p w] by simp
  have c: "main h w0 = (Exit 0, snd (hasRoleConfiguration h p (after_write h p w0)))"
    if "files w0 (CONFIG_awsConfigFile h) = Some data" "profile_choices data = Some choices"
      "list_answer h choices (prompt_default h) = Inr p"
      "write_fault h (CONFIG_profileFile h) = None"
      "\<not> truthy (fst (hasRoleConfiguration h p (after_write h p w0)))"
    using main_selected [OF that(1-4)] that(5)
    by (simp split: prod.splits)
  from a b c show ?thesis by blast
qed

theorem role_capability_check_witness:
  "truthy (fst (hasRoleConfiguration (sample_host None) ''dev'' sample_world)) \<and>
   \<not> truthy (fst (hasRoleConfiguration (sample_host None) ''ops'' sample_world)) \<and>
   \<not> truthy (fst (hasRoleConfiguration (sample_host None) ''prod'' sample_world)) \<and>
   main ((sample_host None)\<lparr>list_answer := \<lambda>choices d. Inr ''ops''\<rparr>) sample_world =
     (Exit 0, snd (hasRoleConfiguration ((sample_host None)\<lparr>list_answer := \<lambda>choices d. Inr ''ops''\<rparr>) ''ops''
                    (after_write ((sample_host None)\<lparr>list_answer := \<lambda>choices d. Inr ''ops''\<rparr>) ''ops'' sample_world)))"
proof -
  let ?h = "(sample_host None)\<lparr>list_answer := \<lambda>choices d. Inr ''ops''\<rparr>"
  have c: "profile_choices sample_config = Some [''dev'', ''default'']"
    by code_simp
  have 1: "truthy (fst (hasRoleConfiguration (sample_host None) ''dev'' sample_world))"
    using role_capability_check [where h = "sample_host None" and p = "''dev''" and w = sample_world]
    by (simp add: sample_host_def sample_exec_def trim_def js_whitespace_def)
  have 2: "\<not> truthy (fst (hasRoleConfiguration (sample_host None) ''ops'' sample_world))"
    using role_capability_check [where h = "sample_host None" and p = "''ops''" and w = sample_world]
    by (simp add: sample_host_def sample_exec_def)
  have 3: "\<not> truthy (fst (hasRoleConfiguration (sample_host None) ''prod'' sample_world))"
    using role_capability_check [where h = "sample_host None" and p = "''prod''" and w = sample_world]
    by (simp add: sample_host_def sample_exec_def)
  have n: "\<not> truthy (fst (hasRoleConfiguration ?h ''ops'' (after_write ?h ''ops'' sample_world)))"
    using role_capability_check [where h = ?h and p = "''ops''" and w = "after_write ?h ''ops'' sample_world"]
    by (simp add: sample_host_def sample_exec_def)
  have 4: "main ?h sample_world =
     (Exit 0, snd (hasRoleConfiguration ?h ''ops'' (after_write ?h ''ops'' sample_world)))"
    using role_capability_check [where h = ?h and p = "''ops''" and ?w0.0 = sample_world
        and data = sample_config and choices = "[''dev'', ''default'']"] n c
    by (simp add: sample_host_def sample_world_def CONFIG_awsConfigFile_def CONFIG_homeDir_def
        CONFIG_profileFile_def)
  from 1 2 3 4 show ?thesis by simp
qed

section \<open>The credential sink\<close>

lemma performAssumeRole_ok:
  assumes "exec_result h (trace w) (configure_get p ''role_arn'') = Inr o1"
    and "exec_result h (trace w @ [ExecSync (configure_get p ''role_arn'')])
           (configure_get p ''mfa_serial'') = Inr o2"
    and "exec_result h (trace w @ [ExecSync (configure_get p ''role_arn''),
                                    ExecSync (configure_get p ''mfa_serial'')])
           (assumeRoleCommand (trim o1) p (trim o2) code) = Inr reply"
    and "json_parse h reply = Inr j"
    and "extract_creds j = Inr v" and "render_creds v = Inr c"
    and "write_fault h (CONFIG_credentialsFile h) = None"
  shows "fst (performAssumeRole h p code w) = True \<and>
         files (snd (performAssumeRole h p code w)) =
           (files w)(CONFIG_credentialsFile h \<mapsto> credentialsContent c p) \<and>
         (\<exists>msg. trace (snd (performAssumeRole h p code w)) = trace w @
              [ExecSync (configure_get p ''role_arn''), ExecSync (configure_get p ''mfa_serial''),
               ExecSync (assumeRoleCommand (trim o1) p (trim o2) code),
               WriteFile (CONFIG_credentialsFile h) (credentialsContent c p),
               ExecSync (clipboard_command c), ConsoleLog msg])"
proof -
  from assume_role_try_ok [OF assms] obtain w' msg where
    "assume_role_try h p code w = (Inr (), w')"
    "files w' = (files w)(CONFIG_credentialsFile h \<mapsto> credentialsContent c p)"
    "trace w' = trace w @
              [ExecSync (configure_get p ''role_arn''), ExecSync (configure_get p ''mfa_serial''),
               ExecSync (assumeRoleCommand (trim o1) p (trim o2) code),
               WriteFile (CONFIG_credentialsFile h) (credentialsContent c p),
               ExecSync (clipboard_command c), ConsoleLog msg]"
    by blast
  then show ?thesis by (simp add: performAssumeRole_def)
qed

lemma extract_creds_sample:
  "extract_creds (JObj [(''Credentials'',
      JObj [(''AccessKeyId'', JStr a), (''SecretAccessKey'', JStr s), (''SessionToken'', JStr t)])]) =
   Inr \<lparr>accessKeyId_read = Val (JStr a), secretAccessKey_read = Val (JStr s),
        sessionToken_read = Val (JStr t)\<rparr>"
  by (simp add: extract_creds_def)

lemma render_creds_strings:
  "render_creds \<lparr>accessKeyId_read = Val (JStr a), secretAccessKey_read = Val (JStr s),
                  sessionToken_read = Val (JStr t)\<rparr> =
   Inr \<lparr>accessKeyId = a, secretAccessKey = s, sessionToken = t\<rparr>"
  by (simp add: render_creds_def)

text \<open>
  C4: when the AssumeRole call returns a response that parses to the object with the
  three fields \<^verbatim>\<open>AKIA1\<close>, \<^verbatim>\<open>SECRET1\<close> and \<^verbatim>\<open>TOKEN1\<close>, the file
  \<^verbatim>\<open>$HOME/.awsp-credentials\<close> holds afterwards exactly the six export lines: the three
  values, the region \<^verbatim>\<open>ap-northeast-1\<close>, and the profile name as \<^verbatim>\<open>AWS_PROFILE\<close> and as
  \<^verbatim>\<open>AWS_DEFAULT_PROFILE\<close>, whatever the file held before.
\<close>

theorem credentials_file_six_exports:
  assumes "exec_result h (trace w) (''aws configure get '' @ p @ ''.role_arn'') = Inr o1"
    and "exec_result h (trace w @ [ExecSync (''aws configure get '' @ p @ ''.role_arn'')])
           (''aws configure get '' @ p @ ''.mfa_serial'') = Inr o2"
    and "exec_result h (trace w @ [ExecSync (''aws configure get '' @ p @ ''.role_arn''),
                                    ExecSync (''aws configure get '' @ p @ ''.mfa_serial'')])
           (assumeRoleCommand (trim o1) p (trim o2) code) = Inr reply"
    and "json_parse h reply =
           Inr (JObj [(''Credentials'',
                  JObj [(''AccessKeyId'', JStr ''AKIA1''), (''SecretAccessKey'', JStr ''SECRET1''),
                        (''SessionToken'', JStr ''TOKEN1'')])])"
    and "write_fault h (CONFIG_credentialsFile h) = None"
  shows "fst (performAssumeRole h p code w) = True \<and>
         CONFIG_credentialsFile h = CONFIG_homeDir h @ ''/.awsp-credentials'' \<and>
         files (snd (performAssumeRole h p code w)) =
           (files w)(CONFIG_credentialsFile h \<mapsto>
              ''export AWS_ACCESS_KEY_ID=AKIA1\<newline>export AWS_SECRET_ACCESS_KEY=SECRET1\<newline>export AWS_REGION=ap-northeast-1\<newline>export AWS_SESSION_TOKEN=TOKEN1\<newline>export AWS_PROFILE='' @ p @
              ''\<newline>export AWS_DEFAULT_PROFILE='' @ p)"
proof -
  let ?c = "\<lparr>accessKeyId = ''AKIA1'', secretAccessKey = ''SECRET1'', sessionToken = ''TOKEN1''\<rparr>"
  let ?v = "\<lparr>accessKeyId_read = Val (JStr ''AKIA1''), secretAccessKey_read = Val (JStr ''SECRET1''),
             sessionToken_read = Val (JStr ''TOKEN1'')\<rparr>"
  have e: "extract_creds (JObj [(''Credentials'',
                  JObj [(''AccessKeyId'', JStr ''AKIA1''), (''SecretAccessKey'', JStr ''SECRET1''),
                        (''SessionToken'', JStr ''TOKEN1'')])]) = Inr ?v"
    by (rule extract_creds_sample)
  have r: "render_creds ?v = Inr ?c"
    by (rule render_creds_strings)
  have g: "configure_get p k = ''aws configure get '' @ p @ ''.'' @ k" for k
    by (simp add: configure_get_def)
  from performAssumeRole_ok [of h w p o1 o2 code reply _ ?v ?c, OF _ _ _ assms(4) e r assms(5)] assms(1-3)
  have "fst (performAssumeRole h p code w) = True \<and>
         files (snd (performAssumeRole h p code w)) =
           (files w)(CONFIG_credentialsFile h \<mapsto> credentialsContent ?c p)"
    by (simp add: g)
  then show ?thesis
    by (simp add: credentialsContent_def CONFIG_awsRegion_def CONFIG_credentialsFile_def)
qed

theorem credentials_file_six_exports_witness:
  "files (snd (performAssumeRole (sample_host (Some sts_reply)) ''dev'' ''123456''
                 (sample_world\<lparr>files := (files sample_world)(''/home/u/.awsp-credentials'' \<mapsto> ''stale'')\<rparr>)))
     ''/home/u/.awsp-credentials'' =
   Some ''export AWS_ACCESS_KEY_ID=AKIA1\<newline>export AWS_SECRET_ACCESS_KEY=SECRET1\<newline>export AWS_REGION=ap-northeast-1\<newline>export AWS_SESSION_TOKEN=TOKEN1\<newline>export AWS_PROFILE=dev\<newline>export AWS_DEFAULT_PROFILE=dev''"
  using credentials_file_six_exports [where h = "sample_host (Some sts_reply)" and p = "''dev''"
      and code = "''123456''" and reply = sts_reply
      and ?o1.0 = "''arn:aws:iam::123456789012:role/Dev\<newline>''"
      and ?o2.0 = "''arn:aws:iam::123456789012:mfa/me\<newline>''"
      and w = "sample_world\<lparr>files := (files sample_world)(''/home/u/.awsp-credentials'' \<mapsto> ''stale'')\<rparr>"]
  by (simp add: sample_host_def sample_exec_def sample_parse_def assumeRoleCommand_def
      CONFIG_credentialsFile_def CONFIG_homeDir_def)

section \<open>Failure of the role assumption\<close>

lemma extract_creds_fails_iff:
  "(\<exists>e. extract_creds j = Inl e) \<longleftrightarrow>
     (case get_prop (Val j) ''Credentials'' of Inl e \<Rightarrow> True | Inr v \<Rightarrow> nullish v)"
proof (cases "get_prop (Val j) ''Credentials''")
  case (Inl e)
  then show ?thesis by (simp add: extract_creds_def)
next
  case (Inr v)
  show ?thesis
  proof (cases "nullish v")
    case True
    then have "\<exists>e. get_prop v ''AccessKeyId'' = Inl e"
      by (cases v rule: nullish.cases) simp_all
    with Inr True show ?thesis by (auto simp: extract_creds_def)
  next
    case False
    then have "\<exists>x. get_prop v k = Inr x" for k
      by (cases v rule: nullish.cases) simp_all
    then obtain a s t where "get_prop v ''AccessKeyId'' = Inr a"
      "get_prop v ''SecretAccessKey'' = Inr s" "get_prop v ''SessionToken'' = Inr t"
      by metis
    with Inr False show ?thesis by (simp add: extract_creds_def)
  qed
qed

text \<open>
  C9, as stated, fails: a response that parses but holds none of the three fields is not
  a failure. \<^verbatim>\<open>performAssumeRole\<close> returns \<^verbatim>\<open>true\<close> and writes the file, with the text
  \<^verbatim>\<open>undefined\<close> in place of each missing value.
\<close>

theorem missing_fields_written_as_undefined:
  \<open>sts_reply_no_fields = ''{"Credentials":{}}'' \<and>
   json_parse (sample_host (Some sts_reply_no_fields)) sts_reply_no_fields =
     Inr (JObj [(''Credentials'', JObj [])]) \<and>
   fst (performAssumeRole (sample_host (Some sts_reply_no_fields)) ''dev'' ''123456'' sample_world) = True \<and>
   files (snd (performAssumeRole (sample_host (Some sts_reply_no_fields)) ''dev'' ''123456'' sample_world))
     ''/home/u/.awsp-credentials'' =
   Some ''export AWS_ACCESS_KEY_ID=undefined\<newline>export AWS_SECRET_ACCESS_KEY=undefined\<newline>export AWS_REGION=ap-northeast-1\<newline>export AWS_SESSION_TOKEN=undefined\<newline>export AWS_PROFILE=dev\<newline>export AWS_DEFAULT_PROFILE=dev''\<close>
  by code_simp

text \<open>
  C9, amended: \<^verbatim>\<open>performAssumeRole\<close> returns success only when both config queries and the
  AssumeRole call returned, the response was parsed by \<^verbatim>\<open>JSON.parse\<close>, its
  \<^verbatim>\<open>Credentials\<close> member could be read and the values read could be rendered as text;
  the file is then written after the call, as the fourth step. In every other case (a
  failed call, a response that is not JSON, a parsed value that is \<^verbatim>\<open>null\<close> or whose
  \<^verbatim>\<open>Credentials\<close> member is missing or \<^verbatim>\<open>null\<close>) it returns failure, the files are as before
  and nothing was written. Reading the fields fails in exactly those cases: fields missing
  inside \<^verbatim>\<open>Credentials\<close> are not detected.
\<close>

theorem failed_assume_role_leaves_file:
  "(fst (performAssumeRole h p code w) \<longrightarrow>
      (\<exists>o1 o2 reply j v c msg.
         exec_result h (trace w) (configure_get p ''role_arn'') = Inr o1 \<and>
         exec_result h (trace w @ [ExecSync (configure_get p ''role_arn'')])
           (configure_get p ''mfa_serial'') = Inr o2 \<and>
         exec_result h (trace w @ [ExecSync (configure_get p ''role_arn''),
                                    ExecSync (configure_get p ''mfa_serial'')])
           (assumeRoleCommand (trim o1) p (trim o2) code) = Inr reply \<and>
         json_parse h reply = Inr j \<and> extract_creds j = Inr v \<and> render_creds v = Inr c \<and>
         files (snd (performAssumeRole h p code w)) =
           (files w)(CONFIG_credentialsFile h \<mapsto> credentialsContent c p) \<and>
         trace (snd (performAssumeRole h p code w)) = trace w @
           [ExecSync (configure_get p ''role_arn''), ExecSync (configure_get p ''mfa_serial''),
            ExecSync (assumeRoleCommand (trim o1) p (trim o2) code),
            WriteFile (CONFIG_credentialsFile h) (credentialsContent c p),
            ExecSync (clipboard_command c), ConsoleLog msg])) \<and>
   (\<not> fst (performAssumeRole h p code w) \<longrightarrow>
      files (snd (performAssumeRole h p code w)) = files w \<and>
      \<not> list_ex is_write (drop (length (trace w)) (trace (snd (performAssumeRole h p code w))))) \<and>
   ((\<exists>e. extract_creds j' = Inl e) \<longleftrightarrow>
      (case get_prop (Val j') ''Credentials'' of Inl e \<Rightarrow> True | Inr v \<Rightarrow> nullish v))"
proof -
  obtain r w1 where t: "assume_role_try h p code w = (r, w1)"
    by (cases "assume_role_try h p code w")
  have ok: "\<exists>o1 o2 reply j v c msg.
         exec_result h (trace w) (configure_get p ''role_arn'') = Inr o1 \<and>
         exec_result h (trace w @ [ExecSync (configure_get p ''role_arn'')])
           (configure_get p ''mfa_serial'') = Inr o2 \<and>
         exec_result h (trace w @ [ExecSync (configure_get p ''role_arn''),
                                    ExecSync (configure_get p ''mfa_serial'')])
           (assumeRoleCommand (trim o1) p (trim o2) code) = Inr reply \<and>
         json_parse h reply = Inr j \<and> extract_creds j = Inr v \<and> render_creds v = Inr c \<and>
         files (snd (performAssumeRole h p code w)) =
           (files w)(CONFIG_credentialsFile h \<mapsto> credentialsContent c p) \<and>
         trace (snd (performAssumeRole h p code w)) = trace w @
           [ExecSync (configure_get p ''role_arn''), ExecSync (configure_get p ''mfa_serial''),
            ExecSync (assumeRoleCommand (trim o1) p (trim o2) code),
            WriteFile (CONFIG_credentialsFile h) (credentialsContent c p),
            ExecSync (clipboard_command c), ConsoleLog msg]"
    if "fst (performAssumeRole h p code w)"
  proof -
    from that t obtain u where "r = Inr u"
      by (cases r) (simp_all add: performAssumeRole_def)
    with assume_role_try_result [OF t] obtain o1 o2 reply j v c where
      a: "exec_result h (trace w) (configure_get p ''role_arn'') = Inr o1"
        "exec_result h (trace w @ [ExecSync (configure_get p ''role_arn'')])
          (configure_get p ''mfa_serial'') = Inr o2"
        "exec_result h (trace w @ [ExecSync (configure_get p ''role_arn''),
                                   ExecSync (configure_get p ''mfa_serial'')])
          (assumeRoleCommand (trim o1) p (trim o2) code) = Inr reply"
        "json_parse h reply = Inr j" "extract_creds j = Inr v" "render_creds v = Inr c"
        "write_fault h (CONFIG_credentialsFile h) = None"
      by auto
    from performAssumeRole_ok [OF a] a show ?thesis by blast
  qed
  have bad: "files (snd (performAssumeRole h p code w)) = files w \<and>
      \<not> list_ex is_write (drop (length (trace w)) (trace (snd (performAssumeRole h p code w))))"
    if "\<not> fst (performAssumeRole h p code w)"
  proof -
    from that t obtain e where r: "r = Inl e"
      by (cases r) (simp_all add: performAssumeRole_def)
    with assume_role_try_result [OF t] obtain es where
      "files w1 = files w" "trace w1 = trace w @ es" "\<not> list_ex is_write es"
      by auto
    moreover have "snd (performAssumeRole h p code w) =
        emit (ConsoleError (''Error assuming role: '' @ e)) w1"
      using t r by (simp add: performAssumeRole_def)
    ultimately show ?thesis by simp
  qed
  from ok bad extract_creds_fails_iff [of j'] show ?thesis by blast
qed

theorem failed_assume_role_leaves_file_witness:
  "fst (performAssumeRole (sample_host None) ''dev'' ''123456'' sample_world) = False \<and>
   files (snd (performAssumeRole (sample_host None) ''dev'' ''123456'' sample_world))
     ''/home/u/.awsp-credentials'' = None \<and>
   fst (performAssumeRole (sample_host (Some ''<html>'')) ''dev'' ''123456'' sample_world) = False \<and>
   files (snd (performAssumeRole (sample_host (Some ''<html>'')) ''dev'' ''123456'' sample_world))
     ''/home/u/.awsp-credentials'' = None \<and>
   fst (performAssumeRole (sample_host (Some ''{}'')) ''dev'' ''123456'' sample_world) = False \<and>
   files (snd (performAssumeRole (sample_host (Some ''{}'')) ''dev'' ''123456'' sample_world))
     ''/home/u/.awsp-credentials'' = None \<and>
   fst (performAssumeRole (sample_host (Some sts_reply_no_text)) ''dev'' ''123456'' sample_world) = False \<and>
   files (snd (performAssumeRole (sample_host (Some sts_reply_no_text)) ''dev'' ''123456'' sample_world))
     ''/home/u/.awsp-credentials'' = None \<and>
   fst (performAssumeRole (sample_host (Some sts_reply)) ''dev'' ''123456'' sample_world) = True"
proof -
  have 1: "fst (performAssumeRole (sample_host None) ''dev'' ''123456'' sample_world) = False"
    by code_simp
  have 2: "fst (performAssumeRole (sample_host (Some ''<html>'')) ''dev'' ''123456'' sample_world) = False"
    by code_simp
  have 3: "fst (performAssumeRole (sample_host (Some ''{}'')) ''dev'' ''123456'' sample_world) = False"
    by code_simp
  have 4: "fst (performAssumeRole (sample_host (Some sts_reply)) ''dev'' ''123456'' sample_world) = True"
    by code_simp
  have 5: "fst (performAssumeRole (sample_host (Some sts_reply_no_text)) ''dev'' ''123456'' sample_world) = False"
    by code_simp
  have f: "files sample_world ''/home/u/.awsp-credentials'' = None"
    by (simp add: sample_world_def)
  from 1 2 3 4 5 f
    failed_assume_role_leaves_file [of "sample_host None" "''dev''" "''123456''" sample_world]
    failed_assume_role_leaves_file [of "sample_host (Some ''<html>'')" "''dev''" "''123456''" sample_world]
    failed_assume_role_leaves_file [of "sample_host (Some ''{}'')" "''dev''" "''123456''" sample_world]
    failed_assume_role_leaves_file [of "sample_host (Some sts_reply_no_text)" "''dev''" "''123456''" sample_world]
  show ?thesis by simp
qed

section \<open>The selection is written first\<close>

lemma selection_persisted_run:
  assumes "files w (CONFIG_awsConfigFile h) = Some data"
    and "profile_choices data = Some choices"
    and "list_answer h choices (prompt_default h) = Inr p"
    and "main h w = (oc, w')"
  shows "(write_fault h (CONFIG_profileFile h) = None \<longrightarrow>
            files w' (CONFIG_profileFile h) = Some p \<and>
            (\<exists>rest. trace w' = trace w @ ReadFile (CONFIG_awsConfigFile h) #
                        WriteFile (CONFIG_profileFile h) p # rest \<and>
                     \<not> list_ex (writes_to (CONFIG_profileFile h)) rest)) \<and>
         (write_fault h (CONFIG_profileFile h) \<noteq> None \<longrightarrow>
            oc = Exit 1 \<and> files w' = files w \<and> \<not> list_ex is_exec (drop (length (trace w)) (trace w')))"
proof (cases "write_fault h (CONFIG_profileFile h)")
  case (Some msg)
  from main_write_fails [OF assms(1,2,3) Some] assms(4) show ?thesis
    by (auto simp: Some)
next
  case None
  let ?w3 = "after_write h p w"
  let ?pf = "CONFIG_profileFile h"
  obtain capable w4 where hc: "hasRoleConfiguration h p ?w3 = (capable, w4)"
    by (cases "hasRoleConfiguration h p ?w3")
  from hasRoleConfiguration_world [of h p ?w3] hc obtain es where
    f4: "files w4 = files ?w3" and t4: "trace w4 = trace ?w3 @ es" and n4: "\<not> list_ex is_write es"
    by auto
  have n4': "\<not> list_ex (writes_to ?pf) es"
    using n4 by (auto simp: list_ex_iff writes_to_def split: event.splits)
  have f3: "files ?w3 ?pf = Some p"
    by (simp add: after_write_def)
  have t3: "trace ?w3 = trace w @ [ReadFile (CONFIG_awsConfigFile h), WriteFile ?pf p]"
    by (simp add: after_write_def)
  have base: "files w4 ?pf = Some p \<and>
      (\<exists>rest. trace w4 = trace w @ ReadFile (CONFIG_awsConfigFile h) # WriteFile ?pf p # rest \<and>
               \<not> list_ex (writes_to ?pf) rest)"
    using f4 f3 t4 t3 n4' by simp
  have m: "main h w =
     (if truthy capable
      then (case promptMfaCode h of
              Inl msg \<Rightarrow> (Exit 1, emit (ConsoleError (''MFA authentication failed: '' @ msg)) w4)
            | Inr None \<Rightarrow> (Unanswered, w4)
            | Inr (Some mfaCode) \<Rightarrow>
                (case performAssumeRole h p mfaCode w4 of
                   (success, w5) \<Rightarrow> if success then (Exit 0, w5) else (Exit 1, w5)))
      else (Exit 0, w4))"
    using main_selected [OF assms(1,2,3) None] hc by simp
  have goal: "files w' ?pf = Some p \<and>
      (\<exists>rest. trace w' = trace w @ ReadFile (CONFIG_awsConfigFile h) # WriteFile ?pf p # rest \<and>
               \<not> list_ex (writes_to ?pf) rest)"
  proof (cases "truthy capable")
    case False
    with m assms(4) have "w' = w4" by simp
    with base show ?thesis by simp
  next
    case True
    show ?thesis
    proof (cases "promptMfaCode h")
      case (Inl msg)
      with m True assms(4) have "w' = emit (ConsoleError (''MFA authentication failed: '' @ msg)) w4"
        by simp
      with base show ?thesis by (auto simp: writes_to_def)
    next
      case (Inr r)
      show ?thesis
      proof (cases r)
        case None
        with m True Inr assms(4) have "w' = w4" by simp
        with base show ?thesis by simp
      next
        case (Some code)
        obtain ok w5 where pa: "performAssumeRole h p code w4 = (ok, w5)"
          by (cases "performAssumeRole h p code w4")
        with m True Inr Some assms(4) have "w' = w5" by (simp split: if_splits)
        with performAssumeRole_world [OF pa] base show ?thesis by auto
      qed
    qed
  qed
  with None show ?thesis by simp
qed

text \<open>
  C10: in a run in which a profile \<open>p\<close> is selected and the profile file can be written,
  the write of \<open>p\<close> to the profile file is the second event of the run, right after the
  config file was read, so it precedes every command of the role-capability check and of
  the role assumption; nothing overwrites it later, and the file holds \<open>p\<close> at the end of
  the run, whatever the outcome (also exit status 1 after a failed role assumption). When
  the file cannot be written, the run ends with exit status 1 and runs no command.
\<close>

theorem selection_persisted_first:
  assumes "files w (CONFIG_awsConfigFile h) = Some data"
    and "profile_choices data = Some choices"
    and "list_answer h choices (prompt_default h) = Inr p"
  shows "(write_fault h (CONFIG_profileFile h) = None \<longrightarrow>
            files (snd (main h w)) (CONFIG_profileFile h) = Some p \<and>
            (\<exists>rest. trace (snd (main h w)) = trace w @ ReadFile (CONFIG_awsConfigFile h) #
                        WriteFile (CONFIG_profileFile h) p # rest \<and>
                     \<not> list_ex (writes_to (CONFIG_profileFile h)) rest)) \<and>
         (write_fault h (CONFIG_profileFile h) \<noteq> None \<longrightarrow>
            fst (main h w) = Exit 1 \<and> files (snd (main h w)) = files w \<and>
            \<not> list_ex is_exec (drop (length (trace w)) (trace (snd (main h w)))))"
  using selection_persisted_run [OF assms, of "fst (main h w)" "snd (main h w)"]
  by simp

theorem selection_persisted_first_witness:
  "fst (main (sample_host None) sample_world) = Exit 1 \<and>
   files (snd (main (sample_host None) sample_world)) ''/home/u/.awsp'' = Some ''dev''"
proof -
  have c: "profile_choices sample_config = Some [''dev'', ''default'']"
    by code_simp
  have e: "fst (main (sample_host None) sample_world) = Exit 1"
    by code_simp
  from c e selection_persisted_first [where h = "sample_host None" and w = sample_world
      and data = sample_config and choices = "[''dev'', ''default'']" and p = "''dev''"]
  show ?thesis
    by (simp add: sample_host_def sample_world_def CONFIG_awsConfigFile_def CONFIG_homeDir_def
        CONFIG_profileFile_def)
qed

section \<open>Loading the credentials file\<close>

lemma split_lines_plain:
  "CHR 0x0A \<notin> set xs \<Longrightarrow> split_lines acc xs = [acc @ xs]"
  by (induction xs arbitrary: acc) auto

lemma split_lines_line:
  "CHR 0x0A \<notin> set xs \<Longrightarrow> split_lines acc (xs @ CHR 0x0A # rest) = (acc @ xs) # split_lines [] rest"
  by (induction xs arbitrary: acc) auto

lemma split_fields_word:
  "\<forall>c\<in>set w. \<not> sep c \<Longrightarrow> acc @ w \<noteq> [] \<Longrightarrow> split_fields sep acc w = [acc @ w]"
  by (induction w arbitrary: acc) auto

lemma split_fields_first:
  "\<forall>c\<in>set w. \<not> sep c \<Longrightarrow> acc @ w \<noteq> [] \<Longrightarrow> sep s \<Longrightarrow>
   split_fields sep acc (w @ s # rest) = (acc @ w) # split_fields sep [] rest"
  by (induction w arbitrary: acc) auto

lemma not_plain:
  "\<not> shell_plain CHR 0x20" "\<not> shell_plain CHR 0x09" "\<not> shell_plain CHR 0x0A"
  by (simp_all add: shell_plain_def)

lemma plain_not_blank: "shell_plain c \<Longrightarrow> \<not> blank c"
  using not_plain by (auto simp: blank_def)

lemma plain_not_newline: "list_all shell_plain v \<Longrightarrow> CHR 0x0A \<notin> set v"
  using not_plain by (auto simp: list_all_iff)

lemma plain_equals: "shell_plain CHR ''=''"
  by (simp add: shell_plain_def)

lemma export_word_assign:
  assumes "export_name x" "list_all shell_plain v"
  shows "export_word (x @ ''='' @ v) st = Some (export_var x v st)"
proof -
  have "takeWhile (\<lambda>c. c \<noteq> CHR ''='') (x @ CHR ''='' # v) = x"
    using assms(1) by (intro takeWhile_line) (auto simp: export_name_def)
  moreover have "list_all shell_plain (x @ CHR ''='' # v)"
    using assms plain_equals by (simp add: export_name_def)
  ultimately show ?thesis
    using assms(1) by (simp add: export_word_def export_name_def)
qed

lemma eval_line_export:
  assumes "export_name x" "list_all shell_plain v"
  shows "eval_line (''export '' @ x @ ''='' @ v) st = Some (export_var x v st)"
proof -
  have "\<forall>c\<in>set x. \<not> blank c" "\<forall>c\<in>set v. \<not> blank c"
    using assms plain_not_blank by (auto simp: export_name_def list_all_iff)
  moreover have "\<not> blank CHR ''=''"
    by (simp add: blank_def)
  ultimately have nb: "\<forall>c\<in>set (x @ ''='' @ v). \<not> blank c"
    by auto
  have "split_fields blank [] (''export'' @ CHR 0x20 # (x @ ''='' @ v)) =
        ([] @ ''export'') # split_fields blank [] (x @ ''='' @ v)"
    by (rule split_fields_first) (simp_all add: blank_def)
  also have "split_fields blank [] (x @ ''='' @ v) = [[] @ (x @ ''='' @ v)]"
    using nb by (intro split_fields_word) simp_all
  finally have "split_fields blank [] (''export '' @ x @ ''='' @ v) = [''export'', x @ ''='' @ v]"
    by simp
  then show ?thesis
    using export_word_assign [OF assms, of st] by (simp add: eval_line_def)
qed


lemma export_line_no_newline:
  "export_name x \<Longrightarrow> list_all shell_plain v \<Longrightarrow> CHR 0x0A \<notin> set (export_line x v)"
  using plain_not_newline [of x] plain_not_newline [of v]
  by (simp add: export_line_def export_name_def)

lemma eval_line_export_line:
  "export_name x \<Longrightarrow> list_all shell_plain v \<Longrightarrow>
   eval_line (export_line x v) st = Some (export_var x v st)"
  using eval_line_export [of x v st] by (simp add: export_line_def)

lemma export_names:
  "export_name ''AWS_ACCESS_KEY_ID''" "export_name ''AWS_SECRET_ACCESS_KEY''"
  "export_name ''AWS_REGION''" "export_name ''AWS_SESSION_TOKEN''"
  "export_name ''AWS_PROFILE''" "export_name ''AWS_DEFAULT_PROFILE''"
  by (simp_all add: export_name_def valid_name_def name_start_def name_char_def shell_plain_def)

lemma region_plain: "list_all shell_plain CONFIG_awsRegion"
  by (simp add: CONFIG_awsRegion_def shell_plain_def)

lemma credentialsContent_lines:
  "credentialsContent c p =
     export_line ''AWS_ACCESS_KEY_ID'' (accessKeyId c) @ CHR 0x0A #
     export_line ''AWS_SECRET_ACCESS_KEY'' (secretAccessKey c) @ CHR 0x0A #
     export_line ''AWS_REGION'' CONFIG_awsRegion @ CHR 0x0A #
     export_line ''AWS_SESSION_TOKEN'' (sessionToken c) @ CHR 0x0A #
     export_line ''AWS_PROFILE'' p @ CHR 0x0A #
     export_line ''AWS_DEFAULT_PROFILE'' p"
  by (simp add: credentialsContent_def export_line_def)

lemma eval_exports_credentials:
  assumes "list_all shell_plain (accessKeyId c)" "list_all shell_plain (secretAccessKey c)"
    "list_all shell_plain (sessionToken c)" "list_all shell_plain p"
  shows "eval_exports (credentialsContent c p) st = Some (loaded c p st)"
proof -
  note nl = export_line_no_newline
  have "split_lines [] (credentialsContent c p) =
     [export_line ''AWS_ACCESS_KEY_ID'' (accessKeyId c),
      export_line ''AWS_SECRET_ACCESS_KEY'' (secretAccessKey c),
      export_line ''AWS_REGION'' CONFIG_awsRegion,
      export_line ''AWS_SESSION_TOKEN'' (sessionToken c),
      export_line ''AWS_PROFILE'' p,
      export_line ''AWS_DEFAULT_PROFILE'' p]"
    unfolding credentialsContent_lines
    using assms region_plain
    by (simp add: split_lines_line split_lines_plain nl export_names)
  then show ?thesis
    using assms region_plain
    by (simp add: eval_exports_def eval_line_export_line export_names loaded_def)
qed

lemma strip_newlines_id: "s = [] \<or> last s \<noteq> CHR 0x0A \<Longrightarrow> strip_newlines s = s"
  by (cases s rule: rev_cases) (auto simp: strip_newlines_def)

lemma credentialsContent_end:
  assumes "list_all shell_plain p"
  shows "strip_newlines (credentialsContent c p) = credentialsContent c p"
proof (rule strip_newlines_id)
  have "last (credentialsContent c p) = last (''='' @ p)"
    by (simp add: credentialsContent_def)
  also have "\<dots> \<noteq> CHR 0x0A"
    using plain_not_newline [OF assms] by (cases p rule: rev_cases) auto
  finally show "credentialsContent c p = [] \<or> last (credentialsContent c p) \<noteq> CHR 0x0A"
    by simp
qed

section \<open>The interactive branch\<close>

lemma getvar_setvar [simp]:
  "getvar (setvar x v st) y = (if y = x then v else getvar st y)"
  by (simp add: getvar_def setvar_def)

lemma fs_setvar [simp]: "fs (setvar x v st) = fs st"
  by (simp add: setvar_def)

lemma getvar_tell [simp]: "getvar (tell e st) y = getvar st y"
  by (simp add: getvar_def tell_def)

lemma fs_tell [simp]: "fs (tell e st) = fs st"
  by (simp add: tell_def)

lemma tilde_setvar [simp]: "x \<noteq> ''HOME'' \<Longrightarrow> tilde H (setvar x v st) = tilde H st"
  by (simp add: tilde_def setvar_def)

lemma tilde_tell [simp]: "tilde H (tell e st) = tilde H st"
  by (simp add: tilde_def tell_def)

lemma tilde_fs [simp]: "tilde H (st\<lparr>fs := f\<rparr>) = tilde H st"
  by (simp add: tilde_def)

lemma getvar_fs [simp]: "getvar (st\<lparr>fs := f\<rparr>) y = getvar st y"
  by (simp add: getvar_def)

lemma loaded_profile:
  "vars (loaded c p st) ''AWS_PROFILE'' = Some p \<and>
   vars (loaded c p st) ''AWS_DEFAULT_PROFILE'' = Some p \<and>
   ''AWS_PROFILE'' \<in> exported (loaded c p st) \<and>
   ''AWS_DEFAULT_PROFILE'' \<in> exported (loaded c p st) \<and>
   fs (loaded c p st) = fs st"
  by (simp add: loaded_def export_var_def)

lemma leave_scope_simps [simp]:
  "vars (leave_scope caller x st) y = (if y = x then vars caller x else vars st y)"
  "y \<noteq> x \<Longrightarrow> y \<in> exported (leave_scope caller x st) \<longleftrightarrow> y \<in> exported st"
  "fs (leave_scope caller x st) = fs st"
  "history (leave_scope caller x st) = history st"
  by (simp_all add: leave_scope_def)

lemma getvar_loaded:
  "x \<notin> {''AWS_ACCESS_KEY_ID'', ''AWS_SECRET_ACCESS_KEY'', ''AWS_REGION'', ''AWS_SESSION_TOKEN'',
          ''AWS_PROFILE'', ''AWS_DEFAULT_PROFILE''} \<Longrightarrow>
   getvar (loaded c p st) x = getvar st x"
  by (simp add: loaded_def export_var_def getvar_def)

text \<open>
  The state that \<^verbatim>\<open>process_credentials_file\<close> hands back once it has evaluated the six
  lines written for \<open>c\<close> and \<open>p\<close>.
\<close>

lemma process_credentials_file_loaded:
  assumes "fs st (getvar st ''CREDENTIALS_TEMP_FILE'') = Some (credentialsContent c p)"
    and "list_all shell_plain (accessKeyId c)" "list_all shell_plain (secretAccessKey c)"
    and "list_all shell_plain (sessionToken c)" "list_all shell_plain p"
  shows "process_credentials_file ''silent'' st =
         Some (leave_scope st ''credentials_file'' (leave_scope st ''silent_mode''
                 (remove_file (getvar st ''CREDENTIALS_TEMP_FILE'')
                    (loaded c p (setvar ''silent_mode'' ''silent''
                       (setvar ''credentials_file'' (getvar st ''CREDENTIALS_TEMP_FILE'') st))))))"
proof -
  let ?st2 = "setvar ''silent_mode'' ''silent''
                (setvar ''credentials_file'' (getvar st ''CREDENTIALS_TEMP_FILE'') st)"
  have e: "eval_exports (strip_newlines (credentialsContent c p)) ?st2 = Some (loaded c p ?st2)"
    using eval_exports_credentials [OF assms(2-5), of ?st2] credentialsContent_end [OF assms(5), of c]
    by simp
  have g: "getvar (loaded c p ?st2) ''credentials_file'' = getvar st ''CREDENTIALS_TEMP_FILE''"
    by (simp add: getvar_loaded)
  from assms(1) e g show ?thesis
    by (simp add: process_credentials_file_def Let_def)
qed

lemma after_selector_loaded:
  assumes "fs st (tilde H st @ ''/.awsp'') = Some sel" "strip_newlines sel \<noteq> []"
    and "fs st (getvar st ''CREDENTIALS_TEMP_FILE'') = Some (credentialsContent c p)"
    and "list_all shell_plain (accessKeyId c)" "list_all shell_plain (secretAccessKey c)"
    and "list_all shell_plain (sessionToken c)" "list_all shell_plain p"
  shows "\<exists>st'. after_selector H st = Some (Done 0, st') \<and>
           fs st' = (fs st)(getvar st ''CREDENTIALS_TEMP_FILE'' := None) \<and>
           vars st' ''AWS_PROFILE'' = Some p \<and> vars st' ''AWS_DEFAULT_PROFILE'' = Some p \<and>
           ''AWS_PROFILE'' \<in> exported st' \<and> ''AWS_DEFAULT_PROFILE'' \<in> exported st'"
proof -
  let ?st1 = "setvar ''selected_profile'' (strip_newlines sel) st"
  let ?st2 = "setvar ''silent_mode'' ''silent''
                (setvar ''credentials_file'' (getvar ?st1 ''CREDENTIALS_TEMP_FILE'') ?st1)"
  let ?st' = "leave_scope ?st1 ''credentials_file'' (leave_scope ?st1 ''silent_mode''
                (remove_file (getvar ?st1 ''CREDENTIALS_TEMP_FILE'') (loaded c p ?st2)))"
  have "fs ?st1 (getvar ?st1 ''CREDENTIALS_TEMP_FILE'') = Some (credentialsContent c p)"
    using assms(3) by simp
  from process_credentials_file_loaded [OF this assms(4-7)] assms(1,2,3)
  have a: "after_selector H st = Some (Done 0, ?st')"
    by (simp add: after_selector_def Let_def)
  have f: "fs ?st' = (fs st)(getvar st ''CREDENTIALS_TEMP_FILE'' := None)"
    using loaded_profile [of c p ?st2] by (simp add: remove_file_def)
  have v: "vars ?st' ''AWS_PROFILE'' = Some p \<and> vars ?st' ''AWS_DEFAULT_PROFILE'' = Some p \<and>
      ''AWS_PROFILE'' \<in> exported ?st' \<and> ''AWS_DEFAULT_PROFILE'' \<in> exported ?st'"
    using loaded_profile [of c p ?st2] by (simp add: remove_file_def)
  from a f v show ?thesis by blast
qed

section \<open>Consuming the credentials file\<close>

text \<open>
  C5: when the selector has left a non-empty profile file and a credentials file holding
  what the credential sink writes for a profile \<open>p\<close> (with values free of characters that
  are special to the shell), the interactive branch of the wrapper ends with the
  credentials file removed and with \<^verbatim>\<open>AWS_PROFILE\<close> and \<^verbatim>\<open>AWS_DEFAULT_PROFILE\<close> both
  exported with the value \<open>p\<close>, the profile name of the file.
\<close>

theorem consumed_credentials_are_exported:
  assumes "fst (run_selector H (setvar ''CURRENT'' (script_dir H) st)) = Exit n"
    and "files (snd (run_selector H (setvar ''CURRENT'' (script_dir H) st))) (tilde H st @ ''/.awsp'') =
           Some sel"
    and "strip_newlines sel \<noteq> []"
    and "files (snd (run_selector H (setvar ''CURRENT'' (script_dir H) st)))
           (getvar st ''CREDENTIALS_TEMP_FILE'') = Some (credentialsContent c p)"
    and "list_all shell_plain (accessKeyId c)" "list_all shell_plain (secretAccessKey c)"
    and "list_all shell_plain (sessionToken c)" "list_all shell_plain p"
  shows "\<exists>st'. interactive H st = Some (Done 0, st') \<and>
           fs st' (getvar st ''CREDENTIALS_TEMP_FILE'') = None \<and>
           vars st' ''AWS_PROFILE'' = Some p \<and> vars st' ''AWS_DEFAULT_PROFILE'' = Some p \<and>
           ''AWS_PROFILE'' \<in> exported st' \<and> ''AWS_DEFAULT_PROFILE'' \<in> exported st'"
proof -
  let ?st1 = "setvar ''CURRENT'' (script_dir H) st"
  obtain w where r: "run_selector H ?st1 = (Exit n, w)"
    using assms(1) by (cases "run_selector H ?st1") simp
  let ?st2 = "tell (Child (trace w)) (?st1\<lparr>fs := files w\<rparr>)"
  have i: "interactive H st = after_selector H ?st2"
    using r by (simp add: interactive_def)
  have a: "fs ?st2 (tilde H ?st2 @ ''/.awsp'') = Some sel"
    using assms(2) r by simp
  have b: "fs ?st2 (getvar ?st2 ''CREDENTIALS_TEMP_FILE'') = Some (credentialsContent c p)"
    using assms(4) r by simp
  have g: "getvar ?st2 ''CREDENTIALS_TEMP_FILE'' = getvar st ''CREDENTIALS_TEMP_FILE''"
    by simp
  from after_selector_loaded [OF a assms(3) b assms(5-8)] obtain st' where
    "after_selector H ?st2 = Some (Done 0, st')"
    "fs st' = (fs ?st2)(getvar ?st2 ''CREDENTIALS_TEMP_FILE'' := None)"
    "vars st' ''AWS_PROFILE'' = Some p" "vars st' ''AWS_DEFAULT_PROFILE'' = Some p"
    "''AWS_PROFILE'' \<in> exported st'" "''AWS_DEFAULT_PROFILE'' \<in> exported st'"
    by blast
  with i g show ?thesis
    by simp
qed

theorem consumed_credentials_are_exported_witness:
  "map_option
     (\<lambda>(r, st'). (r, fs st' ''/home/u/.awsp-credentials'', vars st' ''AWS_PROFILE'',
                   vars st' ''AWS_DEFAULT_PROFILE'', ''AWS_PROFILE'' \<in> exported st',
                   ''AWS_DEFAULT_PROFILE'' \<in> exported st'))
     (interactive (sample_shell_host (Some sts_reply))
        (setvar ''CREDENTIALS_TEMP_FILE'' ''/home/u/.awsp-credentials''
           (sample_shell (files sample_world)))) =
   Some (Done 0, None, Some ''dev'', Some ''dev'', True, True)"
proof -
  let ?H = "sample_shell_host (Some sts_reply)"
  let ?st = "setvar ''CREDENTIALS_TEMP_FILE'' ''/home/u/.awsp-credentials''
               (sample_shell (files sample_world))"
  let ?c = "\<lparr>accessKeyId = ''AKIA1'', secretAccessKey = ''SECRET1'', sessionToken = ''TOKEN1''\<rparr>"
  have 1: "fst (run_selector ?H (setvar ''CURRENT'' (script_dir ?H) ?st)) = Exit 0"
    by code_simp
  have 2: "files (snd (run_selector ?H (setvar ''CURRENT'' (script_dir ?H) ?st)))
             (tilde ?H ?st @ ''/.awsp'') = Some ''dev''"
    by code_simp
  have 3: "strip_newlines ''dev'' \<noteq> []"
    by code_simp
  have 4: "files (snd (run_selector ?H (setvar ''CURRENT'' (script_dir ?H) ?st)))
             (getvar ?st ''CREDENTIALS_TEMP_FILE'') = Some (credentialsContent ?c ''dev'')"
    by code_simp
  have 5: "list_all shell_plain (accessKeyId ?c)" "list_all shell_plain (secretAccessKey ?c)"
    "list_all shell_plain (sessionToken ?c)" "list_all shell_plain ''dev''"
    by code_simp+
  from consumed_credentials_are_exported [OF 1 2 3 4 5] show ?thesis
    by auto
qed

section \<open>A config without profile headings\<close>

lemma index_js_no_profiles:
  assumes "files w (CONFIG_awsConfigFile h) = Some data" "\<not> has_heading data"
  shows "index_js h w =
           (Exit 0, w\<lparr>trace := trace w @ ConsoleLog ''AWS Profile Switcher'' #
                                  ReadFile (CONFIG_awsConfigFile h) # no_profiles_guidance\<rparr>)"
proof -
  have "profile_choices data = None"
    using assms(2) by (simp add: profile_choices_None_iff)
  from main_no_profiles [of "emit (ConsoleLog ''AWS Profile Switcher'') w" h data, OF _ this] assms(1)
  show ?thesis
    by (simp add: index_js_def emit_def)
qed

lemma config_path_child [simp]:
  "x \<noteq> ''HOME'' \<Longrightarrow>
   CONFIG_awsConfigFile (child_host H (setvar x v st)) = CONFIG_awsConfigFile (child_host H st)"
  by (simp add: CONFIG_awsConfigFile_def CONFIG_homeDir_def child_host_def child_env_def setvar_def)

lemma interactive_no_profiles:
  assumes "fs st (CONFIG_awsConfigFile (child_host H st)) = Some data" "\<not> has_heading data"
    and "case fs st (tilde H st @ ''/.awsp'') of None \<Rightarrow> True | Some sel \<Rightarrow> strip_newlines sel = []"
  shows "\<exists>st'. interactive H st = Some (Done 0, st') \<and>
           vars st' ''AWS_PROFILE'' = None \<and> vars st' ''AWS_DEFAULT_PROFILE'' = None \<and>
           ''AWS_PROFILE'' \<notin> exported st' \<and> ''AWS_DEFAULT_PROFILE'' \<notin> exported st' \<and>
           fs st' = fs st"
proof -
  let ?st1 = "setvar ''CURRENT'' (script_dir H) st"
  let ?h = "child_host H ?st1"
  let ?w = "\<lparr>files = fs ?st1, trace = []\<rparr>"
  have "files ?w (CONFIG_awsConfigFile ?h) = Some data"
    using assms(1) by simp
  from index_js_no_profiles [OF this assms(2)] obtain w' where
    r: "run_selector H ?st1 = (Exit 0, w')" and f: "files w' = fs st"
    by (simp add: run_selector_def)
  let ?st2 = "tell (Child (trace w')) (?st1\<lparr>fs := files w'\<rparr>)"
  have i: "interactive H st = after_selector H ?st2"
    using r by (simp add: interactive_def)
  have "strip_newlines (case fs ?st2 (tilde H ?st2 @ ''/.awsp'') of None \<Rightarrow> [] | Some c \<Rightarrow> c) = []"
    using assms(3) f by (simp add: strip_newlines_def split: option.splits)
  then have a: "after_selector H ?st2 =
      Some (Done 0, unset_var ''AWS_DEFAULT_PROFILE''
                      (unset_var ''AWS_PROFILE'' (setvar ''selected_profile'' [] ?st2)))"
    by (simp add: after_selector_def Let_def)
  let ?st' = "unset_var ''AWS_DEFAULT_PROFILE''
                (unset_var ''AWS_PROFILE'' (setvar ''selected_profile'' [] ?st2))"
  have "fs ?st' = fs (setvar ''selected_profile'' [] ?st2)"
    by (simp add: unset_var_def)
  then have "fs ?st' = fs st"
    using f by simp
  moreover have "vars ?st' ''AWS_PROFILE'' = None \<and> vars ?st' ''AWS_DEFAULT_PROFILE'' = None \<and>
      ''AWS_PROFILE'' \<notin> exported ?st' \<and> ''AWS_DEFAULT_PROFILE'' \<notin> exported ?st'"
    by (simp add: unset_var_def)
  ultimately show ?thesis
    using i a by simp
qed

text \<open>
  C7, as stated, fails for the tool as a whole: with a config that has no profile heading
  and no profile file left by an earlier run, the wrapper unsets \<^verbatim>\<open>AWS_PROFILE\<close>, which
  was set and exported before the run.
\<close>

theorem no_profiles_run_unsets_profile:
  "profile_choices ''[default]\<newline>region = us-east-1\<newline>'' = None \<and>
   vars (sample_shell [''/home/u/.aws/config'' \<mapsto> ''[default]\<newline>region = us-east-1\<newline>''])
     ''AWS_PROFILE'' = Some ''ops'' \<and>
   map_option (\<lambda>(r, st'). (r, vars st' ''AWS_PROFILE'', ''AWS_PROFILE'' \<in> exported st'))
     (awsp (sample_shell_host None) []
        (sample_shell [''/home/u/.aws/config'' \<mapsto> ''[default]\<newline>region = us-east-1\<newline>''])) =
   Some (Done 0, None, False)"
  by code_simp

text \<open>
  C7, amended: for a config text without profile heading, the prompt step prints the three
  lines of guidance and returns no selection, and \<^verbatim>\<open>index.js\<close> ends with exit status 0,
  having read the config file and written no file and run no command. The wrapper then
  goes by the profile file of earlier runs: when that file is absent or empty, it unsets
  \<^verbatim>\<open>AWS_PROFILE\<close> and \<^verbatim>\<open>AWS_DEFAULT_PROFILE\<close> and leaves the files as they are.
\<close>

theorem no_profiles_found:
  assumes "\<not> has_heading data"
  shows "promptProfileChoice h data w = (Inr None, w\<lparr>trace := trace w @ no_profiles_guidance\<rparr>) \<and>
         (files w (CONFIG_awsConfigFile h) = Some data \<longrightarrow>
            index_js h w =
              (Exit 0, w\<lparr>trace := trace w @ ConsoleLog ''AWS Profile Switcher'' #
                                     ReadFile (CONFIG_awsConfigFile h) # no_profiles_guidance\<rparr>)) \<and>
         (fs st (CONFIG_awsConfigFile (child_host H st)) = Some data \<and>
          (case fs st (tilde H st @ ''/.awsp'') of None \<Rightarrow> True | Some sel \<Rightarrow> strip_newlines sel = []) \<longrightarrow>
            (\<exists>st'. interactive H st = Some (Done 0, st') \<and>
               vars st' ''AWS_PROFILE'' = None \<and> vars st' ''AWS_DEFAULT_PROFILE'' = None \<and>
               ''AWS_PROFILE'' \<notin> exported st' \<and> ''AWS_DEFAULT_PROFILE'' \<notin> exported st' \<and>
               fs st' = fs st))"
proof -
  have "profile_choices data = None"
    using assms by (simp add: profile_choices_None_iff)
  then have "promptProfileChoice h data w = (Inr None, w\<lparr>trace := trace w @ no_profiles_guidance\<rparr>)"
    by (simp add: promptProfileChoice_def)
  with index_js_no_profiles [of w h data] interactive_no_profiles [of st H data] assms
  show ?thesis by blast
qed

theorem no_profiles_found_witness:
  "index_js (sample_host None)
     \<lparr>files = [''/home/u/.aws/config'' \<mapsto> ''[default]\<newline>region = us-east-1\<newline>''], trace = []\<rparr> =
   (Exit 0,
    \<lparr>files = [''/home/u/.aws/config'' \<mapsto> ''[default]\<newline>region = us-east-1\<newline>''],
     trace = ConsoleLog ''AWS Profile Switcher'' # ReadFile ''/home/u/.aws/config'' #
             no_profiles_guidance\<rparr>) \<and>
   map_option
     (\<lambda>(r, st'). (r, vars st' ''AWS_PROFILE'', vars st' ''AWS_DEFAULT_PROFILE'',
                   ''AWS_PROFILE'' \<in> exported st', ''AWS_DEFAULT_PROFILE'' \<in> exported st',
                   fs st' ''/home/u/.awsp''))
     (interactive (sample_shell_host None)
        (sample_shell [''/home/u/.aws/config'' \<mapsto> ''[default]\<newline>region = us-east-1\<newline>''])) =
   Some (Done 0, None, None, False, False, None)"
proof -
  let ?data = "''[default]\<newline>region = us-east-1\<newline>''"
  let ?st = "sample_shell [''/home/u/.aws/config'' \<mapsto> ?data]"
  let ?H = "sample_shell_host None"
  have "profile_choices ?data = None"
    by code_simp
  then have n: "\<not> has_heading ?data"
    by (simp add: profile_choices_None_iff)
  have c: "fs ?st (CONFIG_awsConfigFile (child_host ?H ?st)) = Some ?data"
    by (simp add: sample_shell_def sample_shell_host_def sample_host_def child_host_def
        child_env_def CONFIG_awsConfigFile_def CONFIG_homeDir_def)
  have p: "(case fs ?st (tilde ?H ?st @ ''/.awsp'') of None \<Rightarrow> True
            | Some sel \<Rightarrow> strip_newlines sel = [])"
    by (simp add: sample_shell_def tilde_def)
  from no_profiles_found [OF n, of "sample_host None"
      "\<lparr>files = [''/home/u/.aws/config'' \<mapsto> ?data], trace = []\<rparr>" ?st ?H] c p
  show ?thesis
    by (auto simp: sample_host_def sample_shell_def CONFIG_awsConfigFile_def CONFIG_homeDir_def)
qed

section \<open>The commands the wrapper runs\<close>

lemma evals_append [simp]: "evals (xs @ ys) = evals xs @ evals ys"
  by (induction xs rule: evals.induct) simp_all

lemma simple_runs_append [simp]: "simple_runs (xs @ ys) = simple_runs xs @ simple_runs ys"
  by (induction xs rule: simple_runs.induct) simp_all

lemma history_tell [simp]: "history (tell e st) = history st @ [e]"
  by (simp add: tell_def)

lemma history_setvar [simp]: "history (setvar x v st) = history st"
  by (simp add: setvar_def)

lemma run_simps [simp]:
  "fst (run H i st) = run_result H (history st) i"
  "snd (run H i st) = tell (Run i) st"
  by (simp_all add: run_def)

lemma check_dependencies_ok:
  assumes "tools_present H"
  shows "check_dependencies H st =
     (Done 0, tell (Run (Simple [''command'', ''-v'', ''aws'']))
                (tell (Run (Simple [''command'', ''-v'', ''jq''])) st))"
  using assms
  by (simp add: check_dependencies_def tools_present_def run_def case_prod_beta)

lemma jq_field_history:
  "evals (history (jq_field H x f st)) = evals (history st) \<and>
   simple_runs (history (jq_field H x f st)) = simple_runs (history st)"
  by (simp add: jq_field_def run_def case_prod_beta)

lemma publish_credentials_history:
  "evals (history (snd (publish_credentials H a b st))) = evals (history st) \<and>
   simple_runs (history (snd (publish_credentials H a b st))) = simple_runs (history st)"
  by (simp add: publish_credentials_def Let_def run_def jq_field_history case_prod_beta)


lemma execute_history:
  "evals (history (snd (case run H (Eval command) stx of
              ((s3, out3), st3) \<Rightarrow>
                let st4 = setvar ''AWS_STS_CREDENTIALS'' (strip_newlines out3) st3
                in if s3 \<noteq> 0
                   then (1, tell (Stderr msg) st4)
                   else publish_credentials H a b st4))) = evals (history stx) @ [command]"
  by (simp add: run_def case_prod_beta Let_def publish_credentials_history)

lemma assume_role_with_arn_plain:
  "evals (history (snd (assume_role_with_arn H role_arn source_profile [] st))) =
     evals (history st) @
       [arn_command source_profile role_arn
          (strip_newlines (snd (run_result H (history st) (Simple [''date'', ''+%s'']))))]"
  by (simp add: assume_role_with_arn_def run_def case_prod_beta Let_def publish_credentials_history
      arn_command_def)

lemma assume_role_with_arn_mfa:
  assumes "mfa_code \<noteq> []"
  shows "\<exists>mfa_serial.
     evals (history (snd (assume_role_with_arn H role_arn source_profile mfa_code st))) =
       evals (history st) @
         (if mfa_serial = [] then []
          else [arn_command source_profile role_arn
                  (strip_newlines (snd (run_result H (history st) (Simple [''date'', ''+%s'']))))
                @ mfa_options mfa_serial mfa_code]) \<and>
     (mfa_serial = [] \<longrightarrow>
        fst (assume_role_with_arn H role_arn source_profile mfa_code st) = 1) \<and>
     (\<forall>out. (\<forall>hist. run_result H hist
                 (Simple ([''aws'', ''configure'', ''get''] @ fields (source_profile @ ''.mfa_serial''))) =
               (0, out)) \<longrightarrow> mfa_serial = strip_newlines out)"
proof -
  let ?h1 = "history st @ [Run (Simple [''date'', ''+%s''])]"
  let ?q = "Simple ([''aws'', ''configure'', ''get''] @ fields (source_profile @ ''.mfa_serial''))"
  let ?r1 = "run_result H ?h1 ?q"
  let ?r2 = "run_result H (?h1 @ [Run ?q]) (Simple [''aws'', ''configure'', ''get'', ''default.mfa_serial''])"
  let ?serial = "strip_newlines (if fst ?r1 = 0 then snd ?r1 else snd ?r1 @ snd ?r2)"
  have "evals (history (snd (assume_role_with_arn H role_arn source_profile mfa_code st))) =
       evals (history st) @
         (if ?serial = [] then []
          else [arn_command source_profile role_arn
                  (strip_newlines (snd (run_result H (history st) (Simple [''date'', ''+%s'']))))
                @ mfa_options ?serial mfa_code])"
    using assms
    by (simp add: assume_role_with_arn_def run_def case_prod_beta Let_def
        publish_credentials_history arn_command_def mfa_options_def)
  moreover have "?serial = [] \<longrightarrow>
        fst (assume_role_with_arn H role_arn source_profile mfa_code st) = 1"
    using assms
    by (simp add: assume_role_with_arn_def run_def case_prod_beta Let_def)
  moreover have "\<forall>out. (\<forall>hist. run_result H hist ?q = (0, out)) \<longrightarrow> ?serial = strip_newlines out"
    by simp
  ultimately show ?thesis by blast
qed

lemma assume_role_with_mfa_runs:
  "simple_runs (history (snd (assume_role_with_mfa H profile mfa_code st))) =
     simple_runs (history st) @
       [[''aws'', ''configure'', ''get''] @ fields (profile @ ''.role_arn''),
        [''aws'', ''configure'', ''get''] @ fields (profile @ ''.mfa_serial'')] @
       (let role_arn = strip_newlines (snd (run_result H (history st)
              (Simple ([''aws'', ''configure'', ''get''] @ fields (profile @ ''.role_arn'')))));
            mfa_serial = strip_newlines (snd (run_result H
              (history st @ [Run (Simple ([''aws'', ''configure'', ''get''] @ fields (profile @ ''.role_arn'')))])
              (Simple ([''aws'', ''configure'', ''get''] @ fields (profile @ ''.mfa_serial'')))))
        in if role_arn = [] \<or> mfa_serial = [] then []
           else [[''aws'', ''sts'', ''assume-role'', ''--profile'', ''default'',
                  ''--role-arn'', role_arn, ''--role-session-name'', profile @ ''-session'',
                  ''--serial-number'', mfa_serial, ''--token-code'', mfa_code]])"
  by (simp add: assume_role_with_mfa_def run_def case_prod_beta Let_def
      publish_credentials_history assume_role_argv_def)

section \<open>Options and dispatch\<close>

lemma getopts_word:
  "take 1 a \<noteq> ''-'' \<Longrightarrow> getopts_loop [a] m p = Inr (m, p, [a])"
  by (cases a rule: remdups_adj.cases) auto

lemma role_arn_no_dash: "is_role_arn a \<Longrightarrow> take 1 a \<noteq> ''-''"
proof -
  assume "is_role_arn a"
  then have "take 1 (take 13 a) = take 1 ''arn:aws:iam::''"
    by (simp add: is_role_arn_def)
  then show ?thesis by simp
qed

lemma getopts_m_word:
  "take 1 a \<noteq> ''-'' \<Longrightarrow> getopts_loop [''-m'', code, a] [] [] = Inr (code, [], [a])"
  using getopts_word [of a code "[]"] by (simp del: getopts_loop.simps(2))

lemma optind_setvar [simp]: "x \<noteq> ''OPTIND'' \<Longrightarrow> optind (setvar x v st) = optind st"
  by (simp add: optind_def setvar_def)

lemma optind_tell [simp]: "optind (tell e st) = optind st"
  by (simp add: optind_def tell_def)

lemma history_unset_var [simp]: "history (unset_var x st) = history st"
  by (simp add: unset_var_def)

lemma getvar_unset_var [simp]: "y \<noteq> x \<Longrightarrow> getvar (unset_var x st) y = getvar st y"
  by (simp add: unset_var_def getvar_def)

lemma default_source_profile_cong:
  "getvar st' ''AWS_PROFILE'' = getvar st ''AWS_PROFILE'' \<Longrightarrow>
   getvar st' ''AWS_DEFAULT_PROFILE'' = getvar st ''AWS_DEFAULT_PROFILE'' \<Longrightarrow>
   default_source_profile st' = default_source_profile st"
  by (simp add: default_source_profile_def)

lemma entered_facts:
  "history (entered st m p n) = checked (history st)"
  "getvar (entered st m p n) ''AWS_PROFILE'' = getvar st ''AWS_PROFILE''"
  "getvar (entered st m p n) ''AWS_DEFAULT_PROFILE'' = getvar st ''AWS_DEFAULT_PROFILE''"
  "getvar (entered st m p n) ''source_profile'' = p"
  by (simp_all add: entered_def checked_def)

lemma checked_facts [simp]:
  "evals (checked hist) = evals hist"
  "simple_runs (checked hist) =
     simple_runs hist @ [[''command'', ''-v'', ''jq''], [''command'', ''-v'', ''aws'']]"
  by (simp_all add: checked_def)

lemma awsp_dispatch:
  assumes "tools_present H" "optind st = Some k"
    and "getopts_loop (drop (k - 1) args) [] [] = Inr (m, p, argument # more_args)"
  shows "awsp H args st =
     (let st6 = setvar ''argument'' argument
                  (entered st m p (length args - length (argument # more_args) + 1))
      in if is_role_arn argument
         then (let st7 = (if p = [] then setvar ''source_profile'' (default_source_profile st6) st6
                          else st6)
               in case assume_role_with_arn H argument (getvar st7 ''source_profile'') m st7 of
                    (s, st8) \<Rightarrow> Some (Done s, st8))
         else if m \<noteq> []
         then (case assume_role_with_mfa H argument m st6 of (s, st8) \<Rightarrow> Some (Done s, st8))
         else Some (Done 0, set_profile argument st6))"
  using assms
  by (simp add: awsp_def check_dependencies_ok entered_def Let_def)

text \<open>
  The state in which \<^verbatim>\<open>assume_role_with_arn\<close> is called for the argument \<open>a\<close> when no \<^verbatim>\<open>-p\<close>
  was given, \<open>m\<close> being the value of \<^verbatim>\<open>-m\<close> and \<open>n\<close> the index of \<open>a\<close> among the arguments.
\<close>

lemma awsp_arn:
  assumes "tools_present H" "optind st = Some k" "is_role_arn a"
    and "getopts_loop (drop (k - 1) args) [] [] = Inr (m, [], a # more_args)"
  shows "\<exists>st7. awsp H args st =
           Some (Done (fst (assume_role_with_arn H a (default_source_profile st) m st7)),
                 snd (assume_role_with_arn H a (default_source_profile st) m st7)) \<and>
           history st7 = checked (history st)"
proof -
  let ?n = "length args - length (a # more_args) + 1"
  let ?st6 = "setvar ''argument'' a (entered st m [] ?n)"
  let ?st7 = "setvar ''source_profile'' (default_source_profile ?st6) ?st6"
  have d: "default_source_profile ?st6 = default_source_profile st"
    by (rule default_source_profile_cong) (simp_all add: entered_facts)
  have r: "awsp H args st =
      Some (Done (fst (assume_role_with_arn H a (default_source_profile st) m ?st7)),
            snd (assume_role_with_arn H a (default_source_profile st) m ?st7))"
    using awsp_dispatch [OF assms(1,2,4)] assms(3) d by (simp add: Let_def case_prod_beta)
  have h: "history ?st7 = checked (history st)"
    by (simp add: entered_facts)
  from r h show ?thesis by blast
qed

lemma assume_role_with_arn_plain_runs:
  "simple_runs (history (snd (assume_role_with_arn H role_arn source_profile [] st))) =
     simple_runs (history st) @ [[''date'', ''+%s'']]"
  by (simp add: assume_role_with_arn_def run_def case_prod_beta Let_def publish_credentials_history)

lemma assume_role_with_arn_serial:
  assumes "mfa_code \<noteq> []"
  shows "evals (history (snd (assume_role_with_arn H role_arn source_profile mfa_code st))) =
       evals (history st) @
         (let serial = mfa_serial_lookup H (history st @ [Run (Simple [''date'', ''+%s''])]) source_profile
          in if serial = [] then []
             else [arn_command source_profile role_arn
                     (captured H (history st) (Simple [''date'', ''+%s'']))
                   @ mfa_options serial mfa_code])"
  using assms
  by (simp add: assume_role_with_arn_def run_def case_prod_beta Let_def
      publish_credentials_history arn_command_def mfa_options_def mfa_serial_lookup_def captured_def)

lemma assume_role_with_arn_no_serial:
  assumes "mfa_code \<noteq> []"
    and "mfa_serial_lookup H (history st @ [Run (Simple [''date'', ''+%s''])]) source_profile = []"
  shows "fst (assume_role_with_arn H role_arn source_profile mfa_code st) = 1"
  using assms
  by (auto simp: assume_role_with_arn_def run_def case_prod_beta Let_def mfa_serial_lookup_def
      split: if_splits)

lemma awsp_arn_plain:
  assumes "tools_present H" "optind st = Some 1" "is_role_arn a"
  shows "evaluated (awsp H [a] st) =
           Some (evals (history st) @
                 [arn_command (default_source_profile st) a
                    (captured H (checked (history st)) (Simple [''date'', ''+%s'']))])"
    and "commands (awsp H [a] st) =
           Some (simple_runs (history st) @
                 [[''command'', ''-v'', ''jq''], [''command'', ''-v'', ''aws''], [''date'', ''+%s'']])"
proof -
  have "take 1 a \<noteq> ''-''"
    using assms(3) by (rule role_arn_no_dash)
  then have g: "getopts_loop (drop (1 - 1) [a]) [] [] = Inr ([], [], [a])"
    by (simp del: getopts_loop.simps add: getopts_word)
  from awsp_arn [OF assms(1,2,3) g] obtain st7 where
    r: "awsp H [a] st =
          Some (Done (fst (assume_role_with_arn H a (default_source_profile st) [] st7)),
                snd (assume_role_with_arn H a (default_source_profile st) [] st7))"
    and h: "history st7 = checked (history st)"
    by blast
  show "evaluated (awsp H [a] st) =
           Some (evals (history st) @
                 [arn_command (default_source_profile st) a
                    (captured H (checked (history st)) (Simple [''date'', ''+%s'']))])"
    using r h assume_role_with_arn_plain [of H a "default_source_profile st" st7]
    by (simp add: evaluated_def captured_def)
  show "commands (awsp H [a] st) =
           Some (simple_runs (history st) @
                 [[''command'', ''-v'', ''jq''], [''command'', ''-v'', ''aws''], [''date'', ''+%s'']])"
    using r h assume_role_with_arn_plain_runs [of H a "default_source_profile st" st7]
    by (simp add: commands_def)
qed

lemma awsp_arn_mfa:
  assumes "tools_present H" "optind st = Some 1" "is_role_arn a" "code \<noteq> []"
  shows "evaluated (awsp H [''-m'', code, a] st) =
           Some (evals (history st) @
             (let serial = mfa_serial_lookup H (checked (history st) @ [Run (Simple [''date'', ''+%s''])])
                             (default_source_profile st)
              in if serial = [] then []
                 else [arn_command (default_source_profile st) a
                         (captured H (checked (history st)) (Simple [''date'', ''+%s'']))
                       @ mfa_options serial code]))"
    and "mfa_serial_lookup H (checked (history st) @ [Run (Simple [''date'', ''+%s''])])
           (default_source_profile st) = [] \<Longrightarrow>
         ended (awsp H [''-m'', code, a] st) = Some (Done 1)"
proof -
  have "take 1 a \<noteq> ''-''"
    using assms(3) by (rule role_arn_no_dash)
  then have g: "getopts_loop (drop (1 - 1) [''-m'', code, a]) [] [] = Inr (code, [], [a])"
    by (simp del: getopts_loop.simps add: getopts_m_word)
  from awsp_arn [OF assms(1,2,3) g] obtain st7 where
    r: "awsp H [''-m'', code, a] st =
          Some (Done (fst (assume_role_with_arn H a (default_source_profile st) code st7)),
                snd (assume_role_with_arn H a (default_source_profile st) code st7))"
    and h: "history st7 = checked (history st)"
    by blast
  show "evaluated (awsp H [''-m'', code, a] st) =
           Some (evals (history st) @
             (let serial = mfa_serial_lookup H (checked (history st) @ [Run (Simple [''date'', ''+%s''])])
                             (default_source_profile st)
              in if serial = [] then []
                 else [arn_command (default_source_profile st) a
                         (captured H (checked (history st)) (Simple [''date'', ''+%s'']))
                       @ mfa_options serial code]))"
    using r h assume_role_with_arn_serial [OF assms(4), of H a "default_source_profile st" st7]
    by (simp add: evaluated_def Let_def)
  show "ended (awsp H [''-m'', code, a] st) = Some (Done 1)"
    if "mfa_serial_lookup H (checked (history st) @ [Run (Simple [''date'', ''+%s''])])
           (default_source_profile st) = []"
    using r h that assume_role_with_arn_no_serial [OF assms(4), of H st7 "default_source_profile st" a]
    by (simp add: ended_def)
qed

text \<open>
  With \<^verbatim>\<open>-m\<close>, a code and a profile name as the arguments of a shell whose \<^verbatim>\<open>getopts\<close> starts at
  the first of them, the script calls \<^verbatim>\<open>assume_role_with_mfa\<close> with the name and the code.
\<close>

lemma awsp_profile_mfa:
  assumes "tools_present H" "optind st = Some 1" "\<not> is_role_arn pr" "take 1 pr \<noteq> ''-''"
    and "code \<noteq> []"
  shows "awsp H [''-m'', code, pr] st =
           Some (Done (fst (assume_role_with_mfa H pr code (setvar ''argument'' pr (entered st code [] 3)))),
                 snd (assume_role_with_mfa H pr code (setvar ''argument'' pr (entered st code [] 3))))"
proof -
  have g: "getopts_loop (drop (1 - 1) [''-m'', code, pr]) [] [] = Inr (code, [], [pr])"
    using assms(4) by (simp del: getopts_loop.simps add: getopts_m_word)
  show ?thesis
    using awsp_dispatch [OF assms(1,2) g] assms(3,5)
    by (simp add: Let_def case_prod_beta eval_nat_numeral)
qed

section \<open>The AssumeRole call for a profile\<close>

lemma performAssumeRole_calls:
  assumes "exec_result h (trace w) (configure_get p ''role_arn'') = Inr o1"
    and "exec_result h (trace w @ [ExecSync (configure_get p ''role_arn'')])
           (configure_get p ''mfa_serial'') = Inr o2"
  shows "\<exists>rest. trace (snd (performAssumeRole h p code w)) = trace w @
           [ExecSync (configure_get p ''role_arn''), ExecSync (configure_get p ''mfa_serial''),
            ExecSync (assumeRoleCommand (trim o1) p (trim o2) code)] @ rest"
  using assms
  by (auto simp: performAssumeRole_def assume_role_try_def getAwsConfig_def execSync_def
      write_file_def copyToClipboard_def split: sum.splits prod.splits option.splits)

lemma main_assumes_role:
  assumes "files w (CONFIG_awsConfigFile h) = Some data"
    and "profile_choices data = Some choices"
    and "list_answer h choices (prompt_default h) = Inr p"
    and "write_fault h (CONFIG_profileFile h) = None"
    and "truthy (fst (hasRoleConfiguration h p (after_write h p w)))"
    and "promptMfaCode h = Inr (Some code)"
  shows "snd (main h w) =
         snd (performAssumeRole h p code (snd (hasRoleConfiguration h p (after_write h p w))))"
  using main_selected [OF assms(1-4)] assms(5,6)
  by (simp add: case_prod_beta)

lemma awsp_profile_mfa_commands:
  assumes "tools_present H" "optind st = Some 1" "\<not> is_role_arn pr" "take 1 pr \<noteq> ''-''"
    and "code \<noteq> []"
  shows "commands (awsp H [''-m'', code, pr] st) =
     Some (simple_runs (history st) @
       [[''command'', ''-v'', ''jq''], [''command'', ''-v'', ''aws''],
        [''aws'', ''configure'', ''get''] @ fields (pr @ ''.role_arn''),
        [''aws'', ''configure'', ''get''] @ fields (pr @ ''.mfa_serial'')] @
       (let role_arn = captured H (checked (history st))
              (Simple ([''aws'', ''configure'', ''get''] @ fields (pr @ ''.role_arn'')));
            mfa_serial = captured H
              (checked (history st) @
               [Run (Simple ([''aws'', ''configure'', ''get''] @ fields (pr @ ''.role_arn'')))])
              (Simple ([''aws'', ''configure'', ''get''] @ fields (pr @ ''.mfa_serial'')))
        in if role_arn = [] \<or> mfa_serial = [] then []
           else [[''aws'', ''sts'', ''assume-role'', ''--profile'', ''default'',
                  ''--role-arn'', role_arn, ''--role-session-name'', pr @ ''-session'',
                  ''--serial-number'', mfa_serial, ''--token-code'', code]]))"
proof -
  let ?st6 = "setvar ''argument'' pr (entered st code [] 3)"
  have h: "history ?st6 = checked (history st)"
    by (simp add: entered_facts)
  from awsp_profile_mfa [OF assms] assume_role_with_mfa_runs [of H pr code ?st6] h
  show ?thesis
    by (simp add: commands_def captured_def Let_def)
qed

text \<open>
  C8: a role assumption for a profile uses the source profile \<^verbatim>\<open>default\<close>, the session
  name made of the profile name and \<^verbatim>\<open>-session\<close>, the role ARN and MFA serial that the
  config store gives for the profile, and the code supplied. In \<^verbatim>\<open>index.js\<close> this is the
  third command of \<^verbatim>\<open>performAssumeRole\<close>, which the interactive flow calls with the
  selected profile and the code typed at the prompt. In the wrapper it is the command that
  \<^verbatim>\<open>assume_role_with_mfa\<close> runs after its two queries, whenever it is called and both
  values are non-empty; and \<^verbatim>\<open>assume_role_with_mfa\<close> is what the script comes to when its
  arguments are \<^verbatim>\<open>-m\<close>, a code and a profile name and \<^verbatim>\<open>getopts\<close> starts at the first of them.
\<close>

theorem profile_role_assumption:
  \<open>(exec_result h (trace w) (''aws configure get '' @ p @ ''.role_arn'') = Inr o1 \<and>
    exec_result h (trace w @ [ExecSync (''aws configure get '' @ p @ ''.role_arn'')])
      (''aws configure get '' @ p @ ''.mfa_serial'') = Inr o2 \<longrightarrow>
      (\<exists>rest. trace (snd (performAssumeRole h p code w)) = trace w @
         [ExecSync (''aws configure get '' @ p @ ''.role_arn''),
          ExecSync (''aws configure get '' @ p @ ''.mfa_serial''),
          ExecSync (''aws sts assume-role --profile default --role-arn "'' @ trim o1 @
                    ''" --role-session-name "'' @ p @ ''-session" --serial-number "'' @ trim o2 @
                    ''" --token-code "'' @ code @ ''"'')] @ rest)) \<and>
   (files w0 (CONFIG_awsConfigFile h) = Some data \<and> profile_choices data = Some choices \<and>
    list_answer h choices (prompt_default h) = Inr p \<and>
    write_fault h (CONFIG_profileFile h) = None \<and>
    truthy (fst (hasRoleConfiguration h p (after_write h p w0))) \<and>
    promptMfaCode h = Inr (Some code) \<longrightarrow>
      snd (main h w0) =
        snd (performAssumeRole h p code (snd (hasRoleConfiguration h p (after_write h p w0))))) \<and>
   simple_runs (history (snd (assume_role_with_mfa H pr mfa_code st))) =
     simple_runs (history st) @
       [[''aws'', ''configure'', ''get''] @ fields (pr @ ''.role_arn''),
        [''aws'', ''configure'', ''get''] @ fields (pr @ ''.mfa_serial'')] @
       (let role_arn = captured H (history st)
              (Simple ([''aws'', ''configure'', ''get''] @ fields (pr @ ''.role_arn'')));
            mfa_serial = captured H
              (history st @ [Run (Simple ([''aws'', ''configure'', ''get''] @ fields (pr @ ''.role_arn'')))])
              (Simple ([''aws'', ''configure'', ''get''] @ fields (pr @ ''.mfa_serial'')))
        in if role_arn = [] \<or> mfa_serial = [] then []
           else [[''aws'', ''sts'', ''assume-role'', ''--profile'', ''default'',
                  ''--role-arn'', role_arn, ''--role-session-name'', pr @ ''-session'',
                  ''--serial-number'', mfa_serial, ''--token-code'', mfa_code]]) \<and>
   (tools_present H \<and> optind st = Some 1 \<and> \<not> is_role_arn pr \<and> take 1 pr \<noteq> ''-'' \<and>
    mfa_code \<noteq> [] \<longrightarrow>
      commands (awsp H [''-m'', mfa_code, pr] st) =
        Some (simple_runs (history st) @
          [[''command'', ''-v'', ''jq''], [''command'', ''-v'', ''aws''],
           [''aws'', ''configure'', ''get''] @ fields (pr @ ''.role_arn''),
           [''aws'', ''configure'', ''get''] @ fields (pr @ ''.mfa_serial'')] @
          (let role_arn = captured H (checked (history st))
                 (Simple ([''aws'', ''configure'', ''get''] @ fields (pr @ ''.role_arn'')));
               mfa_serial = captured H
                 (checked (history st) @
                  [Run (Simple ([''aws'', ''configure'', ''get''] @ fields (pr @ ''.role_arn'')))])
                 (Simple ([''aws'', ''configure'', ''get''] @ fields (pr @ ''.mfa_serial'')))
           in if role_arn = [] \<or> mfa_serial = [] then []
              else [[''aws'', ''sts'', ''assume-role'', ''--profile'', ''default'',
                     ''--role-arn'', role_arn, ''--role-session-name'', pr @ ''-session'',
                     ''--serial-number'', mfa_serial, ''--token-code'', mfa_code]])))\<close>
proof -
  have js: \<open>\<exists>rest. trace (snd (performAssumeRole h p code w)) = trace w @
         [ExecSync (''aws configure get '' @ p @ ''.role_arn''),
          ExecSync (''aws configure get '' @ p @ ''.mfa_serial''),
          ExecSync (''aws sts assume-role --profile default --role-arn "'' @ trim o1 @
                    ''" --role-session-name "'' @ p @ ''-session" --serial-number "'' @ trim o2 @
                    ''" --token-code "'' @ code @ ''"'')] @ rest\<close>
    if "exec_result h (trace w) (''aws configure get '' @ p @ ''.role_arn'') = Inr o1"
      "exec_result h (trace w @ [ExecSync (''aws configure get '' @ p @ ''.role_arn'')])
         (''aws configure get '' @ p @ ''.mfa_serial'') = Inr o2"
    using performAssumeRole_calls [of h w p o1 o2 code] that
    by (simp add: configure_get_def assumeRoleCommand_def)
  have ml: "snd (main h w0) =
        snd (performAssumeRole h p code (snd (hasRoleConfiguration h p (after_write h p w0))))"
    if "files w0 (CONFIG_awsConfigFile h) = Some data" "profile_choices data = Some choices"
      "list_answer h choices (prompt_default h) = Inr p"
      "write_fault h (CONFIG_profileFile h) = None"
      "truthy (fst (hasRoleConfiguration h p (after_write h p w0)))"
      "promptMfaCode h = Inr (Some code)"
    using that by (rule main_assumes_role)
  note fn = assume_role_with_mfa_runs [of H pr mfa_code st, folded captured_def]
  note sh = awsp_profile_mfa_commands [of H st pr mfa_code]
  from js ml fn sh show ?thesis by blast
qed

lemma sample_tools: "tools_present (sample_shell_host r)"
  by (simp add: tools_present_def sample_shell_host_def sample_run_def)

lemma sample_optind: "optind (sample_shell disk) = Some 1"
  by (simp add: optind_def sample_shell_def)

theorem profile_role_assumption_witness:
  \<open>(\<exists>rest. trace (snd (performAssumeRole (sample_host (Some sts_reply)) ''dev'' ''123456'' sample_world)) =
      [ExecSync ''aws configure get dev.role_arn'', ExecSync ''aws configure get dev.mfa_serial'',
       ExecSync ''aws sts assume-role --profile default --role-arn "arn:aws:iam::123456789012:role/Dev" --role-session-name "dev-session" --serial-number "arn:aws:iam::123456789012:mfa/me" --token-code "123456"''] @
      rest) \<and>
   simple_runs (history (snd (assume_role_with_mfa (sample_shell_host None) ''dev'' ''123456''
                                (sample_shell (files sample_world))))) =
     [[''aws'', ''configure'', ''get'', ''dev.role_arn''],
      [''aws'', ''configure'', ''get'', ''dev.mfa_serial''],
      [''aws'', ''sts'', ''assume-role'', ''--profile'', ''default'',
       ''--role-arn'', ''arn:aws:iam::123456789012:role/Dev'',
       ''--role-session-name'', ''dev-session'',
       ''--serial-number'', ''arn:aws:iam::123456789012:mfa/me'', ''--token-code'', ''123456'']] \<and>
   commands (awsp (sample_shell_host None) [''-m'', ''123456'', ''dev''] (sample_shell (files sample_world))) =
     Some [[''command'', ''-v'', ''jq''], [''command'', ''-v'', ''aws''],
           [''aws'', ''configure'', ''get'', ''dev.role_arn''],
           [''aws'', ''configure'', ''get'', ''dev.mfa_serial''],
           [''aws'', ''sts'', ''assume-role'', ''--profile'', ''default'',
            ''--role-arn'', ''arn:aws:iam::123456789012:role/Dev'',
            ''--role-session-name'', ''dev-session'',
            ''--serial-number'', ''arn:aws:iam::123456789012:mfa/me'', ''--token-code'', ''123456'']]\<close>
proof -
  let ?H = "sample_shell_host None"
  let ?st = "sample_shell (files sample_world)"
  note t = profile_role_assumption [where h = "sample_host (Some sts_reply)" and p = "''dev''"
      and code = "''123456''" and w = sample_world
      and ?o1.0 = "''arn:aws:iam::123456789012:role/Dev\<newline>''"
      and ?o2.0 = "''arn:aws:iam::123456789012:mfa/me\<newline>''"
      and H = ?H and pr = "''dev''" and mfa_code = "''123456''" and st = ?st]
  have f1: "fields ''dev.role_arn'' = [''dev.role_arn'']"
    and f2: "fields ''dev.mfa_serial'' = [''dev.mfa_serial'']"
    by code_simp+
  have na: "\<not> is_role_arn ''dev''"
    by code_simp
  have h: "history ?st = []"
    by (simp add: sample_shell_def)
  have c1: "captured ?H hist (Simple [''aws'', ''configure'', ''get'', ''dev.role_arn'']) =
      ''arn:aws:iam::123456789012:role/Dev''" for hist
    by (simp add: captured_def sample_shell_host_def sample_run_def strip_newlines_def)
  have c2: "captured ?H hist (Simple [''aws'', ''configure'', ''get'', ''dev.mfa_serial'']) =
      ''arn:aws:iam::123456789012:mfa/me''" for hist
    by (simp add: captured_def sample_shell_host_def sample_run_def strip_newlines_def)
  have js: \<open>\<exists>rest. trace (snd (performAssumeRole (sample_host (Some sts_reply)) ''dev'' ''123456'' sample_world)) =
      [ExecSync ''aws configure get dev.role_arn'', ExecSync ''aws configure get dev.mfa_serial'',
       ExecSync ''aws sts assume-role --profile default --role-arn "arn:aws:iam::123456789012:role/Dev" --role-session-name "dev-session" --serial-number "arn:aws:iam::123456789012:mfa/me" --token-code "123456"''] @
      rest\<close>
    using t [THEN conjunct1]
    by (simp add: sample_host_def sample_exec_def sample_world_def trim_def js_whitespace_def)
  have fn: "simple_runs (history (snd (assume_role_with_mfa ?H ''dev'' ''123456'' ?st))) =
     [[''aws'', ''configure'', ''get'', ''dev.role_arn''],
      [''aws'', ''configure'', ''get'', ''dev.mfa_serial''],
      [''aws'', ''sts'', ''assume-role'', ''--profile'', ''default'',
       ''--role-arn'', ''arn:aws:iam::123456789012:role/Dev'',
       ''--role-session-name'', ''dev-session'',
       ''--serial-number'', ''arn:aws:iam::123456789012:mfa/me'', ''--token-code'', ''123456'']]"
    using t [THEN conjunct2, THEN conjunct2, THEN conjunct1]
    by (simp add: f1 f2 h c1 c2)
  have sh: "commands (awsp ?H [''-m'', ''123456'', ''dev''] ?st) =
     Some [[''command'', ''-v'', ''jq''], [''command'', ''-v'', ''aws''],
           [''aws'', ''configure'', ''get'', ''dev.role_arn''],
           [''aws'', ''configure'', ''get'', ''dev.mfa_serial''],
           [''aws'', ''sts'', ''assume-role'', ''--profile'', ''default'',
            ''--role-arn'', ''arn:aws:iam::123456789012:role/Dev'',
            ''--role-session-name'', ''dev-session'',
            ''--serial-number'', ''arn:aws:iam::123456789012:mfa/me'', ''--token-code'', ''123456'']]"
    using t [THEN conjunct2, THEN conjunct2, THEN conjunct2] sample_tools [of None]
      sample_optind [of "files sample_world"] na
    by (simp add: f1 f2 h c1 c2)
  from js fn sh show ?thesis by (intro conjI)
qed

section \<open>A role ARN as the argument\<close>

lemma arn_command_text:
  \<open>arn_command src arn stamp =
     ''aws sts assume-role --profile "'' @ src @
     ''" --role-arn "'' @ arn @ ''" --role-session-name "awsp-'' @ stamp @ ''"''\<close>
  by (simp add: arn_command_def quoted_def)

lemma arn_command_mfa_text:
  \<open>arn_command src arn stamp @ mfa_options ser code =
     ''aws sts assume-role --profile "'' @ src @
     ''" --role-arn "'' @ arn @ ''" --role-session-name "awsp-'' @ stamp @
     ''" --serial-number "'' @ ser @ ''" --token-code "'' @ code @ ''"''\<close>
  by (simp add: arn_command_def mfa_options_def quoted_def)

lemma my_role_arn: "is_role_arn ''arn:aws:iam::123456789012:role/MyRole''"
  by (simp add: is_role_arn_def digit_def role_char_def)

lemma sample_stamp:
  "captured (sample_shell_host r) hist (Simple [''date'', ''+%s'']) = ''1700000000''"
  by (simp add: captured_def sample_shell_host_def sample_run_def strip_newlines_def)

lemma sample_source_profile: "default_source_profile (sample_shell disk) = ''ops''"
  by (simp add: default_source_profile_def getvar_def sample_shell_def)

lemma sample_shell_again_facts:
  "optind sample_shell_again = Some 3"
  "default_source_profile sample_shell_again = ''ops''"
  "history sample_shell_again = []"
  by (simp_all add: sample_shell_again_def optind_def numeral_text_def number_of_def
      digit_value_def digit_def default_source_profile_def getvar_def sample_shell_def)

text \<open>
  C6, as stated, fails. In a shell whose \<^verbatim>\<open>AWS_PROFILE\<close> is \<^verbatim>\<open>ops\<close>, the wrapper given the role
  ARN alone assumes the role with the source profile \<^verbatim>\<open>ops\<close>, not \<^verbatim>\<open>default\<close>. And in a shell
  in which the wrapper has run before with two options words, \<^verbatim>\<open>OPTIND\<close> is still 3, the
  loop takes \<^verbatim>\<open>-m 123456\<close> for arguments already dealt with, and the call is made without
  the MFA options.
\<close>

theorem role_arn_uses_current_profile:
  \<open>vars (sample_shell (files sample_world)) ''AWS_PROFILE'' = Some ''ops'' \<and>
   evaluated (awsp (sample_shell_host None) [''arn:aws:iam::123456789012:role/MyRole'']
                (sample_shell (files sample_world))) =
     Some [''aws sts assume-role --profile "ops" --role-arn "arn:aws:iam::123456789012:role/MyRole" --role-session-name "awsp-1700000000"''] \<and>
   vars sample_shell_again ''OPTIND'' = Some ''3'' \<and>
   evaluated (awsp (sample_shell_host None) [''-m'', ''123456'', ''arn:aws:iam::123456789012:role/MyRole'']
                sample_shell_again) =
     Some [''aws sts assume-role --profile "ops" --role-arn "arn:aws:iam::123456789012:role/MyRole" --role-session-name "awsp-1700000000"'']\<close>
proof -
  let ?H = "sample_shell_host None"
  let ?st = "sample_shell (files sample_world)"
  let ?arn = "''arn:aws:iam::123456789012:role/MyRole''"
  have 1: "vars ?st ''AWS_PROFILE'' = Some ''ops''"
    by (simp add: sample_shell_def)
  have h: "history ?st = []"
    by (simp add: sample_shell_def)
  have 2: \<open>evaluated (awsp ?H [?arn] ?st) =
     Some [''aws sts assume-role --profile "ops" --role-arn "arn:aws:iam::123456789012:role/MyRole" --role-session-name "awsp-1700000000"'']\<close>
    using awsp_arn_plain(1) [OF sample_tools [of None] sample_optind [of "files sample_world"] my_role_arn]
    by (simp add: h sample_stamp sample_source_profile arn_command_text)
  have 3: "vars sample_shell_again ''OPTIND'' = Some ''3''"
    by (simp add: sample_shell_again_def)
  have g: "getopts_loop (drop (3 - 1) [''-m'', ''123456'', ?arn]) [] [] = Inr ([], [], [?arn])"
    using getopts_word [OF role_arn_no_dash [OF my_role_arn], of "[]" "[]"]
    by (simp del: getopts_loop.simps)
  from awsp_arn [OF sample_tools [of None] sample_shell_again_facts(1) my_role_arn g]
  obtain st7 where
    r: "awsp ?H [''-m'', ''123456'', ?arn] sample_shell_again =
          Some (Done (fst (assume_role_with_arn ?H ?arn (default_source_profile sample_shell_again) [] st7)),
                snd (assume_role_with_arn ?H ?arn (default_source_profile sample_shell_again) [] st7))"
    and h7: "history st7 = checked (history sample_shell_again)"
    by blast
  have 4: \<open>evaluated (awsp ?H [''-m'', ''123456'', ?arn] sample_shell_again) =
     Some [''aws sts assume-role --profile "ops" --role-arn "arn:aws:iam::123456789012:role/MyRole" --role-session-name "awsp-1700000000"'']\<close>
    using r h7 assume_role_with_arn_plain [of ?H ?arn "default_source_profile sample_shell_again" st7]
      sample_stamp [of None, unfolded captured_def]
    by (simp add: evaluated_def sample_shell_again_facts arn_command_text)
  from 1 2 3 4 show ?thesis by (intro conjI)
qed

text \<open>
  C6, amended: in a shell whose \<^verbatim>\<open>getopts\<close> starts at the first argument, the wrapper given
  a role ARN and no \<^verbatim>\<open>-m\<close> hands exactly one command line to \<^verbatim>\<open>eval\<close>: the AssumeRole call for
  that ARN with, as the source profile, the value of \<^verbatim>\<open>AWS_PROFILE\<close>, else that of
  \<^verbatim>\<open>AWS_DEFAULT_PROFILE\<close>, else \<^verbatim>\<open>default\<close>; with a session name made of \<^verbatim>\<open>awsp-\<close> and what
  \<^verbatim>\<open>date +%s\<close> printed; and with no further option. It runs no command but the two checks
  for the tools and \<^verbatim>\<open>date\<close>. Given \<^verbatim>\<open>-m\<close> with a code as well, it looks up the MFA serial of
  the source profile, else of \<^verbatim>\<open>default\<close>, and the one command line it hands to \<^verbatim>\<open>eval\<close> is
  the same call followed by \<^verbatim>\<open>--serial-number\<close> with that serial and \<^verbatim>\<open>--token-code\<close> with
  the code; when it finds no serial, it makes no call and returns 1.
\<close>

theorem role_arn_argument:
  assumes "tools_present H" and "optind st = Some 1" and "is_role_arn arn" and "code \<noteq> []"
  shows
   \<open>is_role_arn ''arn:aws:iam::123456789012:role/MyRole'' \<and>
    default_source_profile st =
      (if getvar st ''AWS_PROFILE'' \<noteq> [] then getvar st ''AWS_PROFILE''
       else if getvar st ''AWS_DEFAULT_PROFILE'' \<noteq> [] then getvar st ''AWS_DEFAULT_PROFILE''
       else ''default'') \<and>
    evaluated (awsp H [arn] st) =
      Some (evals (history st) @
        [''aws sts assume-role --profile "'' @ default_source_profile st @
         ''" --role-arn "'' @ arn @ ''" --role-session-name "awsp-'' @
         captured H (checked (history st)) (Simple [''date'', ''+%s'']) @ ''"'']) \<and>
    commands (awsp H [arn] st) =
      Some (simple_runs (history st) @
        [[''command'', ''-v'', ''jq''], [''command'', ''-v'', ''aws''], [''date'', ''+%s'']]) \<and>
    evaluated (awsp H [''-m'', code, arn] st) =
      Some (evals (history st) @
        (let serial = mfa_serial_lookup H (checked (history st) @ [Run (Simple [''date'', ''+%s''])])
                        (default_source_profile st)
         in if serial = [] then []
            else [''aws sts assume-role --profile "'' @ default_source_profile st @
                  ''" --role-arn "'' @ arn @ ''" --role-session-name "awsp-'' @
                  captured H (checked (history st)) (Simple [''date'', ''+%s'']) @
                  ''" --serial-number "'' @ serial @ ''" --token-code "'' @ code @ ''"''])) \<and>
    (mfa_serial_lookup H (checked (history st) @ [Run (Simple [''date'', ''+%s''])])
       (default_source_profile st) = [] \<longrightarrow>
     ended (awsp H [''-m'', code, arn] st) = Some (Done 1))\<close>
proof -
  have 1: "is_role_arn ''arn:aws:iam::123456789012:role/MyRole''"
    by (rule my_role_arn)
  have 2: "default_source_profile st =
      (if getvar st ''AWS_PROFILE'' \<noteq> [] then getvar st ''AWS_PROFILE''
       else if getvar st ''AWS_DEFAULT_PROFILE'' \<noteq> [] then getvar st ''AWS_DEFAULT_PROFILE''
       else ''default'')"
    by (simp add: default_source_profile_def)
  note 3 = awsp_arn_plain(1) [OF assms(1-3), unfolded arn_command_text]
  note 4 = awsp_arn_plain(2) [OF assms(1-3)]
  note 5 = awsp_arn_mfa(1) [OF assms, unfolded arn_command_mfa_text]
  note 6 = awsp_arn_mfa(2) [OF assms]
  from 1 2 3 4 5 6 show ?thesis by blast
qed

theorem role_arn_argument_witness:
  \<open>evaluated (awsp (sample_shell_host None) [''arn:aws:iam::123456789012:role/MyRole'']
                ((sample_shell (files sample_world))\<lparr>vars := [''HOME'' \<mapsto> ''/home/u'']\<rparr>)) =
     Some [''aws sts assume-role --profile "default" --role-arn "arn:aws:iam::123456789012:role/MyRole" --role-session-name "awsp-1700000000"''] \<and>
   commands (awsp (sample_shell_host None) [''arn:aws:iam::123456789012:role/MyRole'']
               (sample_shell (files sample_world))) =
     Some [[''command'', ''-v'', ''jq''], [''command'', ''-v'', ''aws''], [''date'', ''+%s'']] \<and>
   evaluated (awsp (sample_shell_host None) [''-m'', ''123456'', ''arn:aws:iam::123456789012:role/MyRole'']
                (sample_shell (files sample_world))) =
     Some [''aws sts assume-role --profile "ops" --role-arn "arn:aws:iam::123456789012:role/MyRole" --role-session-name "awsp-1700000000" --serial-number "arn:aws:iam::123456789012:mfa/me" --token-code "123456"'']\<close>
proof -
  let ?H = "sample_shell_host None"
  let ?st = "sample_shell (files sample_world)"
  let ?bare = "(sample_shell (files sample_world))\<lparr>vars := [''HOME'' \<mapsto> ''/home/u'']\<rparr>"
  let ?arn = "''arn:aws:iam::123456789012:role/MyRole''"
  have c: "(''123456'' :: string) \<noteq> []"
    by simp
  have ob: "optind ?bare = Some 1"
    by (simp add: optind_def)
  have db: "default_source_profile ?bare = ''default''"
    by (simp add: default_source_profile_def getvar_def)
  have hb: "history ?bare = []"
    by (simp add: sample_shell_def)
  have h: "history ?st = []"
    by (simp add: sample_shell_def)
  have f: "fields ''ops.mfa_serial'' = [''ops.mfa_serial'']"
    by code_simp
  have s: "mfa_serial_lookup ?H hist ''ops'' = ''arn:aws:iam::123456789012:mfa/me''" for hist
    by (simp add: mfa_serial_lookup_def f sample_shell_host_def sample_run_def strip_newlines_def)
  note tb = role_arn_argument [OF sample_tools [of None] ob my_role_arn c]
  note t = role_arn_argument [OF sample_tools [of None] sample_optind [of "files sample_world"]
      my_role_arn c]
  have A: \<open>evaluated (awsp ?H [?arn] ?bare) =
     Some [''aws sts assume-role --profile "default" --role-arn "arn:aws:iam::123456789012:role/MyRole" --role-session-name "awsp-1700000000"'']\<close>
    using tb [THEN conjunct2, THEN conjunct2, THEN conjunct1]
    by (simp add: db hb sample_stamp)
  have B: "commands (awsp ?H [?arn] ?st) =
     Some [[''command'', ''-v'', ''jq''], [''command'', ''-v'', ''aws''], [''date'', ''+%s'']]"
    using t [THEN conjunct2, THEN conjunct2, THEN conjunct2, THEN conjunct1]
    by (simp add: h)
  have C: \<open>evaluated (awsp ?H [''-m'', ''123456'', ?arn] ?st) =
     Some [''aws sts assume-role --profile "ops" --role-arn "arn:aws:iam::123456789012:role/MyRole" --role-session-name "awsp-1700000000" --serial-number "arn:aws:iam::123456789012:mfa/me" --token-code "123456"'']\<close>
    using t [THEN conjunct2, THEN conjunct2, THEN conjunct2, THEN conjunct2, THEN conjunct1]
    by (simp add: h sample_stamp sample_source_profile s)
  from A B C show ?thesis by (intro conjI)
qed

end
